(* ===== verification/Scc_Prelude.thy ===== *)
theory Scc_Prelude
  imports Main "HOL-Library.Word"
begin

text \<open>
  Shared vocabulary of the scclone model: the machine types of the Windows API
  (\<open>DWORD\<close>, \<open>ULONGLONG\<close>, \<open>size_t\<close> as words), the constants of \<open>winsvc.h\<close> that
  the program uses, and the C++ standard-library string operations that the source
  calls (\<open>std::string::find\<close>, \<open>find_first_not_of\<close>, \<open>find_last_not_of\<close>, the
  erase/remove idiom), each with the lemmas the component theories share.
\<close>

unbundle bit_operations_syntax

type_synonym dword = "32 word"
type_synonym ulonglong = "64 word"
type_synonym size_t = "64 word"

text \<open>A \<open>std::map<std::string, std::string>\<close> is a partial map on strings.\<close>

type_synonym arg_map = "string \<rightharpoonup> string"

named_theorems win_consts "values of the winsvc.h constants"
named_theorems cxx_string_simps "evaluation rules of the std::string operations"

subsection \<open>Constants of winsvc.h\<close>

definition SERVICE_KERNEL_DRIVER :: dword where [win_consts]: "SERVICE_KERNEL_DRIVER = 0x1"
definition SERVICE_FILE_SYSTEM_DRIVER :: dword where [win_consts]: "SERVICE_FILE_SYSTEM_DRIVER = 0x2"
definition SERVICE_RECOGNIZER_DRIVER :: dword where [win_consts]: "SERVICE_RECOGNIZER_DRIVER = 0x8"
definition SERVICE_WIN32_OWN_PROCESS :: dword where [win_consts]: "SERVICE_WIN32_OWN_PROCESS = 0x10"
definition SERVICE_WIN32_SHARE_PROCESS :: dword where [win_consts]: "SERVICE_WIN32_SHARE_PROCESS = 0x20"
definition SERVICE_INTERACTIVE_PROCESS :: dword where [win_consts]: "SERVICE_INTERACTIVE_PROCESS = 0x100"

definition SERVICE_BOOT_START :: dword where [win_consts]: "SERVICE_BOOT_START = 0"
definition SERVICE_SYSTEM_START :: dword where [win_consts]: "SERVICE_SYSTEM_START = 1"
definition SERVICE_AUTO_START :: dword where [win_consts]: "SERVICE_AUTO_START = 2"
definition SERVICE_DEMAND_START :: dword where [win_consts]: "SERVICE_DEMAND_START = 3"
definition SERVICE_DISABLED :: dword where [win_consts]: "SERVICE_DISABLED = 4"

definition SERVICE_ERROR_IGNORE :: dword where [win_consts]: "SERVICE_ERROR_IGNORE = 0"
definition SERVICE_ERROR_NORMAL :: dword where [win_consts]: "SERVICE_ERROR_NORMAL = 1"
definition SERVICE_ERROR_SEVERE :: dword where [win_consts]: "SERVICE_ERROR_SEVERE = 2"
definition SERVICE_ERROR_CRITICAL :: dword where [win_consts]: "SERVICE_ERROR_CRITICAL = 3"

definition SERVICE_NO_CHANGE :: dword where [win_consts]: "SERVICE_NO_CHANGE = 0xFFFFFFFF"

definition SERVICE_STOPPED :: dword where [win_consts]: "SERVICE_STOPPED = 1"
definition SERVICE_START_PENDING :: dword where [win_consts]: "SERVICE_START_PENDING = 2"
definition SERVICE_STOP_PENDING :: dword where [win_consts]: "SERVICE_STOP_PENDING = 3"
definition SERVICE_RUNNING :: dword where [win_consts]: "SERVICE_RUNNING = 4"
definition SERVICE_CONTINUE_PENDING :: dword where [win_consts]: "SERVICE_CONTINUE_PENDING = 5"
definition SERVICE_PAUSE_PENDING :: dword where [win_consts]: "SERVICE_PAUSE_PENDING = 6"
definition SERVICE_PAUSED :: dword where [win_consts]: "SERVICE_PAUSED = 7"

definition SC_ACTION_NONE :: dword where [win_consts]: "SC_ACTION_NONE = 0"
definition SC_ACTION_RESTART :: dword where [win_consts]: "SC_ACTION_RESTART = 1"
definition SC_ACTION_REBOOT :: dword where [win_consts]: "SC_ACTION_REBOOT = 2"
definition SC_ACTION_RUN_COMMAND :: dword where [win_consts]: "SC_ACTION_RUN_COMMAND = 3"

subsection \<open>std::string operations\<close>

text \<open>
  \<open>s.find(c, pos)\<close>: the first index at or after \<open>pos\<close> holding \<open>c\<close>; \<open>None\<close>
  stands for \<open>std::string::npos\<close>.
\<close>

function str_find :: "string \<Rightarrow> char \<Rightarrow> nat \<Rightarrow> nat option" where
  "str_find s c pos =
     (if pos < length s then (if s ! pos = c then Some pos else str_find s c (Suc pos))
      else None)"
  by pat_completeness auto
termination
  by (relation "measure (\<lambda>(s, c, pos). length s - pos)") auto

declare str_find.simps [simp del]

text \<open>\<open>find_first_not_of(set)\<close> and \<open>find_last_not_of(set)\<close>, \<open>None\<close> for \<open>npos\<close>.\<close>

fun find_first_not_of :: "char list \<Rightarrow> string \<Rightarrow> nat option" where
  "find_first_not_of cs [] = None"
| "find_first_not_of cs (x # xs) =
     (if x \<in> set cs then map_option Suc (find_first_not_of cs xs) else Some 0)"

definition find_last_not_of :: "char list \<Rightarrow> string \<Rightarrow> nat option" where
  "find_last_not_of cs s =
     map_option (\<lambda>k. length s - Suc k) (find_first_not_of cs (rev s))"

text \<open>\<open>s.erase(std::remove(s.begin(), s.end(), c), s.end())\<close> deletes every \<open>c\<close>.\<close>

definition erase_char :: "char \<Rightarrow> string \<Rightarrow> string" where
  "erase_char c s = filter (\<lambda>x. x \<noteq> c) s"

text \<open>The C runtime's \<open>isspace\<close> in the "C" locale, and \<open>isdigit\<close>.\<close>

definition c_isspace :: "char \<Rightarrow> bool" where
  "c_isspace ch \<longleftrightarrow> ch = CHR '' '' \<or> (9 \<le> (of_char ch :: nat) \<and> (of_char ch :: nat) \<le> 13)"

definition c_isdigit :: "char \<Rightarrow> bool" where
  "c_isdigit ch \<longleftrightarrow> 48 \<le> (of_char ch :: nat) \<and> (of_char ch :: nat) \<le> 57"

text \<open>The NUL character that terminates C strings.\<close>

abbreviation NUL :: char where
  "NUL \<equiv> CHR 0x00"

subsection \<open>Lemmas on the string operations\<close>

lemma str_find_Some:
  assumes "str_find s c pos = Some p"
  shows "pos \<le> p \<and> p < length s \<and> s ! p = c \<and> (\<forall>j. pos \<le> j \<and> j < p \<longrightarrow> s ! j \<noteq> c)"
  using assms
proof (induction s c pos rule: str_find.induct)
  case (1 s c pos)
  show ?case
  proof (cases "pos < length s \<and> s ! pos \<noteq> c")
    case True
    with "1.prems" have "str_find s c (Suc pos) = Some p"
      by (simp add: str_find.simps [of s c pos])
    with True "1.IH" show ?thesis
      by (metis Suc_leD le_antisym not_less_eq_eq)
  next
    case False
    with "1.prems" show ?thesis
      by (auto simp: str_find.simps [of s c pos] split: if_splits)
  qed
qed

lemma str_find_None:
  assumes "str_find s c pos = None" and "pos \<le> j" and "j < length s"
  shows "s ! j \<noteq> c"
  using assms
proof (induction s c pos rule: str_find.induct)
  case (1 s c pos)
  then show ?case
    by (cases "j = pos") (auto simp: str_find.simps [of s c pos] split: if_splits)
qed

lemma str_find_None_iff: "str_find s c pos = None \<longleftrightarrow> (\<forall>j. pos \<le> j \<and> j < length s \<longrightarrow> s ! j \<noteq> c)"
  by (metis option.exhaust str_find_None str_find_Some)

lemma str_find_0_None_iff [cxx_string_simps]: "str_find s c 0 = None \<longleftrightarrow> c \<notin> set s"
  by (auto simp: str_find_None_iff in_set_conv_nth)

lemma str_find_0_Some [cxx_string_simps]:
  "str_find s c 0 = Some p \<longleftrightarrow> p < length s \<and> take p s @ [c] = take (Suc p) s \<and> c \<notin> set (take p s)"
proof
  assume "str_find s c 0 = Some p"
  from str_find_Some [OF this] show "p < length s \<and> take p s @ [c] = take (Suc p) s \<and> c \<notin> set (take p s)"
    by (auto simp: take_Suc_conv_app_nth in_set_conv_nth)
next
  assume a: "p < length s \<and> take p s @ [c] = take (Suc p) s \<and> c \<notin> set (take p s)"
  then have sp: "s ! p = c" by (metis nth_append_length nth_take lessI take_Suc_conv_app_nth)
  from a have none: "\<forall>j. j < p \<longrightarrow> s ! j \<noteq> c"
    by (metis in_set_conv_nth length_take min.absorb4 nth_take)
  show "str_find s c 0 = Some p"
  proof (cases "str_find s c 0")
    case None
    with a sp show ?thesis by (auto simp: str_find_None_iff)
  next
    case (Some q)
    from str_find_Some [OF Some] none sp a have "q = p"
      by (metis linorder_neqE_nat zero_le)
    with Some show ?thesis by simp
  qed
qed

lemma str_find_cons_0 [cxx_string_simps]:
  "str_find (x # xs) c 0 = (if x = c then Some 0 else map_option Suc (str_find xs c 0))"
proof -
  have shift: "str_find (x # xs) c (Suc n) = map_option Suc (str_find xs c n)" for n
  proof (induction xs c n rule: str_find.induct)
    case (1 xs c n)
    then show ?case
      by (simp add: str_find.simps [of "x # xs" c "Suc n"] str_find.simps [of xs c n])
  qed
  show ?thesis
    by (simp add: str_find.simps [of "x # xs" c 0] shift)
qed

lemma str_find_Nil [cxx_string_simps]: "str_find [] c pos = None"
  by (simp add: str_find.simps)

lemma find_first_not_of_None: "find_first_not_of cs s = None \<longleftrightarrow> set s \<subseteq> set cs"
  by (induction s) auto

lemma drop_find_first_not_of:
  "find_first_not_of cs s = Some p \<Longrightarrow> drop p s = dropWhile (\<lambda>x. x \<in> set cs) s"
  by (induction s arbitrary: p) (auto split: if_splits)

lemma erase_char_set [simp]: "set (erase_char c s) = set s - {c}"
  by (auto simp: erase_char_def)

subsection \<open>Lemmas on lists\<close>

lemma drop_split_at:
  assumes "pos \<le> p" "p < length s"
  shows "drop pos s = take (p - pos) (drop pos s) @ s ! p # drop (Suc p) s"
proof -
  have "drop pos s = take (p - pos) (drop pos s) @ drop (p - pos) (drop pos s)"
    by (rule append_take_drop_id [symmetric])
  also have "drop (p - pos) (drop pos s) = drop p s" using assms by simp
  also have "drop p s = s ! p # drop (Suc p) s" using assms by (simp add: Cons_nth_drop_Suc)
  finally show ?thesis .
qed
lemma take_Suc_update:
  assumes "pos \<le> p" "p < length s"
  shows "take (Suc p) (s[p := x]) = take pos s @ take (p - pos) (drop pos s) @ [x]"
proof -
  have "take (Suc p) (s[p := x]) = take p s @ [x]"
    using assms by (simp add: take_Suc_conv_app_nth)
  also have "take p s = take pos s @ take (p - pos) (drop pos s)"
    using assms take_add [of pos "p - pos" s] by simp
  finally show ?thesis by simp
qed

subsection \<open>Lemmas on words\<close>

text \<open>
  Unsigned subtraction \<open>b - a\<close> of tick counts measures the ticks between them even
  across a wrap of the counter; the elapsed times add up while their sum stays below
  \<open>2 ^ 64\<close>.
\<close>

lemma unat_sub_chain:
  fixes a b c :: "'n::len word"
  assumes "unat (b - a) + unat (c - b) < 2 ^ LENGTH('n)"
  shows "unat (c - a) = unat (b - a) + unat (c - b)"
proof -
  have "c - a = (b - a) + (c - b)" by simp
  then show ?thesis using unat_add_lem [THEN iffD1, OF assms] by simp
qed

lemma word_of_int_small_unat:
  "0 \<le> i \<Longrightarrow> i < 2 ^ LENGTH('n) \<Longrightarrow> unat (word_of_int i :: 'n::len word) = nat i"
  by (simp add: unat_eq_nat_uint uint_word_of_int_eq take_bit_int_eq_self)

lemma unat_minus_one_all: "unat (- 1 :: 'a::len word) = 2 ^ LENGTH('a) - 1"
  by (simp add: unsigned_minus_1_eq_mask mask_eq_exp_minus_1)

lemma unat_of_nat_minus_one:
  "0 < n \<Longrightarrow> n < 2 ^ LENGTH('a) \<Longrightarrow> unat (word_of_nat n - 1 :: 'a::len word) = n - 1"
  by (simp add: of_nat_inverse)

lemma and_pow2: "(t::'a::len word) AND 2 ^ k = (if bit t k then 2 ^ k else 0)"
  by (rule bit_word_eqI) (auto simp: bit_and_iff bit_exp_iff)

text \<open>A \<open>DWORD\<close> holds an \<open>int\<close> value modulo \<open>2 ^ 32\<close>.\<close>

lemma word_of_int_iff_uint: "(w :: dword) = word_of_int x \<longleftrightarrow> uint w = x mod 2 ^ 32"
proof
  assume "w = word_of_int x"
  then show "uint w = x mod 2 ^ 32" by (simp only: uint_word_of_int_eq take_bit_eq_mod) simp
next
  assume "uint w = x mod 2 ^ 32"
  then have "uint w = uint (word_of_int x :: dword)" by (simp only: uint_word_of_int_eq take_bit_eq_mod) simp
  then show "w = word_of_int x" by (simp only: word_uint_eq_iff)
qed

end
