(* ===== verification/Scc_Args.thy ===== *)
theory Scc_Args
  imports Scc_Prelude
begin

text \<open>
  The argument-map parser, \<open>ParseArgs\<close> of \<open>src/main-scclone.cpp\<close>. The source walks
  \<open>argv\<close> by index from \<open>startIdx\<close>: a token whose first character is \<open>'/'\<close> opens
  a key (the rest of the token); the next token, when it exists and does not start with
  \<open>'/'\<close>, is consumed as its value, otherwise the value is empty; \<open>args[name] = value\<close>
  overwrites earlier occurrences. \<open>parse_args_loop\<close> is that loop, with \<open>argc\<close> the
  length of \<open>argv\<close>. The reference \<open>arg_pairs\<close> lists the (key, value) pairs in
  order, and the parser is shown to compute the map in which the last pair of each key
  wins.
\<close>

text \<open>
  \<open>arg[0] == '/'\<close>: on an empty token \<open>std::string::operator[]\<close> at index 0 returns
  the terminating NUL, so an empty token is no marker.
\<close>

definition is_marker :: "string \<Rightarrow> bool" where
  "is_marker s \<longleftrightarrow> (case s of [] \<Rightarrow> False | c # _ \<Rightarrow> c = CHR ''/'')"

function parse_args_loop :: "string list \<Rightarrow> nat \<Rightarrow> arg_map \<Rightarrow> arg_map" where
  "parse_args_loop argv i args =
     (if i < length argv then
        (if is_marker (argv ! i) then
           (let name = drop 1 (argv ! i) in
            if Suc i < length argv \<and> \<not> is_marker (argv ! Suc i)
            then parse_args_loop argv (i + 2) (args(name \<mapsto> argv ! Suc i))
            else parse_args_loop argv (Suc i) (args(name \<mapsto> '''')))
         else parse_args_loop argv (Suc i) args)
      else args)"
  by pat_completeness auto
termination
  by (relation "measure (\<lambda>(argv, i, args). length argv - i)") auto

declare parse_args_loop.simps [simp del]

definition ParseArgs :: "string list \<Rightarrow> nat \<Rightarrow> arg_map" where
  "ParseArgs argv startIdx = parse_args_loop argv startIdx Map.empty"

subsection \<open>Reference: the list of option pairs\<close>

fun arg_pairs :: "string list \<Rightarrow> (string \<times> string) list" where
  "arg_pairs [] = []"
| "arg_pairs [a] = (if is_marker a then [(drop 1 a, '''')] else [])"
| "arg_pairs (a # b # rest) =
     (if is_marker a then
        (if is_marker b then (drop 1 a, '''') # arg_pairs (b # rest)
         else (drop 1 a, b) # arg_pairs rest)
      else arg_pairs (b # rest))"

definition arg_map_of :: "(string \<times> string) list \<Rightarrow> arg_map" where
  "arg_map_of ps = map_of (rev ps)"

lemma arg_map_of_Cons: "arg_map_of ((k, v) # ps) = [k \<mapsto> v] ++ arg_map_of ps"
  by (simp add: arg_map_of_def map_add_def)

lemma upd_arg_map_of_shift: "m(k \<mapsto> v) ++ arg_map_of ps = m ++ arg_map_of ((k, v) # ps)"
  by (simp add: arg_map_of_Cons map_add_upd_left map_add_assoc [symmetric])

lemma parse_args_loop_pairs:
  "parse_args_loop argv i m = m ++ arg_map_of (arg_pairs (drop i argv))"
proof (induction argv i m rule: parse_args_loop.induct)
  case (1 argv i args)
  show ?case
  proof (cases "i < length argv")
    case False
    then show ?thesis
      by (simp add: parse_args_loop.simps [of argv i args] arg_map_of_def)
  next
    case i: True
    then have dr: "drop i argv = argv ! i # drop (Suc i) argv"
      by (simp add: Cons_nth_drop_Suc)
    show ?thesis
    proof (cases "is_marker (argv ! i)")
      case False
      with i "1.IH"(3) dr show ?thesis
        by (cases "drop (Suc i) argv") (simp_all add: parse_args_loop.simps [of argv i args])
    next
      case mk: True
      show ?thesis
      proof (cases "Suc i < length argv")
        case False
        with i have "drop (Suc i) argv = []" by simp
        with i mk False dr show ?thesis
          by (simp add: parse_args_loop.simps [of argv i args] arg_map_of_def Let_def
              parse_args_loop.simps [of argv "Suc i"] map_add_def fun_eq_iff)
      next
        case si: True
        then have dr2: "drop (Suc i) argv = argv ! Suc i # drop (Suc (Suc i)) argv"
          by (simp add: Cons_nth_drop_Suc)
        show ?thesis
        proof (cases "is_marker (argv ! Suc i)")
          case True
          let ?m = "args(drop 1 (argv ! i) \<mapsto> [])"
          have "parse_args_loop argv i args = parse_args_loop argv (Suc i) ?m"
            using i mk si True by (simp add: parse_args_loop.simps [of argv i args] Let_def)
          also have "\<dots> = ?m ++ arg_map_of (arg_pairs (drop (Suc i) argv))"
            by (rule "1.IH"(2)) (simp_all add: i mk si True)
          finally show ?thesis
            using mk True dr dr2 by (simp add: upd_arg_map_of_shift)
        next
          case False
          let ?m = "args(drop 1 (argv ! i) \<mapsto> argv ! Suc i)"
          have "parse_args_loop argv i args = parse_args_loop argv (i + 2) ?m"
            using i mk si False by (simp add: parse_args_loop.simps [of argv i args] Let_def)
          also have "\<dots> = ?m ++ arg_map_of (arg_pairs (drop (i + 2) argv))"
            by (rule "1.IH"(1)) (simp_all add: i mk si False)
          finally show ?thesis
            using mk False dr dr2 by (simp add: upd_arg_map_of_shift)
        qed
      qed
    qed
  qed
qed

subsection \<open>Properties of the pair list\<close>

lemma arg_pairs_keys:
  "fst ` set (arg_pairs xs) = (\<lambda>a. drop 1 a) ` {a \<in> set xs. is_marker a}"
  by (induction xs rule: arg_pairs.induct) auto

lemma arg_pairs_values:
  "(k, v) \<in> set (arg_pairs xs) \<Longrightarrow> \<not> is_marker v"
  by (induction xs rule: arg_pairs.induct) (auto simp: is_marker_def split: if_splits)

lemma dom_arg_map_of: "dom (arg_map_of ps) = fst ` set ps"
  by (simp add: arg_map_of_def dom_map_of_conv_image_fst)

lemma ran_arg_map_of: "arg_map_of ps k = Some v \<Longrightarrow> (k, v) \<in> set ps"
  unfolding arg_map_of_def by (drule map_of_SomeD) simp

subsection \<open>Properties of ParseArgs\<close>

text \<open>
  C34: ParseArgs refines the reference parser: the map it builds from
  \<open>argv[startIdx..]\<close> is the pair list of that suffix read with the last pair of each
  key winning.
\<close>

theorem ParseArgs_refines: "ParseArgs argv i = arg_map_of (arg_pairs (drop i argv))"
  by (simp add: ParseArgs_def parse_args_loop_pairs)

text \<open>
  C35: the keys of the map are exactly the option markers of the suffix with their
  leading slash removed: no marker token is ever swallowed as a value, and no other
  token becomes a key.
\<close>

theorem ParseArgs_dom:
  "dom (ParseArgs argv i) = (\<lambda>a. drop 1 a) ` {a \<in> set (drop i argv). is_marker a}"
  by (simp add: ParseArgs_def parse_args_loop_pairs dom_arg_map_of arg_pairs_keys)

text \<open>
  C37: a value stored in the map never starts with the option marker \<open>'/'\<close>, so a
  value such as a dependency list or a path cannot begin with a slash.
\<close>

theorem ParseArgs_value_not_marker:
  "ParseArgs argv i k = Some v \<Longrightarrow> \<not> is_marker v"
  by (auto simp: ParseArgs_def parse_args_loop_pairs dest: ran_arg_map_of arg_pairs_values)

theorem ParseArgs_value_not_marker_witness:
  "ParseArgs [''scclone'', ''create'', ''/binpath'', ''/x''] 2 ''binpath'' = Some ''''
   \<and> \<not> is_marker ''''"
proof -
  have e: "ParseArgs [''scclone'', ''create'', ''/binpath'', ''/x''] 2 ''binpath'' = Some ''''"
    by (simp add: ParseArgs_def parse_args_loop.simps is_marker_def)
  show ?thesis using ParseArgs_value_not_marker [OF e] e by simp
qed

end
