(* ===== verification/Scc_Encoders.thy ===== *)
theory Scc_Encoders
  imports Scc_Args
begin

text \<open>
  The field encoders of \<open>CreateService\<close> and \<open>ConfigService\<close>
  (\<open>src/main-scclone.cpp\<close>): the if/else chains that turn the \<open>/start\<close>,
  \<open>/type\<close> and \<open>/error\<close> option values into \<open>DWORD\<close> registry constants, and the
  loop that turns a \<open>/depend\<close> value \<open>a/b/c\<close> into the double-NUL-terminated
  multi-string the service manager reads. \<open>CreateService\<close> falls back to defaults
  (demand start, own process, normal error control); \<open>ConfigService\<close> falls back to
  \<open>SERVICE_NO_CHANGE\<close>. The registry's reading of a multi-string
  (\<open>multi_sz_read\<close>) is the Windows API's documented format, not repository code.
\<close>

datatype param_error = InteractNeedsOwnOrShare

subsection \<open>Start type, service type, error control in CreateService\<close>

definition create_start_type :: "arg_map \<Rightarrow> dword" where
  "create_start_type args =
     (case args ''start'' of
        None \<Rightarrow> SERVICE_DEMAND_START
      | Some start \<Rightarrow>
          (if start = ''boot'' then SERVICE_BOOT_START
           else if start = ''system'' then SERVICE_SYSTEM_START
           else if start = ''auto'' then SERVICE_AUTO_START
           else if start = ''demand'' then SERVICE_DEMAND_START
           else if start = ''disabled'' then SERVICE_DISABLED
           else if start = ''delayed-auto'' then SERVICE_AUTO_START
           else SERVICE_DEMAND_START))"

definition create_service_type :: "arg_map \<Rightarrow> param_error + dword" where
  "create_service_type args =
     (case args ''type'' of
        None \<Rightarrow> Inr SERVICE_WIN32_OWN_PROCESS
      | Some type \<Rightarrow>
          (if type = ''own'' then Inr SERVICE_WIN32_OWN_PROCESS
           else if type = ''share'' then Inr SERVICE_WIN32_SHARE_PROCESS
           else if type = ''kernel'' then Inr SERVICE_KERNEL_DRIVER
           else if type = ''filesys'' then Inr SERVICE_FILE_SYSTEM_DRIVER
           else if type = ''rec'' then Inr (SERVICE_FILE_SYSTEM_DRIVER OR SERVICE_RECOGNIZER_DRIVER)
           else if type = ''interact type=own''
             then Inr (SERVICE_INTERACTIVE_PROCESS OR SERVICE_WIN32_OWN_PROCESS)
           else if type = ''interact type=share''
             then Inr (SERVICE_INTERACTIVE_PROCESS OR SERVICE_WIN32_SHARE_PROCESS)
           else if type = ''interact'' then Inl InteractNeedsOwnOrShare
           else Inr SERVICE_WIN32_OWN_PROCESS))"

definition create_error_control :: "arg_map \<Rightarrow> dword" where
  "create_error_control args =
     (case args ''error'' of
        None \<Rightarrow> SERVICE_ERROR_NORMAL
      | Some error \<Rightarrow>
          (if error = ''normal'' then SERVICE_ERROR_NORMAL
           else if error = ''severe'' then SERVICE_ERROR_SEVERE
           else if error = ''critical'' then SERVICE_ERROR_CRITICAL
           else if error = ''ignore'' then SERVICE_ERROR_IGNORE
           else SERVICE_ERROR_NORMAL))"

text \<open>The secondary request for delayed auto-start (\<open>args.at("start") == "delayed-auto"\<close>).\<close>

definition wants_delayed_auto :: "arg_map \<Rightarrow> bool" where
  "wants_delayed_auto args \<longleftrightarrow> args ''start'' = Some ''delayed-auto''"

subsection \<open>The same fields in ConfigService\<close>

definition config_service_type :: "arg_map \<Rightarrow> dword" where
  "config_service_type args =
     (case args ''type'' of
        None \<Rightarrow> SERVICE_NO_CHANGE
      | Some type \<Rightarrow>
          (if type = ''own'' then SERVICE_WIN32_OWN_PROCESS
           else if type = ''share'' then SERVICE_WIN32_SHARE_PROCESS
           else if type = ''kernel'' then SERVICE_KERNEL_DRIVER
           else if type = ''filesys'' then SERVICE_FILE_SYSTEM_DRIVER
           else if type = ''rec'' then SERVICE_FILE_SYSTEM_DRIVER OR SERVICE_RECOGNIZER_DRIVER
           else if type = ''interact type=own''
             then SERVICE_INTERACTIVE_PROCESS OR SERVICE_WIN32_OWN_PROCESS
           else if type = ''interact type=share''
             then SERVICE_INTERACTIVE_PROCESS OR SERVICE_WIN32_SHARE_PROCESS
           else SERVICE_NO_CHANGE))"

definition config_start_type :: "arg_map \<Rightarrow> dword" where
  "config_start_type args =
     (case args ''start'' of
        None \<Rightarrow> SERVICE_NO_CHANGE
      | Some start \<Rightarrow>
          (if start = ''boot'' then SERVICE_BOOT_START
           else if start = ''system'' then SERVICE_SYSTEM_START
           else if start = ''auto'' then SERVICE_AUTO_START
           else if start = ''demand'' then SERVICE_DEMAND_START
           else if start = ''disabled'' then SERVICE_DISABLED
           else SERVICE_NO_CHANGE))"

definition config_error_control :: "arg_map \<Rightarrow> dword" where
  "config_error_control args =
     (case args ''error'' of
        None \<Rightarrow> SERVICE_NO_CHANGE
      | Some error \<Rightarrow>
          (if error = ''normal'' then SERVICE_ERROR_NORMAL
           else if error = ''severe'' then SERVICE_ERROR_SEVERE
           else if error = ''critical'' then SERVICE_ERROR_CRITICAL
           else if error = ''ignore'' then SERVICE_ERROR_IGNORE
           else SERVICE_NO_CHANGE))"

subsection \<open>The dependency list\<close>

text \<open>
  \<open>while ((pos = dependStr.find('/', pos)) != npos) { dependStr.replace(pos, 1, 1, '\0');
  pos++; }\<close>: each slash from \<open>pos\<close> on becomes a NUL.
\<close>

function nul_separate :: "string \<Rightarrow> nat \<Rightarrow> string" where
  "nul_separate s pos =
     (case str_find s CHR ''/'' pos of
        None \<Rightarrow> s
      | Some p \<Rightarrow> nul_separate (s[p := NUL]) (Suc p))"
  by pat_completeness auto
termination
proof (relation "measure (\<lambda>(s, pos). length s - pos)")
  fix s pos p
  assume "str_find s CHR ''/'' pos = Some p"
  from str_find_Some [OF this] show "((s[p := NUL], Suc p), s, pos) \<in> measure (\<lambda>(s, pos). length s - pos)"
    by auto
qed auto

declare nul_separate.simps [simp del]

text \<open>
  \<open>dependStr.push_back('\0')\<close> ends the list; the \<open>LPSTR\<close> handed to the API is
  \<open>dependStr.c_str()\<close>, which carries one more NUL.
\<close>

definition encode_depend :: "string \<Rightarrow> string" where
  "encode_depend v = nul_separate v 0 @ [NUL]"

definition depend_buffer :: "string \<Rightarrow> string" where
  "depend_buffer v = encode_depend v @ [NUL]"

text \<open>
  The service manager reads \<open>lpDependencies\<close> as a sequence of NUL-terminated names
  that ends at the first empty name.
\<close>

function multi_sz_read :: "string \<Rightarrow> string list" where
  "multi_sz_read buf =
     (let w = takeWhile (\<lambda>c. c \<noteq> NUL) buf in
      if w = [] then [] else w # multi_sz_read (drop (Suc (length w)) buf))"
  by pat_completeness auto
termination
proof (relation "measure length")
  fix buf :: string and w
  assume "w = takeWhile (\<lambda>c. c \<noteq> NUL) buf" and "w \<noteq> []"
  then have "0 < length buf" by (cases buf) auto
  then show "(drop (Suc (length w)) buf, buf) \<in> measure length" by simp
qed auto

declare multi_sz_read.simps [simp del]

text \<open>The user's \<open>/depend\<close> syntax: names joined by slashes.\<close>

fun join_slash :: "string list \<Rightarrow> string" where
  "join_slash [] = []"
| "join_slash [n] = n"
| "join_slash (n # ns) = n @ CHR ''/'' # join_slash ns"

subsection \<open>Well-formed service types\<close>

text \<open>
  The constraint of the service manager on \<open>dwServiceType\<close>: the interactive flag
  goes with exactly one of own-process and share-process, and driver flags never go
  with process flags.
\<close>

definition svc_type_wf :: "dword \<Rightarrow> bool" where
  "svc_type_wf t \<longleftrightarrow>
     (t AND SERVICE_INTERACTIVE_PROCESS \<noteq> 0 \<longrightarrow>
        (t AND SERVICE_WIN32_OWN_PROCESS \<noteq> 0) \<noteq> (t AND SERVICE_WIN32_SHARE_PROCESS \<noteq> 0))
   \<and> \<not> (t AND (SERVICE_KERNEL_DRIVER OR SERVICE_FILE_SYSTEM_DRIVER) \<noteq> 0
        \<and> t AND (SERVICE_WIN32_OWN_PROCESS OR SERVICE_WIN32_SHARE_PROCESS) \<noteq> 0)"

subsection \<open>Reference definitions and lemmas of the dependency encoding\<close>

text \<open>
  \<open>sep_char\<close> is what the loop does to one character; \<open>split_on\<close> splits a string at a
  separator (the spec's view of \<open>a/b/c\<close>).
\<close>

definition sep_char :: "char \<Rightarrow> char" where
  "sep_char c = (if c = CHR ''/'' then NUL else c)"

fun split_on :: "char \<Rightarrow> string \<Rightarrow> string list" where
  "split_on c [] = [[]]"
| "split_on c (x # xs) =
     (if x = c then [] # split_on c xs
      else (case split_on c xs of w # ws \<Rightarrow> (x # w) # ws | [] \<Rightarrow> [[x]]))"

lemma map_sep_char_id: "CHR ''/'' \<notin> set w \<Longrightarrow> map sep_char w = w"
  by (induction w) (auto simp: sep_char_def)

lemma nul_separate_map:
  "nul_separate s pos = take pos s @ map sep_char (drop pos s)"
proof (induction s pos rule: nul_separate.induct)
  case (1 s pos)
  show ?case
  proof (cases "str_find s CHR ''/'' pos")
    case None
    then have "CHR ''/'' \<notin> set (drop pos s)"
      by (auto simp: str_find_None_iff in_set_conv_nth)
    with None show ?thesis
      by (simp add: nul_separate.simps [of s pos] map_sep_char_id)
  next
    case (Some p)
    note f = str_find_Some [OF Some]
    then have mid: "CHR ''/'' \<notin> set (take (p - pos) (drop pos s))"
      by (auto simp: in_set_conv_nth)
    have "nul_separate s pos = nul_separate (s[p := NUL]) (Suc p)"
      using Some by (simp add: nul_separate.simps [of s pos])
    also have "\<dots> = take (Suc p) (s[p := NUL]) @ map sep_char (drop (Suc p) (s[p := NUL]))"
      using Some by (rule "1.IH")
    also have "\<dots> = take pos s @ map sep_char (drop pos s)"
    proof -
      have t: "take (Suc p) (s[p := NUL]) = take pos s @ take (p - pos) (drop pos s) @ [NUL]"
        using f by (intro take_Suc_update) auto
      have d: "drop pos s = take (p - pos) (drop pos s) @ CHR ''/'' # drop (Suc p) s"
        using f drop_split_at [of pos p s] by simp
      then have "map sep_char (drop pos s)
          = map sep_char (take (p - pos) (drop pos s) @ CHR ''/'' # drop (Suc p) s)"
        by (rule arg_cong)
      then show ?thesis using t by (simp add: map_sep_char_id [OF mid] sep_char_def)
    qed
    finally show ?thesis .
  qed
qed

lemma split_on_nonempty: "split_on c s \<noteq> []"
  by (induction s) (auto split: list.splits)

lemma split_on_no_sep: "c \<notin> set w \<Longrightarrow> split_on c (w @ rest) = (case split_on c rest of v # vs \<Rightarrow> (w @ v) # vs | [] \<Rightarrow> [w])"
  by (induction w) (auto split: list.splits simp: split_on_nonempty)

lemma multi_sz_read_word:
  assumes "w \<noteq> []" and "NUL \<notin> set w"
  shows "multi_sz_read (w @ NUL # rest) = w # multi_sz_read rest"
proof -
  from assms(2) have "takeWhile (\<lambda>c. c \<noteq> NUL) (w @ NUL # rest) = w @ takeWhile (\<lambda>c. c \<noteq> NUL) (NUL # rest)"
    by (intro takeWhile_append2) auto
  with assms(1) show ?thesis
    by (simp add: multi_sz_read.simps [of "w @ NUL # rest"])
qed

lemma multi_sz_read_NUL: "multi_sz_read (NUL # rest) = []"
  by (simp add: multi_sz_read.simps)

lemma depend_read_segments:
  "NUL \<notin> set v \<Longrightarrow>
   multi_sz_read (map sep_char v @ NUL # NUL # rest) = takeWhile (\<lambda>w. w \<noteq> []) (split_on CHR ''/'' v)"
proof (induction "length v" arbitrary: v rule: less_induct)
  case less
  define w where "w = takeWhile (\<lambda>c. c \<noteq> CHR ''/'') v"
  define r where "r = dropWhile (\<lambda>c. c \<noteq> CHR ''/'') v"
  have v: "v = w @ r" by (simp add: w_def r_def)
  have nw: "CHR ''/'' \<notin> set w" by (auto simp: w_def dest: set_takeWhileD)
  have nn: "NUL \<notin> set w" using less.prems v by simp
  show ?case
  proof (cases r)
    case Nil
    then have vw: "v = w" using v by simp
    have sp: "split_on CHR ''/'' v = [v]"
      using split_on_no_sep [OF nw, of "[]"] vw by simp
    show ?thesis
    proof (cases "v = []")
      case True
      then show ?thesis by (simp add: multi_sz_read_NUL)
    next
      case False
      have "multi_sz_read (map sep_char v @ NUL # NUL # rest) = v # multi_sz_read (NUL # rest)"
        using False nn vw by (simp add: map_sep_char_id [OF nw] multi_sz_read_word)
      then show ?thesis using False sp by (simp add: multi_sz_read_NUL)
    qed
  next
    case (Cons c r')
    then have c: "c = CHR ''/''" by (simp add: r_def dropWhile_eq_Cons_conv)
    with Cons v have v2: "v = w @ CHR ''/'' # r'" by simp
    have short: "length r' < length v" using v2 by simp
    have nr: "NUL \<notin> set r'" using less.prems v2 by simp
    have IH: "multi_sz_read (map sep_char r' @ NUL # NUL # rest) = takeWhile (\<lambda>w. w \<noteq> []) (split_on CHR ''/'' r')"
      using less.hyps [OF short nr] .
    have m: "map sep_char v = w @ NUL # map sep_char r'"
      using v2 nw by (simp add: map_sep_char_id sep_char_def)
    have s: "split_on CHR ''/'' v = w # split_on CHR ''/'' r'"
      using v2 split_on_no_sep [OF nw, of "CHR ''/'' # r'"] by simp
    show ?thesis
    proof (cases "w = []")
      case True
      then show ?thesis using m s by (simp add: multi_sz_read_NUL)
    next
      case False
      then show ?thesis using m s nn IH by (simp add: multi_sz_read_word)
    qed
  qed
qed

lemma split_on_join_slash:
  "names \<noteq> [] \<Longrightarrow> \<forall>n\<in>set names. CHR ''/'' \<notin> set n \<Longrightarrow> split_on CHR ''/'' (join_slash names) = names"
proof (induction names rule: join_slash.induct)
  case (2 n)
  then show ?case using split_on_no_sep [of "CHR ''/''" n "[]"] by simp
next
  case (3 n m ns)
  then show ?case using split_on_no_sep [of "CHR ''/''" n "CHR ''/'' # join_slash (m # ns)"] by simp
qed simp

lemma depend_buffer_map: "depend_buffer v = map sep_char v @ [NUL, NUL]"
  by (simp add: depend_buffer_def encode_depend_def nul_separate_map)

text \<open>
  C29: round trip of the dependency encoding: names that are non-empty and hold neither
  a slash nor a NUL, joined with slashes, encoded and read back by the service manager,
  come back exactly.
\<close>

theorem depend_roundtrip:
  assumes "\<forall>n\<in>set names. n \<noteq> [] \<and> CHR ''/'' \<notin> set n \<and> NUL \<notin> set n"
  shows "multi_sz_read (depend_buffer (join_slash names)) = names"
proof (cases "names = []")
  case True
  then show ?thesis by (simp add: depend_buffer_map multi_sz_read_NUL)
next
  case False
  have nul: "NUL \<notin> set (join_slash names)"
    using assms by (induction names rule: join_slash.induct) auto
  have "multi_sz_read (depend_buffer (join_slash names))
      = takeWhile (\<lambda>w. w \<noteq> []) (split_on CHR ''/'' (join_slash names))"
    using depend_read_segments [OF nul, of "[]"] by (simp add: depend_buffer_map)
  also have "\<dots> = names"
    using False assms by (simp add: split_on_join_slash takeWhile_eq_all_conv)
  finally show ?thesis .
qed

theorem depend_roundtrip_witness:
  "multi_sz_read (depend_buffer ''a/b/c'') = [''a'', ''b'', ''c'']"
proof -
  have h: "\<forall>n\<in>set [''a'', ''b'', ''c'']. n \<noteq> [] \<and> CHR ''/'' \<notin> set n \<and> NUL \<notin> set n" by simp
  have "join_slash [''a'', ''b'', ''c''] = ''a/b/c''" by simp
  then show ?thesis using depend_roundtrip [OF h] by simp
qed

lemma config_service_type_wf:
  "config_service_type args = SERVICE_NO_CHANGE \<or> svc_type_wf (config_service_type args)"
  by (auto simp: config_service_type_def svc_type_wf_def win_consts split: option.splits)

subsection \<open>Properties of the encoders\<close>

text \<open>
  C27: the slash-replacing loop of the dependency encoding is the character-wise map
  that turns every slash into a NUL, followed by the pushed-back NUL.
\<close>

theorem encode_depend_map: "encode_depend v = map sep_char v @ [NUL]"
  by (simp add: encode_depend_def nul_separate_map)

text \<open>
  C28: what the service manager sees: for any \<open>/depend\<close> value (argv strings hold no
  NUL), the names read from the buffer are the slash-separated segments up to the first
  empty one. In particular \<open>a//b\<close> registers only \<open>a\<close>.
\<close>

theorem depend_registry_view:
  assumes "NUL \<notin> set v"
  shows "multi_sz_read (depend_buffer v) = takeWhile (\<lambda>w. w \<noteq> []) (split_on CHR ''/'' v)"
  using depend_read_segments [OF assms, of "[]"] by (simp add: depend_buffer_map)

theorem depend_registry_view_witness:
  "NUL \<notin> set ''a//b'' \<and> multi_sz_read (depend_buffer ''a//b'') = [''a'']"
proof -
  have h: "NUL \<notin> set ''a//b''" by simp
  show ?thesis using depend_registry_view [OF h] h by simp
qed

text \<open>
  C30: every service type that CreateService submits is well formed: the interactive
  flag comes with exactly one of own/share process, and no driver flag is combined with
  a process flag.
\<close>

theorem create_service_type_wf:
  "create_service_type args = Inr t \<Longrightarrow> svc_type_wf t"
  by (auto simp: create_service_type_def svc_type_wf_def win_consts split: option.splits if_splits)

theorem create_service_type_wf_witness:
  "create_service_type [''type'' \<mapsto> ''interact type=own''] = Inr 0x110 \<and> svc_type_wf 0x110"
proof -
  have e: "create_service_type [''type'' \<mapsto> ''interact type=own''] = Inr 0x110"
    by (simp add: create_service_type_def win_consts)
  show ?thesis using create_service_type_wf [OF e] e by simp
qed

text \<open>
  C31: an unrecognised \<open>/start\<close> value silently becomes demand start in
  CreateService.
\<close>

theorem create_start_type_fallback:
  assumes "args ''start'' = Some s"
    and "s \<notin> {''boot'', ''system'', ''auto'', ''demand'', ''disabled'', ''delayed-auto''}"
  shows "create_start_type args = SERVICE_DEMAND_START"
  using assms by (simp add: create_start_type_def)

theorem create_start_type_fallback_witness:
  "[''start'' \<mapsto> ''bogus''] ''start'' = Some ''bogus''
   \<and> ''bogus'' \<notin> {''boot'', ''system'', ''auto'', ''demand'', ''disabled'', ''delayed-auto''}
   \<and> create_start_type [''start'' \<mapsto> ''bogus''] = SERVICE_DEMAND_START"
  using create_start_type_fallback [of "[''start'' \<mapsto> ''bogus'']" "''bogus''"] by simp

text \<open>
  C32: \<open>/start delayed-auto\<close> is automatic start plus a separate delayed-start request
  in CreateService, but in ConfigService the primary start type is left unchanged
  (\<open>SERVICE_NO_CHANGE\<close>); only the secondary request is made.
\<close>

theorem delayed_auto_create_vs_config:
  assumes "wants_delayed_auto args"
  shows "create_start_type args = SERVICE_AUTO_START \<and> config_start_type args = SERVICE_NO_CHANGE"
  using assms by (simp add: wants_delayed_auto_def create_start_type_def config_start_type_def)

theorem delayed_auto_create_vs_config_witness:
  "wants_delayed_auto [''start'' \<mapsto> ''delayed-auto'']
   \<and> create_start_type [''start'' \<mapsto> ''delayed-auto''] = SERVICE_AUTO_START
   \<and> config_start_type [''start'' \<mapsto> ''delayed-auto''] = SERVICE_NO_CHANGE"
proof -
  have h: "wants_delayed_auto [''start'' \<mapsto> ''delayed-auto'']" by (simp add: wants_delayed_auto_def)
  show ?thesis using delayed_auto_create_vs_config [OF h] h by simp
qed

text \<open>
  C33: a bare \<open>/type interact\<close> is rejected by CreateService, but ConfigService
  accepts it silently as "no change".
\<close>

theorem interact_create_vs_config:
  assumes "args ''type'' = Some ''interact''"
  shows "create_service_type args = Inl InteractNeedsOwnOrShare
         \<and> config_service_type args = SERVICE_NO_CHANGE"
  using assms by (simp add: create_service_type_def config_service_type_def)

theorem interact_create_vs_config_witness:
  "[''type'' \<mapsto> ''interact''] ''type'' = Some ''interact''
   \<and> create_service_type [''type'' \<mapsto> ''interact''] = Inl InteractNeedsOwnOrShare
   \<and> config_service_type [''type'' \<mapsto> ''interact''] = SERVICE_NO_CHANGE"
  using interact_create_vs_config [of "[''type'' \<mapsto> ''interact'']"] by simp

end
