(* ===== verification/Scc_Failure.thy ===== *)
theory Scc_Failure
  imports Scc_Encoders
begin

text \<open>
  The failure-action builder of \<open>SetServiceFailureActions\<close>
  (\<open>src/main-scclone.cpp\<close>): the reset period (quotes and spaces removed, then
  \<open>std::stoi\<close>, 86400 on an exception), the reboot message and command, and the
  \<open>/actions\<close> value: quotes removed, split at slashes by a find/erase loop, each token
  trimmed of blanks and tabs, then read two at a time as (action kind, delay in seconds)
  by a loop whose bound is \<open>pairs.size() - 1\<close> in \<open>size_t\<close>. The builder's result
  is the \<open>SERVICE_FAILURE_ACTIONSA\<close> structure handed to \<open>ChangeServiceConfig2A\<close>,
  together with the warnings the code prints; undefined behaviour of the C++ code is an
  explicit error value.
\<close>

datatype stoi_error = InvalidArgument | OutOfRange

datatype warning =
    InvalidResetPeriod
  | InvalidActionType string
  | InvalidDelay

text \<open>Undefined behaviour the builder can reach.\<close>

datatype ub =
    VectorReadOutOfRange nat
  | SignedOverflow int

record sc_action =
  act_type :: dword
  act_delay :: dword

record failure_actions =
  fa_reset :: dword
  fa_reboot_msg :: "string option"
  fa_command :: "string option"
  fa_actions :: "sc_action list"

subsection \<open>std::stoi\<close>

text \<open>
  \<open>std::stoi(s)\<close> calls \<open>strtol(s.c_str(), &end, 10)\<close>: leading white space is
  skipped, an optional sign is read, then decimal digits. No digit is
  \<open>std::invalid_argument\<close>; a value outside \<open>int\<close> is \<open>std::out_of_range\<close>.
\<close>

definition digits_value :: "string \<Rightarrow> int" where
  "digits_value ds = foldl (\<lambda>n d. 10 * n + (int (of_char d) - 48)) 0 ds"

definition INT_MIN :: int where "INT_MIN = - (2 ^ 31)"
definition INT_MAX :: int where "INT_MAX = 2 ^ 31 - 1"

definition stoi :: "string \<Rightarrow> stoi_error + int" where
  "stoi s =
     (let s1 = dropWhile c_isspace s;
          (neg, s2) = (case s1 of
                         c # r \<Rightarrow> (if c = CHR ''-'' then (True, r)
                                  else if c = CHR ''+'' then (False, r) else (False, s1))
                       | [] \<Rightarrow> (False, []));
          ds = takeWhile c_isdigit s2
      in if ds = [] then Inl InvalidArgument
         else (let v = (if neg then - digits_value ds else digits_value ds) in
               if v < INT_MIN \<or> INT_MAX < v then Inl OutOfRange else Inr v))"

subsection \<open>Reset period, reboot message, command\<close>

definition reset_period :: "arg_map \<Rightarrow> int \<times> warning list" where
  "reset_period args =
     (case args ''reset'' of
        None \<Rightarrow> (86400, [])
      | Some v \<Rightarrow>
          (case stoi (erase_char CHR '' '' (erase_char CHR ''\"'' v)) of
             Inr n \<Rightarrow> (n, [])
           | Inl _ \<Rightarrow> (86400, [InvalidResetPeriod])))"

subsection \<open>Splitting the actions string\<close>

text \<open>
  \<open>token.erase(0, token.find_first_not_of(" \t")); token.erase(token.find_last_not_of(" \t") + 1);\<close>
  When no character is kept, the first call erases up to \<open>npos\<close>, that is everything,
  and in the second \<open>npos + 1\<close> wraps to 0 in \<open>size_t\<close>, which erases everything too.
\<close>

definition blank_chars :: "char list" where
  "blank_chars = [CHR '' '', CHR 0x09]"

definition trim_token :: "string \<Rightarrow> string" where
  "trim_token t =
     (let t1 = (case find_first_not_of blank_chars t of None \<Rightarrow> [] | Some p \<Rightarrow> drop p t) in
      case find_last_not_of blank_chars t1 of None \<Rightarrow> [] | Some p \<Rightarrow> take (Suc p) t1)"

text \<open>
  \<open>while ((pos = actionsStr.find("/")) != npos) { token = actionsStr.substr(0, pos); trim;
  pairs.push_back(token); actionsStr.erase(0, pos + 1); }\<close>, then the last part is
  pushed, trimmed, only when it is not empty before trimming.
\<close>

function split_actions :: "string \<Rightarrow> string list \<Rightarrow> string list" where
  "split_actions s pairs =
     (case str_find s CHR ''/'' 0 of
        Some pos \<Rightarrow> split_actions (drop (Suc pos) s) (pairs @ [trim_token (take pos s)])
      | None \<Rightarrow> (if s \<noteq> [] then pairs @ [trim_token s] else pairs))"
  by pat_completeness auto
termination
proof (relation "measure (\<lambda>(s, pairs). length s)")
  fix s pairs pos
  assume "str_find s CHR ''/'' 0 = Some pos"
  from str_find_Some [OF this] show "((drop (Suc pos) s, pairs @ [trim_token (take pos s)]), s, pairs)
      \<in> measure (\<lambda>(s, pairs). length s)" by auto
qed auto

declare split_actions.simps [simp del]

subsection \<open>Reading the pairs\<close>

definition action_type_of :: "string \<Rightarrow> dword \<times> warning list" where
  "action_type_of actionType =
     (if actionType = ''run'' then (SC_ACTION_RUN_COMMAND, [])
      else if actionType = ''restart'' then (SC_ACTION_RESTART, [])
      else if actionType = ''reboot'' then (SC_ACTION_REBOOT, [])
      else if actionType = ''none'' then (SC_ACTION_NONE, [])
      else (SC_ACTION_NONE, [InvalidActionType actionType]))"

text \<open>
  \<open>action.Delay = std::stoi(pairs[i + 1]) * 1000\<close>: an \<open>int\<close> product, whose
  overflow is undefined; the \<open>int\<close> is then stored in a \<open>DWORD\<close> (modulo
  \<open>2 ^ 32\<close>). When \<open>stoi\<close> throws, the delay is 0 and a warning is printed.
\<close>

definition delay_of :: "string \<Rightarrow> ub + dword \<times> warning list" where
  "delay_of d =
     (case stoi d of
        Inl _ \<Rightarrow> Inr (0, [InvalidDelay])
      | Inr n \<Rightarrow> (if n * 1000 < INT_MIN \<or> INT_MAX < n * 1000 then Inl (SignedOverflow (n * 1000))
                 else Inr (word_of_int (n * 1000), [])))"

text \<open>
  \<open>for (size_t i = 0; i < pairs.size() - 1; i += 2)\<close>: the bound is computed in
  \<open>size_t\<close> and passed as \<open>bound\<close>; reading \<open>pairs[i]\<close> past the end is
  undefined. The index never wraps: every iteration with \<open>i\<close> past the end stops
  at the read.
\<close>

function action_loop ::
  "string list \<Rightarrow> nat \<Rightarrow> nat \<Rightarrow> sc_action list \<Rightarrow> warning list \<Rightarrow> ub + sc_action list \<times> warning list"
where
  "action_loop pairs bound i acts ws =
     (if i < bound then
        (if i < length pairs then
           (let (ty, w1) = action_type_of (pairs ! i) in
            if Suc i < length pairs then
              (case delay_of (pairs ! Suc i) of
                 Inl e \<Rightarrow> Inl e
               | Inr (d, w2) \<Rightarrow>
                   action_loop pairs bound (i + 2) (acts @ [\<lparr>act_type = ty, act_delay = d\<rparr>]) (ws @ w1 @ w2))
            else action_loop pairs bound (i + 2) (acts @ [\<lparr>act_type = ty, act_delay = 0\<rparr>]) (ws @ w1))
         else Inl (VectorReadOutOfRange i))
      else Inr (acts, ws))"
  by pat_completeness auto
termination
  by (relation "measure (\<lambda>(pairs, bound, i, acts, ws). bound - i)") auto

declare action_loop.simps [simp del]

definition size_minus_one :: "'a list \<Rightarrow> nat" where
  "size_minus_one xs = unat (word_of_nat (length xs) - 1 :: size_t)"

definition parse_action_pairs :: "string list \<Rightarrow> ub + sc_action list \<times> warning list" where
  "parse_action_pairs pairs = action_loop pairs (size_minus_one pairs) 0 [] []"

definition actions_tokens :: "string \<Rightarrow> string list" where
  "actions_tokens actionsStr = split_actions (erase_char CHR ''\"'' actionsStr) []"

subsection \<open>The whole structure\<close>

definition build_failure_actions :: "arg_map \<Rightarrow> ub + failure_actions \<times> warning list" where
  "build_failure_actions args =
     (let (reset, w0) = reset_period args;
          acts = (case args ''actions'' of
                    None \<Rightarrow> Inr ([], [])
                  | Some v \<Rightarrow> parse_action_pairs (actions_tokens v))
      in case acts of
           Inl e \<Rightarrow> Inl e
         | Inr (as, ws) \<Rightarrow>
             Inr (\<lparr>fa_reset = word_of_int reset, fa_reboot_msg = args ''reboot'',
                   fa_command = args ''command'', fa_actions = as\<rparr>, w0 @ ws))"

subsection \<open>Reference definitions\<close>

text \<open>
  \<open>actions_ref\<close> reads the token list two at a time; \<open>split_ref\<close> is the spec's
  splitting of the actions string at slashes, trimming each piece and dropping a final
  empty piece; \<open>append_result\<close> extends an accumulated result.
\<close>

fun actions_ref :: "string list \<Rightarrow> ub + sc_action list \<times> warning list" where
  "actions_ref (a # d # rest) =
     (let (ty, w1) = action_type_of a in
      case delay_of d of
        Inl e \<Rightarrow> Inl e
      | Inr (dl, w2) \<Rightarrow>
          (case actions_ref rest of
             Inl e \<Rightarrow> Inl e
           | Inr (acts, ws) \<Rightarrow> Inr (\<lparr>act_type = ty, act_delay = dl\<rparr> # acts, w1 @ w2 @ ws)))"
| "actions_ref _ = Inr ([], [])"

definition append_result ::
  "sc_action list \<Rightarrow> warning list \<Rightarrow> ub + sc_action list \<times> warning list \<Rightarrow> ub + sc_action list \<times> warning list" where
  "append_result acts ws r = (case r of Inl e \<Rightarrow> Inl e | Inr (as, vs) \<Rightarrow> Inr (acts @ as, ws @ vs))"

definition split_ref :: "string \<Rightarrow> string list" where
  "split_ref s = (let segs = split_on CHR ''/'' s in
                  map trim_token (if last segs = [] then butlast segs else segs))"

subsection \<open>Lemmas\<close>

lemma size_minus_one_Nil: "size_minus_one [] = 2 ^ 64 - 1"
  by (simp add: size_minus_one_def unat_minus_one_all)

lemma size_minus_one_pos:
  "xs \<noteq> [] \<Longrightarrow> length xs < 2 ^ 64 \<Longrightarrow> size_minus_one xs = length xs - 1"
  by (simp add: size_minus_one_def unat_of_nat_minus_one)

lemma action_loop_ref:
  "bound = length pairs - 1 \<Longrightarrow>
   action_loop pairs bound i acts ws = append_result acts ws (actions_ref (drop i pairs))"
proof (induction pairs bound i acts ws rule: action_loop.induct)
  case (1 pairs bound i acts ws)
  show ?case
  proof (cases "i < bound")
    case False
    with "1.prems" have "length (drop i pairs) \<le> 1" by simp
    then have "actions_ref (drop i pairs) = Inr ([], [])"
      by (cases "drop i pairs" rule: actions_ref.cases) auto
    with False show ?thesis
      by (simp add: action_loop.simps [of pairs bound i] append_result_def)
  next
    case True
    with "1.prems" have si: "Suc i < length pairs" by simp
    then have dr: "drop i pairs = pairs ! i # pairs ! Suc i # drop (i + 2) pairs"
      by (simp add: Cons_nth_drop_Suc)
    obtain ty w1 where ty: "action_type_of (pairs ! i) = (ty, w1)" by fastforce
    show ?thesis
    proof (cases "delay_of (pairs ! Suc i)")
      case (Inl e)
      with True si ty dr show ?thesis
        by (simp add: action_loop.simps [of pairs bound i] append_result_def)
    next
      case (Inr r)
      obtain dl w2 where r: "r = (dl, w2)" by fastforce
      have "action_loop pairs bound i acts ws
          = action_loop pairs bound (i + 2) (acts @ [\<lparr>act_type = ty, act_delay = dl\<rparr>]) (ws @ w1 @ w2)"
        using True si ty Inr r by (simp add: action_loop.simps [of pairs bound i])
      also have "\<dots> = append_result (acts @ [\<lparr>act_type = ty, act_delay = dl\<rparr>]) (ws @ w1 @ w2)
                         (actions_ref (drop (i + 2) pairs))"
        using True si ty Inr r "1.prems" by (intro "1.IH"(1)) auto
      finally show ?thesis
        using ty Inr r dr by (simp add: append_result_def split: sum.splits)
    qed
  qed
qed

lemma parse_action_pairs_ref:
  "pairs \<noteq> [] \<Longrightarrow> length pairs < 2 ^ 64 \<Longrightarrow> parse_action_pairs pairs = actions_ref pairs"
  by (simp add: parse_action_pairs_def size_minus_one_pos action_loop_ref append_result_def
      split: sum.splits)

lemma actions_ref_Cons2_Inr:
  assumes "actions_ref (a # d # rest) = Inr (acts, ws)"
  obtains dl w2 acts' ws' where "delay_of d = Inr (dl, w2)" and "actions_ref rest = Inr (acts', ws')"
    and "acts = \<lparr>act_type = fst (action_type_of a), act_delay = dl\<rparr> # acts'"
  using assms by (auto split: prod.splits sum.splits)

lemma actions_ref_shape:
  "actions_ref pairs = Inr (acts, ws) \<Longrightarrow>
   length acts = length pairs div 2 \<and>
   (\<forall>j < length acts. act_type (acts ! j) = fst (action_type_of (pairs ! (2 * j))))"
proof (induction pairs arbitrary: acts ws rule: actions_ref.induct)
  case (1 a d rest)
  from "1.prems" obtain dl w2 acts' ws' where
    d: "delay_of d = Inr (dl, w2)" and r: "actions_ref rest = Inr (acts', ws')"
    and acts: "acts = \<lparr>act_type = fst (action_type_of a), act_delay = dl\<rparr> # acts'"
    by (rule actions_ref_Cons2_Inr)
  from "1.IH" [OF refl prod.collapse d refl r] have IH:
    "length acts' = length rest div 2 \<and>
     (\<forall>j < length acts'. act_type (acts' ! j) = fst (action_type_of (rest ! (2 * j))))" .
  show ?case
  proof
    show "length acts = length (a # d # rest) div 2" using IH acts by simp
    show "\<forall>j < length acts. act_type (acts ! j) = fst (action_type_of ((a # d # rest) ! (2 * j)))"
    proof (intro allI impI)
      fix j assume "j < length acts"
      then show "act_type (acts ! j) = fst (action_type_of ((a # d # rest) ! (2 * j)))"
        using IH acts by (cases j) auto
    qed
  qed
qed auto

lemma split_on_slash_cons:
  assumes "CHR ''/'' \<notin> set w"
  shows "split_on CHR ''/'' (w @ CHR ''/'' # r) = w # split_on CHR ''/'' r"
  using split_on_no_sep [OF assms, of "CHR ''/'' # r"] by simp

lemma split_ref_slash:
  "CHR ''/'' \<notin> set w \<Longrightarrow> split_ref (w @ CHR ''/'' # r) = trim_token w # split_ref r"
  using split_on_nonempty [of "CHR ''/''" r]
  by (simp add: split_ref_def split_on_slash_cons Let_def)

lemma split_ref_no_slash:
  "CHR ''/'' \<notin> set s \<Longrightarrow> split_ref s = (if s = [] then [] else [trim_token s])"
  using split_on_no_sep [of "CHR ''/''" s "[]"] by (simp add: split_ref_def)

lemma split_actions_ref: "split_actions s acc = acc @ split_ref s"
proof (induction s acc rule: split_actions.induct)
  case (1 s pairs)
  show ?case
  proof (cases "str_find s CHR ''/'' 0")
    case None
    then have "CHR ''/'' \<notin> set s" by (simp add: str_find_0_None_iff)
    with None show ?thesis
      by (simp add: split_actions.simps [of s pairs] split_ref_no_slash)
  next
    case (Some pos)
    note f = str_find_Some [OF Some]
    have w: "CHR ''/'' \<notin> set (take pos s)"
      using f by (auto simp: in_set_conv_nth)
    have s: "s = take pos s @ CHR ''/'' # drop (Suc pos) s"
      using f drop_split_at [of 0 pos s] by simp
    have "split_actions s pairs = split_actions (drop (Suc pos) s) (pairs @ [trim_token (take pos s)])"
      using Some by (simp add: split_actions.simps [of s pairs])
    also have "\<dots> = (pairs @ [trim_token (take pos s)]) @ split_ref (drop (Suc pos) s)"
      using Some by (rule "1.IH")
    also have "\<dots> = pairs @ split_ref (take pos s @ CHR ''/'' # drop (Suc pos) s)"
      using w by (simp add: split_ref_slash)
    finally show ?thesis using s by simp
  qed
qed

lemma parse_action_pairs_Nil: "parse_action_pairs [] = Inl (VectorReadOutOfRange 0)"
  by (simp add: parse_action_pairs_def size_minus_one_Nil action_loop.simps)

lemma actions_tokens_quotes_only: "erase_char CHR ''\"'' v = [] \<Longrightarrow> actions_tokens v = []"
  by (simp add: actions_tokens_def split_actions.simps str_find_Nil)

subsection \<open>Properties of the failure-action builder\<close>

text \<open>
  C20: the index loop over the token vector, with its bound \<open>pairs.size() - 1\<close>
  computed in \<open>size_t\<close>, reads the tokens two at a time: on a non-empty vector it
  equals the reference reader of (kind, delay) pairs.
\<close>

theorem parse_action_pairs_equiv:
  assumes "pairs \<noteq> []" and "length pairs < 2 ^ 64"
  shows "parse_action_pairs pairs = actions_ref pairs"
  using assms by (simp add: parse_action_pairs_ref)

theorem parse_action_pairs_equiv_witness:
  "parse_action_pairs [''restart'', ''60'', ''run''] = actions_ref [''restart'', ''60'', ''run'']"
  using parse_action_pairs_equiv [of "[''restart'', ''60'', ''run'']"] by simp

text \<open>
  C21: the actions handed to the service manager: for a non-empty token list the builder
  yields exactly half as many actions as tokens (rounded down: a trailing unpaired token
  is ignored), in token order, the kind of the j-th action read from token 2j.
\<close>

theorem failure_actions_count_order:
  assumes "args ''actions'' = Some v" and "actions_tokens v \<noteq> []"
    and "length (actions_tokens v) < 2 ^ 64"
    and "build_failure_actions args = Inr (fa, ws)"
  shows "length (fa_actions fa) = length (actions_tokens v) div 2
         \<and> (\<forall>j < length (fa_actions fa).
              act_type (fa_actions fa ! j) = fst (action_type_of (actions_tokens v ! (2 * j))))"
proof -
  obtain r w0 where rp: "reset_period args = (r, w0)" by fastforce
  from assms(4) obtain ws' where
    pa: "actions_ref (actions_tokens v) = Inr (fa_actions fa, ws')"
    using assms(1-3) rp
    by (auto simp: build_failure_actions_def parse_action_pairs_ref split: sum.splits)
  then show ?thesis by (rule actions_ref_shape)
qed

theorem failure_actions_count_order_witness:
  "build_failure_actions [''actions'' \<mapsto> ''restart/60/reboot/120/run'']
     = Inr (\<lparr>fa_reset = 86400, fa_reboot_msg = None, fa_command = None,
             fa_actions = [\<lparr>act_type = 1, act_delay = 60000\<rparr>, \<lparr>act_type = 2, act_delay = 120000\<rparr>]\<rparr>, [])
   \<and> length (fa_actions (fst (projr (build_failure_actions [''actions'' \<mapsto> ''restart/60/reboot/120/run''])))) = 2"
proof -
  have tok: "actions_tokens ''restart/60/reboot/120/run'' = [''restart'', ''60'', ''reboot'', ''120'', ''run'']"
    by (simp add: actions_tokens_def erase_char_def split_actions.simps str_find_cons_0 str_find_Nil
        trim_token_def find_last_not_of_def blank_chars_def)
  have b: "build_failure_actions [''actions'' \<mapsto> ''restart/60/reboot/120/run'']
     = Inr (\<lparr>fa_reset = 86400, fa_reboot_msg = None, fa_command = None,
             fa_actions = [\<lparr>act_type = 1, act_delay = 60000\<rparr>, \<lparr>act_type = 2, act_delay = 120000\<rparr>]\<rparr>, [])"
    by (simp add: build_failure_actions_def reset_period_def tok parse_action_pairs_ref
        action_type_of_def delay_of_def stoi_def c_isspace_def c_isdigit_def digits_value_def
        INT_MIN_def INT_MAX_def win_consts)
  have "length (fa_actions (fst (projr (build_failure_actions [''actions'' \<mapsto> ''restart/60/reboot/120/run''])))) = 2"
    using failure_actions_count_order [OF _ _ _ b [unfolded surjective_pairing], of "''restart/60/reboot/120/run''"]
    by (simp add: tok b)
  with b show ?thesis by simp
qed

text \<open>
  C22: undefined behaviour on an empty actions list: when the \<open>/actions\<close> value is
  empty or holds only quotes, the token vector is empty, \<open>pairs.size() - 1\<close> wraps
  to \<open>2 ^ 64 - 1\<close>, and the loop reads \<open>pairs[0]\<close> out of range.
\<close>

theorem failure_actions_empty_out_of_range:
  assumes "args ''actions'' = Some v" and "erase_char CHR ''\"'' v = []"
  shows "build_failure_actions args = Inl (VectorReadOutOfRange 0)"
proof -
  obtain r w0 where "reset_period args = (r, w0)" by fastforce
  with assms show ?thesis
    by (simp add: build_failure_actions_def actions_tokens_quotes_only parse_action_pairs_Nil)
qed

theorem failure_actions_empty_out_of_range_witness:
  "build_failure_actions [''actions'' \<mapsto> ''\"\"''] = Inl (VectorReadOutOfRange 0)"
proof -
  have e: "erase_char CHR ''\"'' ''\"\"'' = []" by (simp add: erase_char_def)
  show ?thesis using failure_actions_empty_out_of_range [OF _ e] by simp
qed

text \<open>
  C23: the splitting loop over the actions string (find, substr, trim, erase) computes
  the reference split: the string cut at every slash, each piece trimmed of blanks and
  tabs, a final empty piece dropped.
\<close>

theorem split_actions_equiv: "split_actions s [] = split_ref s"
  by (simp add: split_actions_ref)

text \<open>
  C24: bounds of a delay stored in an \<open>SC_ACTION\<close>: when \<open>std::stoi\<close> reads a
  number n, the delay is stored (with no warning) exactly when the product \<open>n * 1000\<close>
  lies in \<open>int\<close> range, and the \<open>DWORD\<close> then holds that product modulo \<open>2 ^ 32\<close>
  (a negative delay wraps around); when \<open>std::stoi\<close> throws, the delay is 0 with a
  warning.
\<close>

theorem delay_dword_bounds:
  "delay_of d = Inr (w, ws) \<longleftrightarrow>
     (case stoi d of
        Inl _ \<Rightarrow> w = 0 \<and> ws = [InvalidDelay]
      | Inr n \<Rightarrow> INT_MIN \<le> n * 1000 \<and> n * 1000 \<le> INT_MAX \<and> ws = [] \<and> uint w = (n * 1000) mod 2 ^ 32)"
proof (cases "stoi d")
  case (Inl e)
  then show ?thesis by (auto simp: delay_of_def)
next
  case (Inr n)
  define p where "p = n * 1000"
  have d: "delay_of d = (if p < INT_MIN \<or> INT_MAX < p then Inl (SignedOverflow p) else Inr (word_of_int p, []))"
    using Inr by (simp add: delay_of_def p_def)
  have u: "(word_of_int p = w) = (uint w = p mod 2 ^ 32)"
    using word_of_int_iff_uint [of w p] by auto
  show ?thesis
    unfolding d using Inr u by (auto simp: p_def [symmetric] not_less)
qed

theorem delay_dword_bounds_witness:
  "delay_of ''-5'' = Inr (4294962296, []) \<and> delay_of ''x5'' = Inr (0, [InvalidDelay])"
proof -
  have s1: "stoi ''-5'' = Inr (-5)" and s2: "\<exists>e. stoi ''x5'' = Inl e"
    by (simp_all add: stoi_def c_isspace_def c_isdigit_def digits_value_def INT_MIN_def INT_MAX_def)
  then obtain e where e: "stoi ''x5'' = Inl e" by blast
  show ?thesis
    using delay_dword_bounds [of "''-5''" 4294962296 "[]"] delay_dword_bounds [of "''x5''" 0 "[InvalidDelay]"] s1 e
    by (simp add: INT_MIN_def INT_MAX_def)
qed

text \<open>
  C25: signed overflow in the delay: a delay of more than 2147483 seconds makes
  \<open>std::stoi(...) * 1000\<close> overflow \<open>int\<close>, which is undefined behaviour.
\<close>

theorem delay_overflow:
  assumes "stoi d = Inr n" and "INT_MAX < n * 1000"
  shows "delay_of d = Inl (SignedOverflow (n * 1000))"
  using assms by (simp add: delay_of_def)

theorem delay_overflow_witness:
  "delay_of ''3000000'' = Inl (SignedOverflow 3000000000)"
proof -
  have s: "stoi ''3000000'' = Inr 3000000"
    by (simp add: stoi_def c_isspace_def c_isdigit_def digits_value_def INT_MIN_def INT_MAX_def)
  show ?thesis using delay_overflow [OF s] by (simp add: INT_MAX_def)
qed

text \<open>
  C26: the reset period: when \<open>/reset\<close> is given, the \<open>DWORD\<close> reset period is the
  number \<open>std::stoi\<close> reads from the value stripped of quotes and spaces, modulo
  \<open>2 ^ 32\<close> (so \<open>-1\<close> becomes \<open>INFINITE\<close>), and 86400 with a warning when no number
  is read.
\<close>

theorem reset_period_dword:
  assumes "build_failure_actions args = Inr (fa, ws)" and "args ''reset'' = Some v"
  shows "(case stoi (erase_char CHR '' '' (erase_char CHR ''\"'' v)) of
            Inr n \<Rightarrow> uint (fa_reset fa) = n mod 2 ^ 32
          | Inl _ \<Rightarrow> fa_reset fa = 86400 \<and> InvalidResetPeriod \<in> set ws)"
  using assms
  by (auto simp: build_failure_actions_def reset_period_def uint_word_of_int_eq take_bit_eq_mod
      split: sum.splits prod.splits)

theorem reset_period_dword_witness:
  "build_failure_actions [''reset'' \<mapsto> ''-1''] = Inr (\<lparr>fa_reset = 0xFFFFFFFF, fa_reboot_msg = None,
      fa_command = None, fa_actions = []\<rparr>, [])
   \<and> uint (0xFFFFFFFF :: dword) = -1 mod 2 ^ 32"
proof -
  have b: "build_failure_actions [''reset'' \<mapsto> ''-1''] = Inr (\<lparr>fa_reset = 0xFFFFFFFF, fa_reboot_msg = None,
      fa_command = None, fa_actions = []\<rparr>, [])"
    by (simp add: build_failure_actions_def reset_period_def erase_char_def stoi_def c_isspace_def
        c_isdigit_def digits_value_def INT_MIN_def INT_MAX_def)
  have "uint (0xFFFFFFFF :: dword) = -1 mod 2 ^ 32"
    using reset_period_dword [OF b, of "''-1''"]
    by (simp add: erase_char_def stoi_def c_isspace_def c_isdigit_def digits_value_def
        INT_MIN_def INT_MAX_def)
  with b show ?thesis by simp
qed

end
