(* ===== verification/Scc_Registry.thy ===== *)
theory Scc_Registry
  imports Scc_Failure
begin

text \<open>
  The environment of the program: the Windows service control manager and the two OS
  services the source uses (\<open>GetTickCount64\<close>, \<open>Sleep\<close>). This is not repository
  code; it models the documented contract of the API the source calls, as an explicit
  state (\<open>world\<close>) that every command threads through:
  \<^item> the registry contents, the handles the process holds with their granted access, and
    the access check each call makes (a call on a handle without the right fails);
  \<^item> the environment's choices as scripts: \<open>w_fail k\<close> makes the \<open>k\<close>-th registry call
    fail, \<open>w_status n\<close> is the state reported by the \<open>n\<close>-th status query,
    \<open>w_ticks n\<close> the value of the \<open>n\<close>-th \<open>GetTickCount64\<close>;
  \<^item> the observable effects: the registry calls made, in order, the lines printed on
    \<open>std::cout\<close> and \<open>std::cerr\<close>, and the milliseconds slept.
  Error texts from \<open>GetLastErrorAsString\<close> are left out of printed lines.
\<close>

subsection \<open>Access rights of winsvc.h\<close>

definition SC_MANAGER_CONNECT :: dword where [win_consts]: "SC_MANAGER_CONNECT = 0x1"
definition SC_MANAGER_CREATE_SERVICE :: dword where [win_consts]: "SC_MANAGER_CREATE_SERVICE = 0x2"
definition SC_MANAGER_ALL_ACCESS :: dword where [win_consts]: "SC_MANAGER_ALL_ACCESS = 0xF003F"

definition SERVICE_QUERY_CONFIG :: dword where [win_consts]: "SERVICE_QUERY_CONFIG = 0x1"
definition SERVICE_CHANGE_CONFIG :: dword where [win_consts]: "SERVICE_CHANGE_CONFIG = 0x2"
definition SERVICE_QUERY_STATUS :: dword where [win_consts]: "SERVICE_QUERY_STATUS = 0x4"
definition SERVICE_START :: dword where [win_consts]: "SERVICE_START = 0x10"
definition SERVICE_STOP :: dword where [win_consts]: "SERVICE_STOP = 0x20"
definition DELETE :: dword where [win_consts]: "DELETE = 0x10000"
definition SERVICE_ALL_ACCESS :: dword where [win_consts]: "SERVICE_ALL_ACCESS = 0xF01FF"

definition SERVICE_CONTROL_STOP :: dword where [win_consts]: "SERVICE_CONTROL_STOP = 0x1"

definition SERVICE_CONFIG_DESCRIPTION :: dword where [win_consts]: "SERVICE_CONFIG_DESCRIPTION = 1"
definition SERVICE_CONFIG_FAILURE_ACTIONS :: dword where [win_consts]: "SERVICE_CONFIG_FAILURE_ACTIONS = 2"
definition SERVICE_CONFIG_DELAYED_AUTO_START_INFO :: dword where [win_consts]: "SERVICE_CONFIG_DELAYED_AUTO_START_INFO = 3"

subsection \<open>Registry contents, calls, world\<close>

text \<open>What the service manager stores for a service (\<open>QUERY_SERVICE_CONFIG\<close> plus the
  extended information of \<open>ChangeServiceConfig2\<close>).\<close>

record svc_config =
  sc_type :: dword
  sc_start :: dword
  sc_error :: dword
  sc_binpath :: "string option"
  sc_group :: "string option"
  sc_deps :: "string list"
  sc_account :: "string option"
  sc_display :: "string option"
  sc_description :: "string option"
  sc_delayed :: bool
  sc_failure :: "failure_actions option"

datatype api_call =
    OpenSCManager dword
  | OpenServiceA string dword
  | QueryServiceStatusEx
  | QueryServiceConfig
  | QueryServiceConfig2A dword
  | CreateServiceA string
  | ChangeServiceConfigA
  | ChangeServiceConfig2A dword
  | StartServiceA
  | ControlService dword
  | DeleteServiceA

record world =
  w_scm_up :: bool
  w_services :: "string \<rightharpoonup> svc_config"
  w_fail :: "nat \<Rightarrow> bool"
  w_status :: "nat \<Rightarrow> dword"
  w_ticks :: "nat \<Rightarrow> ulonglong"
  w_calls :: "api_call list"
  w_nstatus :: nat
  w_nticks :: nat
  w_scm :: "dword option"
  w_svc :: "(string \<times> dword) option"
  w_out :: "string list"
  w_err :: "string list"
  w_slept :: nat

subsection \<open>The API, one function per call\<close>

text \<open>Every registry call is recorded; the environment decides by its index whether it
  fails for a reason the model does not track (\<open>GetLastError\<close> of any kind).\<close>

definition reg_call :: "api_call \<Rightarrow> world \<Rightarrow> bool \<times> world" where
  "reg_call c w = (\<not> w_fail w (length (w_calls w)), w\<lparr>w_calls := w_calls w @ [c]\<rparr>)"

definition svc_access :: "world \<Rightarrow> dword \<Rightarrow> bool" where
  "svc_access w right \<longleftrightarrow> (case w_svc w of None \<Rightarrow> False | Some (_, acc) \<Rightarrow> acc AND right = right)"

definition svc_name :: "world \<Rightarrow> string" where
  "svc_name w = (case w_svc w of None \<Rightarrow> [] | Some (n, _) \<Rightarrow> n)"

definition out :: "string \<Rightarrow> world \<Rightarrow> world" where
  "out s w = w\<lparr>w_out := w_out w @ [s]\<rparr>"

definition err :: "string \<Rightarrow> world \<Rightarrow> world" where
  "err s w = w\<lparr>w_err := w_err w @ [s]\<rparr>"

definition OpenSCManager_api :: "dword \<Rightarrow> world \<Rightarrow> bool \<times> world" where
  "OpenSCManager_api acc w =
     (let (ok, w1) = reg_call (OpenSCManager acc) w in
      if ok \<and> w_scm_up w then (True, w1\<lparr>w_scm := Some acc\<rparr>) else (False, w1))"

definition OpenService_api :: "string \<Rightarrow> dword \<Rightarrow> world \<Rightarrow> bool \<times> world" where
  "OpenService_api name acc w =
     (let (ok, w1) = reg_call (OpenServiceA name acc) w in
      if ok \<and> w_scm w \<noteq> None \<and> name \<in> dom (w_services w)
      then (True, w1\<lparr>w_svc := Some (name, acc)\<rparr>) else (False, w1))"

definition close_service :: "world \<Rightarrow> world" where
  "close_service w = w\<lparr>w_svc := None\<rparr>"

definition close_scm :: "world \<Rightarrow> world" where
  "close_scm w = w\<lparr>w_scm := None\<rparr>"

text \<open>\<open>QueryServiceStatusEx\<close> needs \<open>SERVICE_QUERY_STATUS\<close> on the handle.\<close>

definition QueryServiceStatus_api :: "world \<Rightarrow> dword option \<times> world" where
  "QueryServiceStatus_api w =
     (let (ok, w1) = reg_call QueryServiceStatusEx w;
          w2 = w1\<lparr>w_nstatus := Suc (w_nstatus w)\<rparr>
      in if ok \<and> svc_access w SERVICE_QUERY_STATUS
         then (Some (w_status w (w_nstatus w)), w2) else (None, w2))"

text \<open>\<open>StartServiceA\<close> needs \<open>SERVICE_START\<close>; \<open>ControlService(SERVICE_CONTROL_STOP)\<close>
  needs \<open>SERVICE_STOP\<close>.\<close>

definition StartService_api :: "world \<Rightarrow> bool \<times> world" where
  "StartService_api w =
     (let (ok, w1) = reg_call StartServiceA w in (ok \<and> svc_access w SERVICE_START, w1))"

definition ControlStop_api :: "world \<Rightarrow> bool \<times> world" where
  "ControlStop_api w =
     (let (ok, w1) = reg_call (ControlService SERVICE_CONTROL_STOP) w in
      (ok \<and> svc_access w SERVICE_STOP, w1))"

definition GetTickCount64_api :: "world \<Rightarrow> ulonglong \<times> world" where
  "GetTickCount64_api w = (w_ticks w (w_nticks w), w\<lparr>w_nticks := Suc (w_nticks w)\<rparr>)"

definition Sleep_api :: "dword \<Rightarrow> world \<Rightarrow> world" where
  "Sleep_api ms w = w\<lparr>w_slept := w_slept w + unat ms\<rparr>"

subsection \<open>Configuration calls\<close>

text \<open>The outcome of a size probe: the call succeeded because the structure fits in the
  buffer given, failed with \<open>ERROR_INSUFFICIENT_BUFFER\<close> after reporting the size needed,
  or failed for another reason.\<close>

datatype probe = Fits | InsufficientBuffer | ProbeFailed

definition scm_access :: "world \<Rightarrow> dword \<Rightarrow> bool" where
  "scm_access w right \<longleftrightarrow> (case w_scm w of None \<Rightarrow> False | Some acc \<Rightarrow> acc AND right = right)"

definition svc_config_of :: "world \<Rightarrow> svc_config option" where
  "svc_config_of w = (case w_svc w of None \<Rightarrow> None | Some (n, _) \<Rightarrow> w_services w n)"

definition outs :: "string list \<Rightarrow> world \<Rightarrow> world" where
  "outs ls w = w\<lparr>w_out := w_out w @ ls\<rparr>"

text \<open>\<open>QueryServiceConfig(service, NULL, 0, &needed)\<close>: no configuration fits in 0 bytes,
  so with the right \<open>SERVICE_QUERY_CONFIG\<close> the probe reports the size; the second call
  with a buffer of that size returns the configuration.\<close>

definition QueryServiceConfig_probe :: "world \<Rightarrow> probe \<times> world" where
  "QueryServiceConfig_probe w =
     (let (ok, w1) = reg_call QueryServiceConfig w in
      (if ok \<and> svc_access w SERVICE_QUERY_CONFIG \<and> svc_config_of w \<noteq> None
       then InsufficientBuffer else ProbeFailed, w1))"

definition QueryServiceConfig_api :: "world \<Rightarrow> svc_config option \<times> world" where
  "QueryServiceConfig_api w =
     (let (ok, w1) = reg_call QueryServiceConfig w in
      (if ok \<and> svc_access w SERVICE_QUERY_CONFIG then svc_config_of w else None, w1))"

text \<open>\<open>sizeof(SERVICE_DESCRIPTIONA)\<close>: the structure is one pointer (64-bit build). The
  description string is stored after it, with its NUL.\<close>

definition SIZEOF_SERVICE_DESCRIPTIONA :: nat where
  "SIZEOF_SERVICE_DESCRIPTIONA = 8"

definition description_size :: "svc_config \<Rightarrow> nat" where
  "description_size c =
     SIZEOF_SERVICE_DESCRIPTIONA + (case sc_description c of None \<Rightarrow> 0 | Some s \<Rightarrow> length s + 1)"

text \<open>\<open>QueryServiceConfig2A(service, SERVICE_CONFIG_DESCRIPTION, buf, size, &needed)\<close>, given
  the buffer size and the value of \<open>needed\<close> before the call: with \<open>SERVICE_QUERY_CONFIG\<close>
  the manager writes the size the structure and its string take into \<open>needed\<close> (an out
  parameter of the RPC, written on every call that reaches the service); the call succeeds
  and returns \<open>lpDescription\<close> (\<open>NULL\<close> without a description) when that size fits the
  buffer, and fails with \<open>ERROR_INSUFFICIENT_BUFFER\<close> otherwise. A call that fails for
  another reason leaves \<open>needed\<close> as it was.\<close>

definition QueryDescription_api ::
  "nat \<Rightarrow> dword \<Rightarrow> world \<Rightarrow> (probe \<times> string option \<times> dword) \<times> world" where
  "QueryDescription_api bufSize needed w =
     (let (ok, w1) = reg_call (QueryServiceConfig2A SERVICE_CONFIG_DESCRIPTION) w in
      (case svc_config_of w of
         None \<Rightarrow> (ProbeFailed, None, needed)
       | Some c \<Rightarrow>
           (if ok \<and> svc_access w SERVICE_QUERY_CONFIG then
              (if description_size c \<le> bufSize then (Fits, sc_description c, of_nat (description_size c))
               else (InsufficientBuffer, None, of_nat (description_size c)))
            else (ProbeFailed, None, needed)), w1))"

text \<open>\<open>CreateServiceA\<close> needs \<open>SC_MANAGER_CREATE_SERVICE\<close> and a name not in use; the
  new handle has the access asked for (\<open>SERVICE_ALL_ACCESS\<close> in the source). The
  password is write-only and not part of the stored configuration.\<close>

definition CreateService_api :: "string \<Rightarrow> svc_config \<Rightarrow> world \<Rightarrow> bool \<times> world" where
  "CreateService_api name cfg w =
     (let (ok, w1) = reg_call (CreateServiceA name) w in
      if ok \<and> scm_access w SC_MANAGER_CREATE_SERVICE \<and> name \<notin> dom (w_services w)
      then (True, w1\<lparr>w_services := (w_services w)(name \<mapsto> cfg), w_svc := Some (name, SERVICE_ALL_ACCESS)\<rparr>)
      else (False, w1))"

text \<open>The arguments of \<open>ChangeServiceConfigA\<close>: \<open>SERVICE_NO_CHANGE\<close> and \<open>NULL\<close>
  (\<open>None\<close>) leave a field unchanged; the dependencies are the double-NUL buffer.\<close>

record svc_change =
  ch_type :: dword
  ch_start :: dword
  ch_error :: dword
  ch_binpath :: "string option"
  ch_group :: "string option"
  ch_deps :: "string option"
  ch_account :: "string option"
  ch_password :: "string option"
  ch_display :: "string option"

definition keep_or :: "dword \<Rightarrow> dword \<Rightarrow> dword" where
  "keep_or new old = (if new = SERVICE_NO_CHANGE then old else new)"

definition keep_or_opt :: "'a option \<Rightarrow> 'a option \<Rightarrow> 'a option" where
  "keep_or_opt new old = (case new of None \<Rightarrow> old | Some v \<Rightarrow> Some v)"

definition apply_change :: "svc_change \<Rightarrow> svc_config \<Rightarrow> svc_config" where
  "apply_change ch c =
     c\<lparr>sc_type := keep_or (ch_type ch) (sc_type c), sc_start := keep_or (ch_start ch) (sc_start c),
       sc_error := keep_or (ch_error ch) (sc_error c),
       sc_binpath := keep_or_opt (ch_binpath ch) (sc_binpath c),
       sc_group := keep_or_opt (ch_group ch) (sc_group c),
       sc_deps := (case ch_deps ch of None \<Rightarrow> sc_deps c | Some buf \<Rightarrow> multi_sz_read buf),
       sc_account := keep_or_opt (ch_account ch) (sc_account c),
       sc_display := keep_or_opt (ch_display ch) (sc_display c)\<rparr>"

text \<open>A string of \<open>ChangeServiceConfig2A\<close>: \<open>NULL\<close> leaves it unchanged, the empty string
  deletes it.\<close>

definition set_string :: "string option \<Rightarrow> string option \<Rightarrow> string option" where
  "set_string new old = (case new of None \<Rightarrow> old | Some s \<Rightarrow> if s = [] then None else Some s)"

definition empty_failure :: failure_actions where
  "empty_failure = \<lparr>fa_reset = 0, fa_reboot_msg = None, fa_command = None, fa_actions = []\<rparr>"

text \<open>\<open>SERVICE_FAILURE_ACTIONSA\<close>: when \<open>lpsaActions\<close> is \<open>NULL\<close> (no action),
  \<open>cActions\<close> and \<open>dwResetPeriod\<close> are ignored and the stored ones are kept.\<close>

definition apply_failure :: "failure_actions \<Rightarrow> failure_actions option \<Rightarrow> failure_actions" where
  "apply_failure fa old =
     (let f0 = (case old of None \<Rightarrow> empty_failure | Some f \<Rightarrow> f);
          f1 = (if fa_actions fa = [] then f0 else f0\<lparr>fa_reset := fa_reset fa, fa_actions := fa_actions fa\<rparr>)
      in f1\<lparr>fa_reboot_msg := set_string (fa_reboot_msg fa) (fa_reboot_msg f1),
            fa_command := set_string (fa_command fa) (fa_command f1)\<rparr>)"

text \<open>Every configuration change needs \<open>SERVICE_CHANGE_CONFIG\<close> on the handle.\<close>

definition change_config :: "api_call \<Rightarrow> (svc_config \<Rightarrow> svc_config) \<Rightarrow> world \<Rightarrow> bool \<times> world" where
  "change_config call f w =
     (let (ok, w1) = reg_call call w in
      case svc_config_of w of
        None \<Rightarrow> (False, w1)
      | Some c \<Rightarrow>
          (if ok \<and> svc_access w SERVICE_CHANGE_CONFIG
           then (True, w1\<lparr>w_services := (w_services w)(svc_name w \<mapsto> f c)\<rparr>) else (False, w1)))"

definition ChangeServiceConfig_api :: "svc_change \<Rightarrow> world \<Rightarrow> bool \<times> world" where
  "ChangeServiceConfig_api ch = change_config ChangeServiceConfigA (apply_change ch)"

definition ChangeDescription_api :: "string \<Rightarrow> world \<Rightarrow> bool \<times> world" where
  "ChangeDescription_api d =
     change_config (ChangeServiceConfig2A SERVICE_CONFIG_DESCRIPTION)
       (\<lambda>c. c\<lparr>sc_description := set_string (Some d) (sc_description c)\<rparr>)"

definition ChangeDelayed_api :: "world \<Rightarrow> bool \<times> world" where
  "ChangeDelayed_api =
     change_config (ChangeServiceConfig2A SERVICE_CONFIG_DELAYED_AUTO_START_INFO)
       (\<lambda>c. c\<lparr>sc_delayed := True\<rparr>)"

definition ChangeFailure_api :: "failure_actions \<Rightarrow> world \<Rightarrow> bool \<times> world" where
  "ChangeFailure_api fa =
     change_config (ChangeServiceConfig2A SERVICE_CONFIG_FAILURE_ACTIONS)
       (\<lambda>c. c\<lparr>sc_failure := Some (apply_failure fa (sc_failure c))\<rparr>)"

text \<open>\<open>QueryServiceConfig2A(service, SERVICE_CONFIG_FAILURE_ACTIONS, buf,
  sizeof(SERVICE_FAILURE_ACTIONSA), &needed)\<close>: the structure fits only when it refers to no
  string and no action array.\<close>

definition QueryFailure_api :: "world \<Rightarrow> failure_actions option \<times> world" where
  "QueryFailure_api w =
     (let (ok, w1) = reg_call (QueryServiceConfig2A SERVICE_CONFIG_FAILURE_ACTIONS) w in
      case svc_config_of w of
        None \<Rightarrow> (None, w1)
      | Some c \<Rightarrow>
          (let f = (case sc_failure c of None \<Rightarrow> empty_failure | Some f \<Rightarrow> f) in
           if ok \<and> svc_access w SERVICE_QUERY_CONFIG \<and> fa_actions f = [] \<and>
              fa_reboot_msg f = None \<and> fa_command f = None
           then (Some f, w1) else (None, w1)))"

text \<open>\<open>DeleteService\<close> needs \<open>DELETE\<close>; the service is removed once its handles are
  closed, which every caller does next.\<close>

definition DeleteService_api :: "world \<Rightarrow> bool \<times> world" where
  "DeleteService_api w =
     (let (ok, w1) = reg_call DeleteServiceA w in
      if ok \<and> svc_access w DELETE \<and> svc_config_of w \<noteq> None
      then (True, w1\<lparr>w_services := (w_services w)(svc_name w := None)\<rparr>) else (False, w1))"

subsection \<open>Properties of the stored services\<close>

text \<open>\<open>services_ok P w\<close>: every service in the registry satisfies \<open>P\<close>;
  \<open>registry_wf\<close>: every stored service type is well formed.\<close>

definition services_ok :: "(svc_config \<Rightarrow> bool) \<Rightarrow> world \<Rightarrow> bool" where
  "services_ok P w \<longleftrightarrow> (\<forall>n c. w_services w n = Some c \<longrightarrow> P c)"

definition registry_wf :: "world \<Rightarrow> bool" where
  "registry_wf w \<longleftrightarrow> services_ok (\<lambda>c. svc_type_wf (sc_type c)) w"

subsection \<open>Handles\<close>

text \<open>A command releases what it acquired when it returns with no handle open.\<close>

definition no_handles :: "world \<Rightarrow> bool" where
  "no_handles w \<longleftrightarrow> w_scm w = None \<and> w_svc w = None"


text \<open>\<open>calls_succeed w m\<close>: the environment lets the next \<open>m\<close> registry calls succeed.\<close>

definition calls_succeed :: "world \<Rightarrow> nat \<Rightarrow> bool" where
  "calls_succeed w m \<longleftrightarrow> (\<forall>i<m. \<not> w_fail w (length (w_calls w) + i))"

subsection \<open>A concrete world\<close>

text \<open>A service manager holding one service \<open>svc\<close>, whose status queries report
  running for the first \<open>k\<close> queries and \<open>final\<close> afterwards, and whose tick count
  advances by 250 ms per read, starting at 1000. The witnesses evaluate the commands on it.\<close>

definition demo_svc :: svc_config where
  "demo_svc =
     \<lparr>sc_type = SERVICE_WIN32_OWN_PROCESS, sc_start = SERVICE_DEMAND_START,
      sc_error = SERVICE_ERROR_NORMAL, sc_binpath = Some ''svc.exe'', sc_group = None, sc_deps = [],
      sc_account = None, sc_display = None, sc_description = None, sc_delayed = False,
      sc_failure = None\<rparr>"

definition demo_world :: "nat \<Rightarrow> dword \<Rightarrow> world" where
  "demo_world k final =
     \<lparr>w_scm_up = True, w_services = [''svc'' \<mapsto> demo_svc], w_fail = (\<lambda>_. False),
      w_status = (\<lambda>i. if i < k then SERVICE_RUNNING else final),
      w_ticks = (\<lambda>i. 1000 + 250 * word_of_nat i), w_calls = [], w_nstatus = 0, w_nticks = 0,
      w_scm = None, w_svc = None, w_out = [], w_err = [], w_slept = 0\<rparr>"

subsection \<open>Facts for symbolic execution of the commands\<close>

lemmas api_defs = OpenSCManager_api_def OpenService_api_def reg_call_def QueryServiceStatus_api_def
  StartService_api_def ControlStop_api_def GetTickCount64_api_def close_service_def close_scm_def
  out_def err_def svc_access_def outs_def scm_access_def svc_config_of_def svc_name_def
  QueryServiceConfig_probe_def QueryServiceConfig_api_def
  SIZEOF_SERVICE_DESCRIPTIONA_def description_size_def QueryDescription_api_def CreateService_api_def change_config_def ChangeServiceConfig_api_def
  ChangeDescription_api_def ChangeDelayed_api_def ChangeFailure_api_def QueryFailure_api_def
  DeleteService_api_def

text \<open>The first calls of a run that \<open>calls_succeed\<close> lets succeed.\<close>

lemma calls_succeed_first:
  assumes "calls_succeed w m"
  shows "0 < m \<Longrightarrow> \<not> w_fail w (length (w_calls w))"
    and "1 < m \<Longrightarrow> \<not> w_fail w (Suc (length (w_calls w)))"
    and "2 < m \<Longrightarrow> \<not> w_fail w (Suc (Suc (length (w_calls w))))"
    and "3 < m \<Longrightarrow> \<not> w_fail w (Suc (Suc (Suc (length (w_calls w)))))"
    and "4 < m \<Longrightarrow> \<not> w_fail w (Suc (Suc (Suc (Suc (length (w_calls w))))))"
  using assms unfolding calls_succeed_def
  by (auto dest: spec [of _ 0] spec [of _ "Suc 0"] spec [of _ "Suc (Suc 0)"]
      spec [of _ "Suc (Suc (Suc 0))"] spec [of _ "Suc (Suc (Suc (Suc 0)))"])

end
