(* ===== verification/Scc_Lifecycle.thy ===== *)
theory Scc_Lifecycle
  imports Scc_Registry
begin

text \<open>
  The lifecycle controller: \<open>StartService\<close> and \<open>StopService\<close> of
  \<open>src/main-scclone.cpp\<close>. Both issue a control request and then poll the service's
  state every 250 ms until it reaches the target state, a status query fails, or more
  than 30000 ms have passed since the request (\<open>GetTickCount64() - startTime > waitTime\<close>,
  an unsigned 64-bit difference). The polling loop, \<open>poll_loop\<close>, is the same in both
  and is defined once, with the target state and the two messages as parameters; it is a
  \<open>partial_function (option)\<close>, since with a clock that does not advance it never
  returns. The spec's controller (Idle, ControlRequested, Waiting, Settled, TimedOut,
  Failed) is the inductive relation \<open>lc_step\<close> over an environment of observations.
\<close>

datatype wait_outcome = Reached | WaitTimedOut | PollFailed

definition WAIT_TIME :: ulonglong where
  "WAIT_TIME = 30000"

partial_function (option) poll_loop ::
  "dword \<Rightarrow> string \<Rightarrow> string \<Rightarrow> ulonglong \<Rightarrow> world \<Rightarrow> (wait_outcome \<times> world) option"
where
  "poll_loop target okmsg tomsg startTime w =
     (let (st, w1) = QueryServiceStatus_api w in
      case st of
        None \<Rightarrow> Some (PollFailed, err ''Failed to query service status: '' w1)
      | Some s \<Rightarrow>
          (if s = target then Some (Reached, out okmsg w1)
           else (let (now, w2) = GetTickCount64_api w1 in
                 if WAIT_TIME < now - startTime then Some (WaitTimedOut, err tomsg w2)
                 else poll_loop target okmsg tomsg startTime (Sleep_api 250 w2))))"

definition StartService_cmd :: "string \<Rightarrow> world \<Rightarrow> (bool \<times> world) option" where
  "StartService_cmd serviceName w =
     (let (ok, w1) = OpenSCManager_api SC_MANAGER_CONNECT w in
      if \<not> ok then Some (False, err ''Failed to open service control manager: '' w1)
      else
        (let (ok2, w2) = OpenService_api serviceName SERVICE_START w1 in
         if \<not> ok2 then Some (False, close_scm (err ''Failed to open service: '' w2))
         else
           (let (ok3, w3) = StartService_api w2 in
            if \<not> ok3 then Some (False, close_scm (close_service (err ''Failed to start service: '' w3)))
            else
              (let w4 = out ''Service start pending... '' w3;
                   (startTime, w5) = GetTickCount64_api w4
               in case poll_loop SERVICE_RUNNING ''Service started successfully.''
                         ''Service start timed out.'' startTime w5 of
                    None \<Rightarrow> None
                  | Some (r, w6) \<Rightarrow> Some (r = Reached, close_scm (close_service w6))))))"

definition StopService_cmd :: "string \<Rightarrow> world \<Rightarrow> (bool \<times> world) option" where
  "StopService_cmd serviceName w =
     (let (ok, w1) = OpenSCManager_api SC_MANAGER_CONNECT w in
      if \<not> ok then Some (False, err ''Failed to open service control manager: '' w1)
      else
        (let (ok2, w2) = OpenService_api serviceName (SERVICE_STOP OR SERVICE_QUERY_STATUS) w1 in
         if \<not> ok2 then Some (False, close_scm (err ''Failed to open service: '' w2))
         else
           (let (st, w3) = QueryServiceStatus_api w2 in
            case st of
              None \<Rightarrow> Some (False, close_scm (close_service (err ''Failed to query service status: '' w3)))
            | Some s \<Rightarrow>
                (if s = SERVICE_STOPPED
                 then Some (True, close_scm (close_service (out ''Service is already stopped.'' w3)))
                 else
                   (let (ok4, w4) = ControlStop_api w3 in
                    if \<not> ok4 then Some (False, close_scm (close_service (err ''Failed to stop service: '' w4)))
                    else
                      (let w5 = out ''Service stop pending... '' w4;
                           (startTime, w6) = GetTickCount64_api w5
                       in case poll_loop SERVICE_STOPPED ''Service stopped successfully.''
                                 ''Service stop timed out.'' startTime w6 of
                            None \<Rightarrow> None
                          | Some (r, w7) \<Rightarrow> Some (r = Reached, close_scm (close_service w7))))))))"

subsection \<open>The spec's controller as a step relation\<close>

text \<open>
  The observations a run of the controller makes: whether the control request is
  accepted, the state the first query reports (stop only), the result of the \<open>k\<close>-th
  poll (\<open>None\<close> when the query fails) and the tick count read after it.
\<close>

record lc_env =
  env_target :: dword
  env_shortcut :: bool
  env_control_ok :: bool
  env_obs :: "nat \<Rightarrow> dword option"
  env_clk :: "nat \<Rightarrow> ulonglong"
  env_t0 :: ulonglong

datatype lc_state =
    Idle
  | ControlRequested
  | Waiting nat
  | Settled nat
  | TimedOut nat
  | Failed nat

inductive lc_step :: "lc_env \<Rightarrow> lc_state \<Rightarrow> lc_state \<Rightarrow> bool" for e :: lc_env where
  already: "env_shortcut e \<Longrightarrow> lc_step e Idle (Settled 0)"
| request: "\<not> env_shortcut e \<Longrightarrow> env_control_ok e \<Longrightarrow> lc_step e Idle ControlRequested"
| reject: "\<not> env_shortcut e \<Longrightarrow> \<not> env_control_ok e \<Longrightarrow> lc_step e Idle (Failed 0)"
| accepted: "lc_step e ControlRequested (Waiting 0)"
| settle: "env_obs e k = Some (env_target e) \<Longrightarrow> lc_step e (Waiting k) (Settled (Suc k))"
| wait: "env_obs e k = Some s \<Longrightarrow> s \<noteq> env_target e \<Longrightarrow> \<not> WAIT_TIME < env_clk e k - env_t0 e \<Longrightarrow>
           lc_step e (Waiting k) (Waiting (Suc k))"
| time_out: "env_obs e k = Some s \<Longrightarrow> s \<noteq> env_target e \<Longrightarrow> WAIT_TIME < env_clk e k - env_t0 e \<Longrightarrow>
           lc_step e (Waiting k) (TimedOut (Suc k))"
| poll_fail: "env_obs e k = None \<Longrightarrow> lc_step e (Waiting k) (Failed (Suc k))"

inductive lc_steps :: "lc_env \<Rightarrow> lc_state \<Rightarrow> lc_state \<Rightarrow> bool" for e :: lc_env where
  steps_none: "lc_steps e s s"
| steps_more: "lc_step e s t \<Longrightarrow> lc_steps e t u \<Longrightarrow> lc_steps e s u"

fun lc_terminal :: "lc_state \<Rightarrow> bool" where
  "lc_terminal (Settled _) = True"
| "lc_terminal (TimedOut _) = True"
| "lc_terminal (Failed _) = True"
| "lc_terminal _ = False"

fun lc_of_outcome :: "wait_outcome \<Rightarrow> nat \<Rightarrow> lc_state" where
  "lc_of_outcome Reached n = Settled n"
| "lc_of_outcome WaitTimedOut n = TimedOut n"
| "lc_of_outcome PollFailed n = Failed n"

subsection \<open>The loop seen from its entry\<close>

text \<open>
  After \<open>k\<close> iterations from a world \<open>b\<close> the loop has made \<open>k\<close> status queries,
  read \<open>k\<close> tick counts and slept \<open>250 * k\<close> ms; \<open>loop_obs\<close> and \<open>loop_clk\<close> are what
  the \<open>k\<close>-th iteration observes.
\<close>

definition after_polls :: "world \<Rightarrow> nat \<Rightarrow> world" where
  "after_polls b k =
     b\<lparr>w_calls := w_calls b @ replicate k QueryServiceStatusEx,
       w_nstatus := w_nstatus b + k, w_nticks := w_nticks b + k, w_slept := w_slept b + 250 * k\<rparr>"

definition loop_obs :: "world \<Rightarrow> nat \<Rightarrow> dword option" where
  "loop_obs b k =
     (if w_fail b (length (w_calls b) + k) \<or> \<not> svc_access b SERVICE_QUERY_STATUS then None
      else Some (w_status b (w_nstatus b + k)))"

definition loop_clk :: "world \<Rightarrow> nat \<Rightarrow> ulonglong" where
  "loop_clk b k = w_ticks b (w_nticks b + k)"

definition loop_env :: "dword \<Rightarrow> ulonglong \<Rightarrow> world \<Rightarrow> lc_env" where
  "loop_env target t0 b =
     \<lparr>env_target = target, env_shortcut = False, env_control_ok = True,
      env_obs = loop_obs b, env_clk = loop_clk b, env_t0 = t0\<rparr>"


subsection \<open>Counting the iterations\<close>

text \<open>\<open>polled b k\<close>: the world right after the status query of iteration \<open>k\<close>.\<close>

definition polled :: "world \<Rightarrow> nat \<Rightarrow> world" where
  "polled b k =
     b\<lparr>w_calls := w_calls b @ replicate (Suc k) QueryServiceStatusEx,
       w_nstatus := w_nstatus b + Suc k, w_nticks := w_nticks b + k, w_slept := w_slept b + 250 * k\<rparr>"

fun lc_polls :: "lc_state \<Rightarrow> nat" where
  "lc_polls (Waiting n) = n"
| "lc_polls (Settled n) = n"
| "lc_polls (TimedOut n) = n"
| "lc_polls (Failed n) = n"
| "lc_polls _ = 0"

text \<open>
  A clock that starts within \<open>2^32\<close> ms of the start time and advances by at least
  the 250 ms slept, and by at most \<open>2^32\<close> ms, per iteration.
\<close>

definition clock_advances :: "(nat \<Rightarrow> ulonglong) \<Rightarrow> ulonglong \<Rightarrow> bool" where
  "clock_advances clk t0 \<longleftrightarrow>
     unat (clk 0 - t0) \<le> 2 ^ 32 \<and>
     (\<forall>k. 250 \<le> unat (clk (Suc k) - clk k) \<and> unat (clk (Suc k) - clk k) \<le> 2 ^ 32)"

subsection \<open>Unfolding the loop\<close>

lemma after_polls_0 [simp]: "after_polls b 0 = b"
  by (simp add: after_polls_def)

lemma query_after_polls:
  "QueryServiceStatus_api (after_polls b k) = (loop_obs b k, polled b k)"
  by (simp add: QueryServiceStatus_api_def reg_call_def after_polls_def polled_def loop_obs_def
      svc_access_def replicate_append_same)

lemma tick_polled:
  "GetTickCount64_api (polled b k) = (loop_clk b k, (polled b k)\<lparr>w_nticks := Suc (w_nticks b + k)\<rparr>)"
  by (simp add: GetTickCount64_api_def polled_def loop_clk_def)

lemma sleep_polled:
  "Sleep_api 250 ((polled b k)\<lparr>w_nticks := Suc (w_nticks b + k)\<rparr>) = after_polls b (Suc k)"
  by (simp add: Sleep_api_def polled_def after_polls_def)

lemma poll_loop_after:
  "poll_loop target okm tom t0 (after_polls b k) =
     (case loop_obs b k of
        None \<Rightarrow> Some (PollFailed, err ''Failed to query service status: '' (polled b k))
      | Some s \<Rightarrow>
          (if s = target then Some (Reached, out okm (polled b k))
           else if WAIT_TIME < loop_clk b k - t0
           then Some (WaitTimedOut, err tom ((polled b k)\<lparr>w_nticks := Suc (w_nticks b + k)\<rparr>))
           else poll_loop target okm tom t0 (after_polls b (Suc k))))"
  by (subst poll_loop.simps) (simp add: query_after_polls tick_polled sleep_polled split: option.split)

lemma nstatus_err_out [simp]:
  "w_nstatus (err m w) = w_nstatus w" "w_nstatus (out m w) = w_nstatus w"
  by (simp_all add: err_def out_def)

lemma nstatus_polled [simp]: "w_nstatus (polled b k) = w_nstatus b + Suc k"
  by (simp add: polled_def)

lemma lc_steps_one: "lc_step e s t \<Longrightarrow> lc_steps e s t"
  by (blast intro: lc_steps.intros)

lemma poll_loop_refines_gen:
  assumes ret: "poll_loop target okm tom t0 w = Some res"
  shows "\<forall>k. w = after_polls b k \<longrightarrow>
           lc_steps (loop_env target t0 b) (Waiting k)
             (lc_of_outcome (fst res) (w_nstatus (snd res) - w_nstatus b))"
proof (rule poll_loop.raw_induct [where P = "\<lambda>target okm tom t0 w res. \<forall>k. w = after_polls b k \<longrightarrow>
           lc_steps (loop_env target t0 b) (Waiting k)
             (lc_of_outcome (fst res) (w_nstatus (snd res) - w_nstatus b))", OF _ ret])
  fix f :: "dword \<Rightarrow> string \<Rightarrow> string \<Rightarrow> ulonglong \<Rightarrow> world \<Rightarrow> (wait_outcome \<times> world) option"
    and target okm tom t0 w res
  assume IH: "\<And>tg om tm st v y. f tg om tm st v = Some y \<Longrightarrow> \<forall>k. v = after_polls b k \<longrightarrow>
           lc_steps (loop_env tg st b) (Waiting k) (lc_of_outcome (fst y) (w_nstatus (snd y) - w_nstatus b))"
    and eq: "(let (st, w1) = QueryServiceStatus_api w in
              case st of
                None \<Rightarrow> Some (PollFailed, err ''Failed to query service status: '' w1)
              | Some s \<Rightarrow>
                  (if s = target then Some (Reached, out okm w1)
                   else (let (now, w2) = GetTickCount64_api w1 in
                         if WAIT_TIME < now - t0 then Some (WaitTimedOut, err tom w2)
                         else f target okm tom t0 (Sleep_api 250 w2)))) = Some res"
  show "\<forall>k. w = after_polls b k \<longrightarrow>
           lc_steps (loop_env target t0 b) (Waiting k)
             (lc_of_outcome (fst res) (w_nstatus (snd res) - w_nstatus b))"
  proof (intro allI impI)
    fix k assume wk: "w = after_polls b k"
    show "lc_steps (loop_env target t0 b) (Waiting k)
            (lc_of_outcome (fst res) (w_nstatus (snd res) - w_nstatus b))"
    proof (cases "loop_obs b k")
      case None
      with eq wk have "res = (PollFailed, err ''Failed to query service status: '' (polled b k))"
        by (simp add: query_after_polls)
      moreover have "lc_step (loop_env target t0 b) (Waiting k) (Failed (Suc k))"
        using None by (intro lc_step.poll_fail) (simp add: loop_env_def)
      ultimately show ?thesis by (simp add: lc_steps_one)
    next
      case (Some s)
      show ?thesis
      proof (cases "s = target")
        case True
        with Some eq wk have "res = (Reached, out okm (polled b k))" by (simp add: query_after_polls)
        moreover have "lc_step (loop_env target t0 b) (Waiting k) (Settled (Suc k))"
          using Some True by (intro lc_step.settle) (simp add: loop_env_def)
        ultimately show ?thesis by (simp add: lc_steps_one)
      next
        case ne: False
        show ?thesis
        proof (cases "WAIT_TIME < loop_clk b k - t0")
          case True
          with Some ne eq wk have
            "res = (WaitTimedOut, err tom ((polled b k)\<lparr>w_nticks := Suc (w_nticks b + k)\<rparr>))"
            by (simp add: query_after_polls tick_polled)
          moreover have "lc_step (loop_env target t0 b) (Waiting k) (TimedOut (Suc k))"
            using Some ne True by (intro lc_step.time_out [of _ _ s]) (simp_all add: loop_env_def)
          ultimately show ?thesis by (simp add: lc_steps_one err_def polled_def)
        next
          case False
          with Some ne eq wk have "f target okm tom t0 (after_polls b (Suc k)) = Some res"
            by (simp add: query_after_polls tick_polled sleep_polled)
          from IH [OF this] have "lc_steps (loop_env target t0 b) (Waiting (Suc k))
              (lc_of_outcome (fst res) (w_nstatus (snd res) - w_nstatus b))" by blast
          moreover have "lc_step (loop_env target t0 b) (Waiting k) (Waiting (Suc k))"
            using Some ne False by (intro lc_step.wait [of _ _ s]) (simp_all add: loop_env_def)
          ultimately show ?thesis by (blast intro: lc_steps.steps_more)
        qed
      qed
    qed
  qed
qed

lemma lc_steps_terminal: "lc_steps e s t \<Longrightarrow> lc_terminal s \<Longrightarrow> t = s"
  by (induction rule: lc_steps.induct) (auto elim: lc_step.cases)

lemma lc_steps_waiting:
  assumes "lc_steps e s t" and "s = Waiting k" and "lc_terminal t"
  shows "k < lc_polls t \<and>
         (\<forall>j. k \<le> j \<and> j < lc_polls t - 1 \<longrightarrow>
            (\<exists>v. env_obs e j = Some v \<and> v \<noteq> env_target e \<and> \<not> WAIT_TIME < env_clk e j - env_t0 e))"
  using assms
proof (induction arbitrary: k rule: lc_steps.induct)
  case (steps_none s)
  then show ?case by simp
next
  case (steps_more s u t)
  from steps_more.hyps(1) steps_more.prems(1) show ?case
  proof (cases rule: lc_step.cases)
    case (wait k' v)
    with steps_more.prems(1) have kk: "k' = k" by simp
    with wait steps_more.IH steps_more.prems(2) have IH: "Suc k < lc_polls t \<and>
         (\<forall>j. Suc k \<le> j \<and> j < lc_polls t - 1 \<longrightarrow>
            (\<exists>v. env_obs e j = Some v \<and> v \<noteq> env_target e \<and> \<not> WAIT_TIME < env_clk e j - env_t0 e))"
      by simp
    show ?thesis
    proof (intro conjI allI impI)
      show "k < lc_polls t" using IH by simp
      fix j assume "k \<le> j \<and> j < lc_polls t - 1"
      then show "\<exists>v. env_obs e j = Some v \<and> v \<noteq> env_target e \<and> \<not> WAIT_TIME < env_clk e j - env_t0 e"
        using IH wait kk by (cases "j = k") auto
    qed
  qed (use steps_more.hyps(2) lc_steps_terminal in fastforce)+
qed

subsection \<open>The clock and the bound on iterations\<close>

lemma clock_elapsed:
  assumes "clock_advances clk t0" and "k \<le> 121"
  shows "250 * k \<le> unat (clk k - t0) \<and> unat (clk k - t0) \<le> Suc k * 2 ^ 32"
  using assms(2)
proof (induction k)
  case 0
  with assms(1) show ?case by (simp add: clock_advances_def)
next
  case (Suc k)
  then have IH: "250 * k \<le> unat (clk k - t0) \<and> unat (clk k - t0) \<le> Suc k * 2 ^ 32" by simp
  have d: "250 \<le> unat (clk (Suc k) - clk k) \<and> unat (clk (Suc k) - clk k) \<le> 2 ^ 32"
    using assms(1) by (simp add: clock_advances_def)
  have "unat (clk k - t0) + unat (clk (Suc k) - clk k) \<le> Suc (Suc k) * 2 ^ 32"
    using IH d by simp
  also have "\<dots> < 2 ^ LENGTH(64)" using Suc.prems by simp
  finally have "unat (clk (Suc k) - t0) = unat (clk k - t0) + unat (clk (Suc k) - clk k)"
    by (rule unat_sub_chain)
  with IH d show ?case by simp
qed

lemma clock_times_out:
  assumes "clock_advances clk t0"
  shows "WAIT_TIME < clk 121 - t0"
proof -
  from clock_elapsed [OF assms, of 121] have "30250 \<le> unat (clk 121 - t0)" by simp
  then show ?thesis by (simp add: WAIT_TIME_def word_less_nat_alt)
qed

lemma unat_250_mult:
  "j \<le> 2 ^ 50 \<Longrightarrow> unat (250 * (word_of_nat j :: ulonglong)) = 250 * j"
proof -
  assume j: "j \<le> 2 ^ 50"
  have "(250 * (word_of_nat j :: ulonglong)) = word_of_nat (250 * j)" by simp
  moreover have "250 * j < 2 ^ LENGTH(64)" using j by simp
  ultimately show ?thesis by (simp add: of_nat_inverse)
qed

lemma poll_loop_stops_at:
  assumes "k \<le> j"
    and "loop_obs b j = None \<or> loop_obs b j = Some target \<or> WAIT_TIME < loop_clk b j - t0"
  shows "poll_loop target okm tom t0 (after_polls b k) \<noteq> None"
  using assms
proof (induction "j - k" arbitrary: k)
  case 0
  then have kj: "k = j" by simp
  show ?case using "0.prems"(2) unfolding kj
    by (auto simp: poll_loop_after [of target okm tom t0 b j] split: option.split)
next
  case (Suc d)
  show ?case
  proof (cases "loop_obs b k = None \<or> loop_obs b k = Some target \<or> WAIT_TIME < loop_clk b k - t0")
    case True
    then show ?thesis by (auto simp: poll_loop_after [of target okm tom t0 b k] split: option.split)
  next
    case False
    then have step: "poll_loop target okm tom t0 (after_polls b k) = poll_loop target okm tom t0 (after_polls b (Suc k))"
      by (auto simp: poll_loop_after [of target okm tom t0 b k] split: option.split)
    have "d = j - Suc k" and "Suc k \<le> j" using Suc.hyps(2) Suc.prems(1) by arith+
    from Suc.hyps(1) [OF this Suc.prems(2)] step show ?thesis by simp
  qed
qed

lemma poll_loop_skip:
  assumes "\<forall>j. k \<le> j \<and> j < k + m \<longrightarrow>
             (\<exists>v. loop_obs b j = Some v \<and> v \<noteq> target \<and> \<not> WAIT_TIME < loop_clk b j - t0)"
  shows "poll_loop target okm tom t0 (after_polls b k) = poll_loop target okm tom t0 (after_polls b (k + m))"
  using assms
proof (induction m arbitrary: k)
  case 0
  then show ?case by simp
next
  case (Suc m)
  from Suc.prems obtain v where "loop_obs b k = Some v" "v \<noteq> target" "\<not> WAIT_TIME < loop_clk b k - t0"
    by auto
  then have "poll_loop target okm tom t0 (after_polls b k) = poll_loop target okm tom t0 (after_polls b (Suc k))"
    by (simp add: poll_loop_after [of target okm tom t0 b k])
  also have "\<dots> = poll_loop target okm tom t0 (after_polls b (Suc k + m))"
    using Suc.prems by (intro Suc.IH) auto
  finally show ?case by simp
qed

lemma poll_loop_reaches:
  assumes "\<forall>j<n. \<exists>v. loop_obs b j = Some v \<and> v \<noteq> target \<and> \<not> WAIT_TIME < loop_clk b j - t0"
    and "loop_obs b n = Some target"
  shows "poll_loop target okm tom t0 b = Some (Reached, out okm (polled b n))"
proof -
  have "poll_loop target okm tom t0 (after_polls b 0) = poll_loop target okm tom t0 (after_polls b (0 + n))"
    using assms(1) by (intro poll_loop_skip) auto
  then show ?thesis using assms(2) by (simp add: poll_loop_after [of target okm tom t0 b n])
qed

lemma poll_loop_no_access:
  assumes "\<not> svc_access w SERVICE_QUERY_STATUS"
  shows "poll_loop target okm tom t0 w =
           Some (PollFailed, err ''Failed to query service status: '' (snd (QueryServiceStatus_api w)))"
  using assms by (subst poll_loop.simps) (simp add: QueryServiceStatus_api_def reg_call_def)

lemma StopService_cmd_loop:
  assumes "w_scm_up w" and "n \<in> dom (w_services w)" and "calls_succeed w 4"
    and "w_status w (w_nstatus w) \<noteq> SERVICE_STOPPED"
  shows "StopService_cmd n w =
    (case poll_loop SERVICE_STOPPED ''Service stopped successfully.'' ''Service stop timed out.''
            (w_ticks w (w_nticks w))
            (w\<lparr>w_scm := Some SC_MANAGER_CONNECT, w_svc := Some (n, SERVICE_STOP OR SERVICE_QUERY_STATUS),
               w_nstatus := Suc (w_nstatus w),
               w_calls := w_calls w @ [OpenSCManager SC_MANAGER_CONNECT,
                 OpenServiceA n (SERVICE_STOP OR SERVICE_QUERY_STATUS), QueryServiceStatusEx,
                 ControlService SERVICE_CONTROL_STOP],
               w_out := w_out w @ [''Service stop pending... ''], w_nticks := Suc (w_nticks w)\<rparr>) of
       None \<Rightarrow> None
     | Some (r, w7) \<Rightarrow> Some (r = Reached, close_scm (close_service w7)))"
proof -
  have f: "\<not> w_fail w (length (w_calls w) + i)" if "i < 4" for i
    using assms(3) that by (simp add: calls_succeed_def)
  from f [of 0] f [of "Suc 0"] f [of "Suc (Suc 0)"] f [of "Suc (Suc (Suc 0))"] assms(1,2,4) show ?thesis
    by (auto simp: StopService_cmd_def OpenSCManager_api_def OpenService_api_def reg_call_def
        QueryServiceStatus_api_def ControlStop_api_def GetTickCount64_api_def out_def svc_access_def
        win_consts)
qed

lemma poll_loop_bounded:
  assumes "clock_advances (loop_clk b) t0"
  shows "\<exists>r w'. poll_loop target okm tom t0 b = Some (r, w') \<and> w_nstatus w' \<le> w_nstatus b + 122"
proof -
  have stop: "loop_obs b 121 = None \<or> loop_obs b 121 = Some target \<or> WAIT_TIME < loop_clk b 121 - t0"
    using clock_times_out [OF assms] by blast
  from poll_loop_stops_at [of 0 121 b target t0 okm tom] stop
  obtain r w' where ret: "poll_loop target okm tom t0 b = Some (r, w')" by fastforce
  from poll_loop_refines_gen [of target okm tom t0 b "(r, w')" b] ret
  have steps: "lc_steps (loop_env target t0 b) (Waiting 0) (lc_of_outcome r (w_nstatus w' - w_nstatus b))"
    by simp
  have trm: "lc_terminal (lc_of_outcome r (w_nstatus w' - w_nstatus b))" by (cases r) auto
  from lc_steps_waiting [OF steps refl trm]
  have pos: "0 < w_nstatus w' - w_nstatus b"
    and inv: "\<forall>j. j < w_nstatus w' - w_nstatus b - 1 \<longrightarrow> \<not> WAIT_TIME < loop_clk b j - t0"
    by (cases r; auto simp: loop_env_def)+
  have "w_nstatus w' - w_nstatus b \<le> 122"
  proof (rule ccontr)
    assume "\<not> w_nstatus w' - w_nstatus b \<le> 122"
    with inv have "\<not> WAIT_TIME < loop_clk b 121 - t0" by simp
    with clock_times_out [OF assms] show False by simp
  qed
  with ret show ?thesis by auto
qed

text \<open>Under the access rule of \<open>Scc_Registry\<close> (\<open>QueryServiceStatusEx\<close> needs
  \<open>SERVICE_QUERY_STATUS\<close>), the handle start opens with \<open>SERVICE_START\<close> alone makes its
  first poll fail, so start returns false on every path. The note at the top of the source
  says start was validated; the two disagree, and the model records the documented rule.\<close>

lemma StartService_cmd_fails:
  "\<exists>w'. StartService_cmd n w = Some (False, w')"
proof -
  have "\<not> svc_access (w\<lparr>w_svc := Some (n, SERVICE_START)\<rparr>) SERVICE_QUERY_STATUS"
    by (simp add: svc_access_def win_consts)
  then show ?thesis
    by (auto simp: StartService_cmd_def api_defs poll_loop_no_access win_consts
        split: prod.splits if_splits)
qed

lemma StartService_cmd_no_handles:
  "no_handles w \<Longrightarrow> StartService_cmd n w = Some (r, w') \<Longrightarrow> no_handles w'"
  by (auto simp: StartService_cmd_def api_defs no_handles_def split: prod.splits if_splits option.splits)

lemma StopService_cmd_no_handles:
  "no_handles w \<Longrightarrow> StopService_cmd n w = Some (r, w') \<Longrightarrow> no_handles w'"
  by (auto simp: StopService_cmd_def api_defs no_handles_def split: prod.splits if_splits option.splits)

subsection \<open>Properties of the controller\<close>

text \<open>
  C1: every run of the polling loop that returns is a run of the spec's controller from
  Waiting to the terminal state matching the outcome, with the number of polls equal to the
  number of status queries the loop made.
\<close>

theorem poll_loop_refines:
  assumes "poll_loop target okm tom t0 b = Some (r, w')"
  shows "lc_steps (loop_env target t0 b) (Waiting 0) (lc_of_outcome r (w_nstatus w' - w_nstatus b))"
  using poll_loop_refines_gen [OF assms, of b] by simp

theorem poll_loop_refines_witness:
  "\<exists>w'. poll_loop SERVICE_STOPPED ''ok'' ''late'' 1000
          ((demo_world 1 SERVICE_STOPPED)\<lparr>w_svc := Some (''svc'', SERVICE_QUERY_STATUS)\<rparr>) = Some (Reached, w')
     \<and> lc_steps (loop_env SERVICE_STOPPED 1000
          ((demo_world 1 SERVICE_STOPPED)\<lparr>w_svc := Some (''svc'', SERVICE_QUERY_STATUS)\<rparr>))
          (Waiting 0) (Settled 2)"
proof -
  let ?b = "(demo_world 1 SERVICE_STOPPED)\<lparr>w_svc := Some (''svc'', SERVICE_QUERY_STATUS)\<rparr>"
  have r: "poll_loop SERVICE_STOPPED ''ok'' ''late'' 1000 ?b = Some (Reached, out ''ok'' (polled ?b 1))"
    by (rule poll_loop_reaches)
      (simp_all add: loop_obs_def loop_clk_def demo_world_def svc_access_def win_consts WAIT_TIME_def)
  have n0: "w_nstatus ?b = 0" by (simp add: demo_world_def)
  show ?thesis using poll_loop_refines [OF r] r n0 by (auto simp: polled_def out_def)
qed

text \<open>
  C2: with a clock that advances by at least the 250 ms slept per iteration, the polling
  loop returns, after at most 122 status queries (121 * 250 > 30000).
\<close>

theorem poll_loop_terminates:
  assumes "clock_advances (loop_clk b) t0"
  shows "\<exists>r w'. poll_loop target okm tom t0 b = Some (r, w') \<and> w_nstatus w' \<le> w_nstatus b + 122"
  using assms by (rule poll_loop_bounded)

theorem poll_loop_terminates_witness:
  "\<exists>r w'. poll_loop SERVICE_STOPPED ''ok'' ''late'' 1000
      ((demo_world 3 SERVICE_STOPPED)\<lparr>w_svc := Some (''svc'', SERVICE_QUERY_STATUS)\<rparr>) = Some (r, w')
      \<and> w_nstatus w' \<le> 122"
proof -
  have d: "(1000 + 250 * word_of_nat (Suc k) :: ulonglong) - (1000 + 250 * word_of_nat k) = 250" for k
    by (simp add: algebra_simps)
  have u: "unat (250 :: ulonglong) = 250" by simp
  have "clock_advances (loop_clk ((demo_world 3 SERVICE_STOPPED)\<lparr>w_svc := Some (''svc'', SERVICE_QUERY_STATUS)\<rparr>)) 1000"
  proof -
    have l: "loop_clk ((demo_world 3 SERVICE_STOPPED)\<lparr>w_svc := Some (''svc'', SERVICE_QUERY_STATUS)\<rparr>) k = 1000 + 250 * word_of_nat k" for k
      by (simp add: loop_clk_def demo_world_def)
    show ?thesis by (simp only: clock_advances_def l d u) simp
  qed
  from poll_loop_terminates [OF this, of SERVICE_STOPPED "''ok''" "''late''"] show ?thesis
    by (simp add: demo_world_def)
qed

text \<open>
  C3: when the service never reaches the target and the clock advances exactly by the
  250 ms slept, the loop reports a timeout after 122 queries and 30250 ms of sleep, printing
  the timeout message once; this holds for every start time, across the 64-bit wrap.
\<close>

theorem poll_loop_times_out:
  assumes obs: "\<forall>j. \<exists>v. loop_obs b j = Some v \<and> v \<noteq> target"
    and clk: "\<forall>j. loop_clk b j = t0 + 250 * word_of_nat j"
  shows "\<exists>w'. poll_loop target okm tom t0 b = Some (WaitTimedOut, w') \<and>
           w_nstatus w' = w_nstatus b + 122 \<and> w_slept w' = w_slept b + 30250 \<and>
           w_err w' = w_err b @ [tom]"
proof -
  have el: "loop_clk b j - t0 = 250 * word_of_nat j" for j using clk by simp
  have wait: "\<not> WAIT_TIME < loop_clk b j - t0" if "j < 121" for j
    using that by (simp add: el WAIT_TIME_def word_less_nat_alt unat_250_mult)
  have out: "WAIT_TIME < loop_clk b 121 - t0"
    by (simp add: el WAIT_TIME_def word_less_nat_alt unat_250_mult [of 121, simplified])
  have "poll_loop target okm tom t0 (after_polls b 0) = poll_loop target okm tom t0 (after_polls b (0 + 121))"
    using obs wait by (intro poll_loop_skip) auto
  moreover obtain v where "loop_obs b 121 = Some v" "v \<noteq> target" using obs by blast
  ultimately have "poll_loop target okm tom t0 b =
      Some (WaitTimedOut, err tom ((polled b 121)\<lparr>w_nticks := Suc (w_nticks b + 121)\<rparr>))"
    using out by (simp add: poll_loop_after [of target okm tom t0 b 121])
  then show ?thesis by (simp add: err_def polled_def)
qed

theorem poll_loop_times_out_witness:
  "\<exists>w'. poll_loop SERVICE_STOPPED ''ok'' ''late'' 1000
          ((demo_world 0 SERVICE_RUNNING)\<lparr>w_svc := Some (''svc'', SERVICE_QUERY_STATUS)\<rparr>)
        = Some (WaitTimedOut, w') \<and> w_nstatus w' = 122 \<and> w_slept w' = 30250 \<and> w_err w' = [''late'']"
proof -
  let ?b = "(demo_world 0 SERVICE_RUNNING)\<lparr>w_svc := Some (''svc'', SERVICE_QUERY_STATUS)\<rparr>"
  have o: "\<forall>j. \<exists>v. loop_obs ?b j = Some v \<and> v \<noteq> SERVICE_STOPPED"
    by (simp add: loop_obs_def demo_world_def svc_access_def win_consts)
  have c: "\<forall>j. loop_clk ?b j = 1000 + 250 * word_of_nat j"
    by (simp add: loop_clk_def demo_world_def)
  from poll_loop_times_out [OF o c, of "''ok''" "''late''"] show ?thesis
    by (simp add: demo_world_def)
qed

text \<open>
  C4: stop on a service that is running and reaches the stopped state after two polls
  succeeds with exactly three status queries (the initial one and two polls), one sleep,
  and no handle left open.
\<close>

theorem stop_settles_after_two_polls:
  assumes "w_scm_up w" and "n \<in> dom (w_services w)" and "calls_succeed w 6"
    and "w_status w (w_nstatus w) \<noteq> SERVICE_STOPPED"
    and "w_status w (Suc (w_nstatus w)) \<noteq> SERVICE_STOPPED"
    and "w_status w (Suc (Suc (w_nstatus w))) = SERVICE_STOPPED"
    and "\<not> WAIT_TIME < w_ticks w (Suc (w_nticks w)) - w_ticks w (w_nticks w)"
  shows "\<exists>w'. StopService_cmd n w = Some (True, w') \<and> w_nstatus w' = w_nstatus w + 3 \<and>
           w_slept w' = w_slept w + 250 \<and> no_handles w' \<and>
           w_out w' = w_out w @ [''Service stop pending... '', ''Service stopped successfully.'']"
proof -
  have f: "\<not> w_fail w (length (w_calls w) + i)" if "i < 6" for i
    using assms(3) that by (simp add: calls_succeed_def)
  have c4: "calls_succeed w 4" using assms(3) by (simp add: calls_succeed_def)
  define b where "b = w\<lparr>w_scm := Some SC_MANAGER_CONNECT, w_svc := Some (n, SERVICE_STOP OR SERVICE_QUERY_STATUS),
               w_nstatus := Suc (w_nstatus w),
               w_calls := w_calls w @ [OpenSCManager SC_MANAGER_CONNECT,
                 OpenServiceA n (SERVICE_STOP OR SERVICE_QUERY_STATUS), QueryServiceStatusEx,
                 ControlService SERVICE_CONTROL_STOP],
               w_out := w_out w @ [''Service stop pending... ''], w_nticks := Suc (w_nticks w)\<rparr>"
  have acc: "svc_access b SERVICE_QUERY_STATUS" by (simp add: b_def svc_access_def win_consts)
  have o0: "loop_obs b 0 = Some (w_status w (Suc (w_nstatus w)))"
    using f [of "Suc (Suc (Suc (Suc 0)))"] acc by (simp add: loop_obs_def b_def)
  have o1: "loop_obs b 1 = Some SERVICE_STOPPED"
    using f [of "Suc (Suc (Suc (Suc (Suc 0))))"] acc assms(6) by (simp add: loop_obs_def b_def)
  have c0: "loop_clk b 0 = w_ticks w (Suc (w_nticks w))" by (simp add: loop_clk_def b_def)
  have "poll_loop SERVICE_STOPPED ''Service stopped successfully.'' ''Service stop timed out.''
          (w_ticks w (w_nticks w)) b
        = Some (Reached, out ''Service stopped successfully.'' (polled b 1))"
    using o0 o1 c0 assms(5,7) by (intro poll_loop_reaches) auto
  then show ?thesis
    using StopService_cmd_loop [OF assms(1,2) c4 assms(4)]
    by (simp add: b_def [symmetric] out_def polled_def close_scm_def close_service_def no_handles_def)
      (simp add: b_def)
qed

theorem stop_settles_after_two_polls_witness:
  "\<exists>w'. StopService_cmd ''svc'' (demo_world 2 SERVICE_STOPPED) = Some (True, w') \<and>
     w_nstatus w' = 3 \<and> w_slept w' = 250 \<and> no_handles w' \<and>
     w_out w' = [''Service stop pending... '', ''Service stopped successfully.'']"
  using stop_settles_after_two_polls [of "demo_world 2 SERVICE_STOPPED" "''svc''"]
  by (simp add: demo_world_def calls_succeed_def win_consts WAIT_TIME_def)

text \<open>
  C5: stop on an already stopped service succeeds without issuing a control request: the
  only registry calls are the two opens and one status query.
\<close>

theorem stop_already_stopped:
  assumes "w_scm_up w" and "n \<in> dom (w_services w)" and "calls_succeed w 3"
    and "w_status w (w_nstatus w) = SERVICE_STOPPED"
  shows "\<exists>w'. StopService_cmd n w = Some (True, w') \<and>
           w_calls w' = w_calls w @ [OpenSCManager SC_MANAGER_CONNECT,
              OpenServiceA n (SERVICE_STOP OR SERVICE_QUERY_STATUS), QueryServiceStatusEx] \<and>
           w_out w' = w_out w @ [''Service is already stopped.''] \<and> no_handles w'"
proof -
  have f: "\<not> w_fail w (length (w_calls w) + i)" if "i < 3" for i
    using assms(3) that by (simp add: calls_succeed_def)
  from f [of 0] f [of "Suc 0"] f [of "Suc (Suc 0)"] assms(1,2,4) show ?thesis
    by (auto simp: StopService_cmd_def api_defs no_handles_def win_consts)
qed

theorem stop_already_stopped_witness:
  "\<exists>w'. StopService_cmd ''svc'' (demo_world 0 SERVICE_STOPPED) = Some (True, w') \<and>
     w_calls w' = [OpenSCManager SC_MANAGER_CONNECT,
        OpenServiceA ''svc'' (SERVICE_STOP OR SERVICE_QUERY_STATUS), QueryServiceStatusEx] \<and>
     w_out w' = [''Service is already stopped.''] \<and> no_handles w'"
  using stop_already_stopped [of "demo_world 0 SERVICE_STOPPED" "''svc''"]
  by (simp add: demo_world_def calls_succeed_def)

text \<open>
  C6: when the manager and the service open but StartServiceA fails, start reports
  failure: it has opened the manager with SC_MANAGER_CONNECT and the service with
  SERVICE_START, made no further call (no status query, no clock read), printed
  "Failed to start service: " on the error stream and nothing on the output stream, and
  closed both handles.
\<close>

theorem start_failure_reported:
  assumes "w_scm_up w" and "n \<in> dom (w_services w)" and "calls_succeed w 2"
    and "w_fail w (Suc (Suc (length (w_calls w))))"
  shows "\<exists>w'. StartService_cmd n w = Some (False, w') \<and>
           w_calls w' = w_calls w @ [OpenSCManager SC_MANAGER_CONNECT, OpenServiceA n SERVICE_START, StartServiceA] \<and>
           w_err w' = w_err w @ [''Failed to start service: ''] \<and> w_out w' = w_out w \<and>
           w_nticks w' = w_nticks w \<and> w_scm w' = None \<and> w_svc w' = None"
  using assms calls_succeed_first [OF assms(3)]
  by (auto simp: StartService_cmd_def api_defs close_scm_def close_service_def)

theorem start_failure_reported_witness:
  "\<exists>w'. StartService_cmd ''svc'' ((demo_world 0 SERVICE_RUNNING)\<lparr>w_fail := (\<lambda>k. k = 2)\<rparr>) = Some (False, w') \<and>
     w_calls w' = [OpenSCManager SC_MANAGER_CONNECT, OpenServiceA ''svc'' SERVICE_START, StartServiceA] \<and>
     w_err w' = [''Failed to start service: ''] \<and> w_out w' = [] \<and>
     w_nticks w' = 0 \<and> w_scm w' = None \<and> w_svc w' = None"
  using start_failure_reported [of "(demo_world 0 SERVICE_RUNNING)\<lparr>w_fail := (\<lambda>k. k = 2)\<rparr>" "''svc''"]
  by (simp add: demo_world_def calls_succeed_def)

end
