(* ===== verification/Scc_Report.thy ===== *)
theory Scc_Report
  imports Scc_Encoders
begin

text \<open>
  The report formatting of \<open>QueryService\<close>: \<open>GetServiceStateString\<close>,
  \<open>GetServiceTypeString\<close> and \<open>GetServiceStartTypeString\<close> of
  \<open>src/main-scclone.cpp\<close>, and the decimal printing of a \<open>DWORD\<close> by
  \<open>std::ostream::operator<<\<close>. The decoders \<open>state_of_string\<close> and
  \<open>type_of_string\<close> are reference definitions: they read a report back, and the round trip
  lemmas say what a report determines.
\<close>

fun dec_string :: "nat \<Rightarrow> string" where
  "dec_string n =
     (if n < 10 then [char_of (48 + n)] else dec_string (n div 10) @ [char_of (48 + n mod 10)])"

declare dec_string.simps [simp del]

definition GetServiceStateString :: "dword \<Rightarrow> string" where
  "GetServiceStateString state =
     (if state = SERVICE_STOPPED then ''STOPPED''
      else if state = SERVICE_START_PENDING then ''START_PENDING''
      else if state = SERVICE_STOP_PENDING then ''STOP_PENDING''
      else if state = SERVICE_RUNNING then ''RUNNING''
      else if state = SERVICE_CONTINUE_PENDING then ''CONTINUE_PENDING''
      else if state = SERVICE_PAUSE_PENDING then ''PAUSE_PENDING''
      else if state = SERVICE_PAUSED then ''PAUSED''
      else ''UNKNOWN'')"

text \<open>Each set flag appends its name and a space; an empty result is \<open>UNKNOWN\<close>,
  otherwise the trailing space is removed (\<open>pop_back\<close>).\<close>

definition GetServiceTypeString :: "dword \<Rightarrow> string" where
  "GetServiceTypeString type =
     (let result =
        (if type AND SERVICE_KERNEL_DRIVER \<noteq> 0 then ''KERNEL_DRIVER '' else []) @
        (if type AND SERVICE_FILE_SYSTEM_DRIVER \<noteq> 0 then ''FILE_SYSTEM_DRIVER '' else []) @
        (if type AND SERVICE_WIN32_OWN_PROCESS \<noteq> 0 then ''WIN32_OWN_PROCESS '' else []) @
        (if type AND SERVICE_WIN32_SHARE_PROCESS \<noteq> 0 then ''WIN32_SHARE_PROCESS '' else []) @
        (if type AND SERVICE_INTERACTIVE_PROCESS \<noteq> 0 then ''INTERACTIVE_PROCESS '' else [])
      in if result = [] then ''UNKNOWN'' else butlast result)"

definition GetServiceStartTypeString :: "dword \<Rightarrow> string" where
  "GetServiceStartTypeString startType =
     (if startType = SERVICE_BOOT_START then ''BOOT''
      else if startType = SERVICE_SYSTEM_START then ''SYSTEM''
      else if startType = SERVICE_AUTO_START then ''AUTO''
      else if startType = SERVICE_DEMAND_START then ''DEMAND''
      else if startType = SERVICE_DISABLED then ''DISABLED''
      else ''UNKNOWN'')"

subsection \<open>Reference decoders\<close>

definition state_names :: "(string \<times> dword) list" where
  "state_names =
     [(''STOPPED'', SERVICE_STOPPED), (''START_PENDING'', SERVICE_START_PENDING),
      (''STOP_PENDING'', SERVICE_STOP_PENDING), (''RUNNING'', SERVICE_RUNNING),
      (''CONTINUE_PENDING'', SERVICE_CONTINUE_PENDING), (''PAUSE_PENDING'', SERVICE_PAUSE_PENDING),
      (''PAUSED'', SERVICE_PAUSED)]"

definition state_of_string :: "string \<Rightarrow> dword option" where
  "state_of_string s = map_of state_names s"

definition type_names :: "(string \<times> dword) list" where
  "type_names =
     [(''KERNEL_DRIVER'', SERVICE_KERNEL_DRIVER), (''FILE_SYSTEM_DRIVER'', SERVICE_FILE_SYSTEM_DRIVER),
      (''WIN32_OWN_PROCESS'', SERVICE_WIN32_OWN_PROCESS),
      (''WIN32_SHARE_PROCESS'', SERVICE_WIN32_SHARE_PROCESS),
      (''INTERACTIVE_PROCESS'', SERVICE_INTERACTIVE_PROCESS)]"

definition type_of_string :: "string \<Rightarrow> dword" where
  "type_of_string s =
     foldr (\<lambda>n acc. (case map_of type_names n of Some b \<Rightarrow> b | None \<Rightarrow> 0) OR acc)
       (split_on CHR '' '' s) 0"

text \<open>The flags the type report shows.\<close>

definition printed_type_flags :: dword where
  "printed_type_flags =
     SERVICE_KERNEL_DRIVER OR SERVICE_FILE_SYSTEM_DRIVER OR SERVICE_WIN32_OWN_PROCESS OR
     SERVICE_WIN32_SHARE_PROCESS OR SERVICE_INTERACTIVE_PROCESS"

subsection \<open>Bit lemmas\<close>


lemma type_flag_bits:
  "(t::dword) AND SERVICE_KERNEL_DRIVER = (if bit t 0 then 1 else 0)"
  "t AND SERVICE_FILE_SYSTEM_DRIVER = (if bit t 1 then 2 else 0)"
  "t AND SERVICE_WIN32_OWN_PROCESS = (if bit t 4 then 0x10 else 0)"
  "t AND SERVICE_WIN32_SHARE_PROCESS = (if bit t 5 then 0x20 else 0)"
  "t AND SERVICE_INTERACTIVE_PROCESS = (if bit t 8 then 0x100 else 0)"
  using and_pow2 [of t 0] and_pow2 [of t 1] and_pow2 [of t 4] and_pow2 [of t 5] and_pow2 [of t 8]
  by (simp_all add: win_consts)

lemma printed_type_flags_split:
  "(t::dword) AND printed_type_flags =
     (t AND SERVICE_KERNEL_DRIVER) OR (t AND SERVICE_FILE_SYSTEM_DRIVER) OR
     (t AND SERVICE_WIN32_OWN_PROCESS) OR (t AND SERVICE_WIN32_SHARE_PROCESS) OR
     (t AND SERVICE_INTERACTIVE_PROCESS)"
  by (simp add: printed_type_flags_def bit.conj_disj_distrib)

subsection \<open>Properties of the report\<close>

text \<open>
  C38: the type report is unambiguous: reading it back gives exactly the flags it shows
  (kernel driver, file system driver, own process, share process, interactive), so the
  recognizer-driver flag and every other bit are dropped.
\<close>

theorem type_string_roundtrip:
  "type_of_string (GetServiceTypeString t) = t AND printed_type_flags"
  unfolding printed_type_flags_split GetServiceTypeString_def type_flag_bits
  by (cases "bit t 0"; cases "bit t 1"; cases "bit t 4"; cases "bit t 5"; cases "bit t 8")
     (simp_all add: type_of_string_def type_names_def win_consts)

text \<open>
  C39: the state report names each of the seven service states by a distinct word and
  every other value as UNKNOWN: reading it back gives the state exactly when it is one
  of 1..7.
\<close>

theorem state_string_roundtrip:
  "state_of_string (GetServiceStateString s) = (if 1 \<le> s \<and> s \<le> 7 then Some s else None)"
proof -
  have r: "1 \<le> s \<and> s \<le> 7 \<longleftrightarrow> s \<in> {1, 2, 3, 4, 5, 6, 7}"
    by (auto simp: word_le_nat_alt word_less_nat_alt unat_arith_simps) 
  show ?thesis
  proof (cases "s \<in> {1, 2, 3, 4, 5, 6, 7}")
    case True
    then show ?thesis using r
      by (auto simp: GetServiceStateString_def state_of_string_def state_names_def win_consts)
  next
    case False
    then have "GetServiceStateString s = ''UNKNOWN''"
      by (auto simp: GetServiceStateString_def win_consts)
    with False r show ?thesis by (simp add: state_of_string_def state_names_def)
  qed
qed

text \<open>
  C40: the start type and the error control CreateService submits are always values of
  their enumerations (start type at most SERVICE_DISABLED, error control at most
  SERVICE_ERROR_CRITICAL), so the start type report never reads UNKNOWN for them.
\<close>

theorem create_fields_in_range:
  "create_start_type args \<le> SERVICE_DISABLED \<and> create_error_control args \<le> SERVICE_ERROR_CRITICAL \<and>
   GetServiceStartTypeString (create_start_type args) \<noteq> ''UNKNOWN''"
  by (auto simp: create_start_type_def create_error_control_def GetServiceStartTypeString_def win_consts
      split: option.splits)

end
