(* ===== verification/Scc_Commands.thy ===== *)
theory Scc_Commands
  imports Scc_Lifecycle Scc_Report Scc_Args
begin

text \<open>
  The command handlers of \<open>src/main-scclone.cpp\<close> other than start and stop
  (\<open>QueryService\<close>, \<open>CreateService\<close>, \<open>QueryServiceDescription\<close>,
  \<open>DeleteService\<close>, \<open>ConfigService\<close>, \<open>SetServiceFailureActions\<close>) and \<open>main\<close>,
  each a function on the world of \<open>Scc_Registry\<close> with one branch per early return.
  A handler whose run can leave C++'s defined behaviour returns a \<open>cmd_outcome\<close>: an
  uncaught exception terminates the process, undefined behaviour ends the model.
\<close>

datatype cmd_outcome = Returned bool | Uncaught string | Undefined ub

definition close_both :: "world \<Rightarrow> world" where
  "close_both w = close_scm (close_service w)"

subsection \<open>QueryService\<close>

text \<open>The six lines of the report. The process id comes from the service manager and
  is not part of the model; its line keeps the label only.\<close>

definition query_report :: "svc_config \<Rightarrow> dword \<Rightarrow> string list" where
  "query_report config state =
     [''DISPLAY_NAME: '' @ (case sc_display config of None \<Rightarrow> ''(none)'' | Some d \<Rightarrow> d),
      ''TYPE        : '' @ GetServiceTypeString (sc_type config),
      ''START_TYPE  : '' @ GetServiceStartTypeString (sc_start config),
      ''STATE       : '' @ GetServiceStateString state,
      ''PID         : '',
      ''BINARY_PATH : '' @ (case sc_binpath config of None \<Rightarrow> ''(none)'' | Some p \<Rightarrow> p)]"

definition QueryService_cmd :: "string \<Rightarrow> world \<Rightarrow> bool \<times> world" where
  "QueryService_cmd serviceName w =
     (let (ok, w1) = OpenSCManager_api SC_MANAGER_CONNECT w in
      if \<not> ok then (False, err ''Failed to open service control manager: '' w1)
      else
        (let (ok2, w2) = OpenService_api serviceName (SERVICE_QUERY_STATUS OR SERVICE_QUERY_CONFIG) w1 in
         if \<not> ok2 then (False, close_scm (err ''Failed to open service: '' w2))
         else
           (let (st, w3) = QueryServiceStatus_api w2 in
            case st of
              None \<Rightarrow> (False, close_both (err ''Failed to query service status: '' w3))
            | Some state \<Rightarrow>
                (let (pr, w4) = QueryServiceConfig_probe w3 in
                 if pr = ProbeFailed
                 then (False, close_both (err ''Failed to determine buffer size for service config: '' w4))
                 else
                   (let (cfg, w5) = QueryServiceConfig_api w4 in
                    case cfg of
                      None \<Rightarrow> (False, close_both (err ''Failed to query service config: '' w5))
                    | Some config \<Rightarrow> (True, close_both (outs (query_report config state) w5)))))))"

subsection \<open>CreateService\<close>

text \<open>The configuration \<open>CreateServiceA\<close> is given, from the argument map: display name
  defaulting to the service name, the encoded fields, the load order group, the
  dependency buffer (read by the service manager as \<open>multi_sz_read\<close>) and the account.\<close>

definition create_config :: "arg_map \<Rightarrow> string \<Rightarrow> string \<Rightarrow> dword \<Rightarrow> svc_config" where
  "create_config args serviceName binPath serviceType =
     \<lparr>sc_type = serviceType, sc_start = create_start_type args,
      sc_error = create_error_control args, sc_binpath = Some binPath,
      sc_group = args ''group'',
      sc_deps = (case args ''depend'' of None \<Rightarrow> [] | Some v \<Rightarrow> multi_sz_read (depend_buffer v)),
      sc_account = args ''obj'',
      sc_display = Some (case args ''displayname'' of None \<Rightarrow> serviceName | Some d \<Rightarrow> d),
      sc_description = None, sc_delayed = False, sc_failure = None\<rparr>"

text \<open>The secondary updates after a successful create: description, then delayed
  auto-start; a failure of either is a warning and does not change the result.\<close>

definition set_description :: "arg_map \<Rightarrow> world \<Rightarrow> world" where
  "set_description args w =
     (case args ''description'' of
        None \<Rightarrow> w
      | Some d \<Rightarrow> (let (ok, w1) = ChangeDescription_api d w in
                  if ok then w1 else err ''Warning: Failed to set service description: '' w1))"

definition set_delayed :: "arg_map \<Rightarrow> world \<Rightarrow> world" where
  "set_delayed args w =
     (if wants_delayed_auto args then
        (let (ok, w1) = ChangeDelayed_api w in
         if ok then w1 else err ''Warning: Failed to set delayed auto-start: '' w1)
      else w)"

definition CreateService_cmd :: "arg_map \<Rightarrow> world \<Rightarrow> bool \<times> world" where
  "CreateService_cmd args w =
     (if args ''servicename'' = None \<or> args ''binpath'' = None
      then (False, err ''ERROR: Missing required parameters. Required: /servicename and /binpath'' w)
      else
        (let serviceName = the (args ''servicename''); binPath = the (args ''binpath'') in
         case create_service_type args of
           Inl _ \<Rightarrow> (False, err ''ERROR: 'interact' type must be used with 'own' or 'share' (e.g., type=interact type=own)'' w)
         | Inr serviceType \<Rightarrow>
             (let (ok, w1) = OpenSCManager_api SC_MANAGER_ALL_ACCESS w in
              if \<not> ok then (False, err ''Failed to open service control manager: '' w1)
              else
                (let (ok2, w2) = CreateService_api serviceName (create_config args serviceName binPath serviceType) w1 in
                 if \<not> ok2 then (False, close_scm (err ''Failed to create service: '' w2))
                 else
                   (let w3 = out (''Service created successfully: '' @ serviceName) w2;
                        w4 = set_delayed args (set_description args w3);
                        w5 = (if args ''tag'' = Some ''yes'' then out ''Tag ID: '' w4 else w4)
                    in (True, close_both w5))))))"

subsection \<open>QueryServiceDescription\<close>

definition QueryServiceDescription_cmd :: "string \<Rightarrow> world \<Rightarrow> bool \<times> world" where
  "QueryServiceDescription_cmd serviceName w =
     (let (ok, w1) = OpenSCManager_api SC_MANAGER_CONNECT w in
      if \<not> ok then (False, err ''Failed to open service control manager: '' w1)
      else
        (let (ok2, w2) = OpenService_api serviceName SERVICE_QUERY_CONFIG w1 in
         if \<not> ok2 then (False, close_scm (err ''Failed to open service: '' w2))
         else
           (let ((pr, d0, bytesNeeded), w3) = QueryDescription_api SIZEOF_SERVICE_DESCRIPTIONA 0 w2 in
            if pr = ProbeFailed
            then (False, close_both (err ''Failed to query service description: '' w3))
            else
              (let ((pr2, desc, n2), w4) = QueryDescription_api (unat bytesNeeded) bytesNeeded w3 in
               if pr2 \<noteq> Fits
               then (False, close_both (err ''Failed to query service description: '' w4))
               else
                 (True, close_both (outs [''SERVICE_NAME: '' @ serviceName,
                    ''DESCRIPTION: '' @ (case desc of None \<Rightarrow> ''(no description)'' | Some s \<Rightarrow> s)] w4))))))"

subsection \<open>DeleteService\<close>

definition DeleteService_cmd :: "string \<Rightarrow> world \<Rightarrow> bool \<times> world" where
  "DeleteService_cmd serviceName w =
     (let (ok, w1) = OpenSCManager_api SC_MANAGER_CONNECT w in
      if \<not> ok then (False, err ''Failed to open service control manager: '' w1)
      else
        (let (ok2, w2) = OpenService_api serviceName DELETE w1 in
         if \<not> ok2 then (False, close_scm (err ''Failed to open service: '' w2))
         else
           (let (ok3, w3) = DeleteService_api w2 in
            if \<not> ok3 then (False, close_both (err ''Failed to delete service: '' w3))
            else (True, close_both (out (''Service deleted successfully: '' @ serviceName) w3)))))"

subsection \<open>ConfigService\<close>

text \<open>The arguments of \<open>ChangeServiceConfigA\<close> built from the map: no change unless
  given; the tag is never changed.\<close>

definition config_request :: "arg_map \<Rightarrow> svc_change" where
  "config_request args =
     \<lparr>ch_type = config_service_type args, ch_start = config_start_type args,
      ch_error = config_error_control args, ch_binpath = args ''binpath'', ch_group = args ''group'',
      ch_deps = map_option depend_buffer (args ''depend''), ch_account = args ''obj'',
      ch_password = args ''password'', ch_display = args ''displayname''\<rparr>"

definition type_debug_flags :: "dword \<Rightarrow> string" where
  "type_debug_flags serviceType =
     (if serviceType = SERVICE_NO_CHANGE then ''SERVICE_NO_CHANGE''
      else (if serviceType AND SERVICE_KERNEL_DRIVER \<noteq> 0 then ''SERVICE_KERNEL_DRIVER '' else []) @
           (if serviceType AND SERVICE_FILE_SYSTEM_DRIVER \<noteq> 0 then ''SERVICE_FILE_SYSTEM_DRIVER '' else []) @
           (if serviceType AND SERVICE_WIN32_OWN_PROCESS \<noteq> 0 then ''SERVICE_WIN32_OWN_PROCESS '' else []) @
           (if serviceType AND SERVICE_WIN32_SHARE_PROCESS \<noteq> 0 then ''SERVICE_WIN32_SHARE_PROCESS '' else []) @
           (if serviceType AND SERVICE_INTERACTIVE_PROCESS \<noteq> 0 then ''SERVICE_INTERACTIVE_PROCESS '' else []))"

definition config_debug_lines :: "dword \<Rightarrow> string list" where
  "config_debug_lines serviceType =
     [''Debug - Service Type (numeric value): '' @ dec_string (unat serviceType),
      ''Debug - Service Type (flags): '' @ type_debug_flags serviceType]"

text \<open>\<open>args.at("type")\<close> in the last debug line throws \<open>std::out_of_range\<close> when
  \<open>/type\<close> was not given; nothing catches it, so the process terminates there.\<close>

definition ConfigService_cmd :: "string \<Rightarrow> arg_map \<Rightarrow> world \<Rightarrow> cmd_outcome \<times> world" where
  "ConfigService_cmd serviceName args w =
     (let (ok, w1) = OpenSCManager_api SC_MANAGER_CONNECT w in
      if \<not> ok then (Returned False, err ''Failed to open service control manager: '' w1)
      else
        (let (ok2, w2) = OpenService_api serviceName SERVICE_CHANGE_CONFIG w1 in
         if \<not> ok2 then (Returned False, close_scm (err ''Failed to open service: '' w2))
         else
           (let ch = config_request args;
                w3 = outs (config_debug_lines (ch_type ch)) w2
            in case args ''type'' of
                 None \<Rightarrow> (Uncaught ''std::out_of_range'', w3)
               | Some t \<Rightarrow>
                   (let w4 = out (''Debug - Type string from args: '' @ [CHR 0x27] @ t @ [CHR 0x27]) w3;
                        (ok3, w5) = ChangeServiceConfig_api ch w4
                    in if \<not> ok3 then (Returned False, close_both (err ''Failed to configure service: '' w5))
                       else
                         (let w6 = set_delayed args (set_description args w5)
                          in (Returned True, close_both (out ''Service configuration updated successfully.'' w6)))))))"

subsection \<open>SetServiceFailureActions\<close>

text \<open>The warnings of the builder, in the order printed on \<open>std::cerr\<close> (the text of
  \<open>e.what()\<close> is left out). The progress lines the builder prints on \<open>std::cout\<close>
  before the API call are not modelled.\<close>

definition warning_line :: "warning \<Rightarrow> string" where
  "warning_line wn =
     (case wn of
        InvalidResetPeriod \<Rightarrow> ''Invalid reset period value, using default (86400): ''
      | InvalidActionType t \<Rightarrow> ''Invalid action type: '' @ t @ '', using '' @ [CHR 0x27] @ ''none'' @ [CHR 0x27]
      | InvalidDelay \<Rightarrow> ''Invalid delay value: '')"

definition verify_lines :: "failure_actions \<Rightarrow> string list" where
  "verify_lines f =
     [''Configuration verified:'', ''  Reset Period: '' @ dec_string (unat (fa_reset f)) @ '' seconds''] @
     (if fa_actions f \<noteq> [] then
        map (\<lambda>(i, a). ''  Action '' @ dec_string i @ '': Type='' @ dec_string (unat (act_type a)) @
                       '', Delay='' @ dec_string (unat (act_delay a)) @ ''ms'')
          (enumerate 0 (fa_actions f))
      else [])"

definition SetServiceFailureActions_cmd :: "string \<Rightarrow> arg_map \<Rightarrow> world \<Rightarrow> cmd_outcome \<times> world" where
  "SetServiceFailureActions_cmd serviceName args w =
     (let (ok, w1) = OpenSCManager_api SC_MANAGER_ALL_ACCESS w in
      if \<not> ok then (Returned False, err ''Failed to open service control manager: '' w1)
      else
        (let w1' = out (''Attempting to configure service: '' @ [CHR 0x27] @ serviceName @ [CHR 0x27]) w1;
             (ok2, w2) = OpenService_api serviceName SERVICE_ALL_ACCESS w1'
         in if \<not> ok2 then (Returned False, close_scm (err ''Failed to open service: '' w2))
            else
              (case build_failure_actions args of
                 Inl u \<Rightarrow> (Undefined u, w2)
               | Inr (fa, ws) \<Rightarrow>
                   (let w3 = w2\<lparr>w_err := w_err w2 @ map warning_line ws\<rparr>;
                        (ok3, w4) = ChangeFailure_api fa w3
                    in if \<not> ok3
                       then (Returned False, close_both (err ''Failed to set service failure actions. Error code: '' w4))
                       else
                         (let (v, w5) = QueryFailure_api w4;
                              w6 = (case v of
                                      None \<Rightarrow> err ''Warning: Failed to verify configuration: '' w5
                                    | Some f \<Rightarrow> outs (verify_lines f) w5)
                          in (Returned True, close_both (out ''Service failure actions configured successfully.'' w6)))))))"

subsection \<open>main\<close>

datatype exit_status = ExitCode int | Terminated string | UndefinedBehaviour ub

definition usage_lines :: "string list" where
  "usage_lines =
     [''SC Clone - Service Controller utility'', ''Usage: scclone <command> [options]'', '''',
      ''Supported commands:'',
      ''  query         - Queries service status'',
      ''  create        - Creates a service'',
      ''  qdescription  - Queries service description'',
      ''  start         - Starts a service'',
      ''  stop          - Stops a service'',
      ''  delete        - Deletes a service'',
      ''  config        - Modifies service configuration'',
      ''  failure       - Sets service failure actions'']"

definition exit_of_bool :: "bool \<Rightarrow> exit_status" where
  "exit_of_bool b = ExitCode (if b then 0 else 1)"

definition exit_of_outcome :: "cmd_outcome \<Rightarrow> exit_status" where
  "exit_of_outcome r =
     (case r of Returned b \<Rightarrow> exit_of_bool b | Uncaught e \<Rightarrow> Terminated e | Undefined u \<Rightarrow> UndefinedBehaviour u)"

definition missing_name :: "string \<Rightarrow> world \<Rightarrow> exit_status \<times> world" where
  "missing_name command w =
     (ExitCode 1, err (''ERROR: Service name required for '' @ command @ '' command.'') w)"

text \<open>\<open>argv\<close> includes the program name, so \<open>argc = length argv\<close>; start and stop
  may not return (\<open>None\<close>).\<close>

definition main_cmd :: "string list \<Rightarrow> world \<Rightarrow> (exit_status \<times> world) option" where
  "main_cmd argv w =
     (if length argv < 2 then Some (ExitCode 1, outs usage_lines w)
      else
        (let command = argv ! 1 in
         if command = ''query'' then
           (if length argv < 3 then Some (missing_name command w)
            else Some (apfst exit_of_bool (QueryService_cmd (argv ! 2) w)))
         else if command = ''create'' then
           Some (apfst exit_of_bool (CreateService_cmd (ParseArgs argv 2) w))
         else if command = ''qdescription'' then
           (if length argv < 3 then Some (missing_name command w)
            else Some (apfst exit_of_bool (QueryServiceDescription_cmd (argv ! 2) w)))
         else if command = ''start'' then
           (if length argv < 3 then Some (missing_name command w)
            else map_option (apfst exit_of_bool) (StartService_cmd (argv ! 2) w))
         else if command = ''stop'' then
           (if length argv < 3 then Some (missing_name command w)
            else map_option (apfst exit_of_bool) (StopService_cmd (argv ! 2) w))
         else if command = ''delete'' then
           (if length argv < 3 then Some (missing_name command w)
            else Some (apfst exit_of_bool (DeleteService_cmd (argv ! 2) w)))
         else if command = ''config'' then
           (if length argv < 3 then Some (missing_name command w)
            else Some (apfst exit_of_outcome (ConfigService_cmd (argv ! 2) (ParseArgs argv 3) w)))
         else if command = ''failure'' then
           (if length argv < 3 then Some (missing_name command w)
            else Some (apfst exit_of_outcome (SetServiceFailureActions_cmd (argv ! 2) (ParseArgs argv 3) w)))
         else Some (ExitCode 1, outs usage_lines (err (''ERROR: Unknown command: '' @ command) w))))"

text \<open>The command names \<open>main\<close> dispatches on.\<close>

definition known_commands :: "string list" where
  "known_commands = [''query'', ''create'', ''qdescription'', ''start'', ''stop'', ''delete'', ''config'', ''failure'']"

subsection \<open>Lemmas: frames of the calls and the secondary updates\<close>

lemma svc_config_of_Some: "svc_config_of w = Some c \<Longrightarrow> w_services w (svc_name w) = Some c"
  by (auto simp: svc_config_of_def svc_name_def split: option.splits)

lemma change_config_frame:
  assumes "change_config call f w = (b, w')"
  shows "w_scm w' = w_scm w \<and> w_svc w' = w_svc w \<and> w_out w' = w_out w \<and> w_err w' = w_err w \<and>
         (w_services w' = w_services w \<or>
          (\<exists>c. svc_config_of w = Some c \<and> w_services w' = (w_services w)(svc_name w \<mapsto> f c)))"
  using assms by (auto simp: change_config_def reg_call_def split: option.splits if_splits)

lemma change_config_keeps:
  assumes "change_config call f w = (b, w')" and "\<And>c. P c \<Longrightarrow> P (f c)"
    and "w_services w n = Some c" and "P c"
  shows "\<exists>c'. w_services w' n = Some c' \<and> P c'"
  using change_config_frame [OF assms(1)] assms(2-4) svc_config_of_Some [of w]
  by (cases "n = svc_name w") auto

lemma change_config_services_ok:
  assumes "change_config call f w = (b, w')" and "\<And>c. P c \<Longrightarrow> P (f c)" and "services_ok P w"
  shows "services_ok P w'"
  using change_config_frame [OF assms(1)] assms(2,3) svc_config_of_Some [of w]
  by (auto simp: services_ok_def split: if_splits)

lemma set_description_handles [simp]:
  "w_scm (set_description args w) = w_scm w" "w_svc (set_description args w) = w_svc w"
  by (auto simp: set_description_def ChangeDescription_api_def change_config_def reg_call_def err_def
      split: option.splits prod.splits if_splits)

lemma set_delayed_handles [simp]:
  "w_scm (set_delayed args w) = w_scm w" "w_svc (set_delayed args w) = w_svc w"
  by (auto simp: set_delayed_def ChangeDelayed_api_def change_config_def reg_call_def err_def
      split: option.splits prod.splits if_splits)

lemma set_description_keeps:
  assumes "\<And>c x. P c \<Longrightarrow> P (c\<lparr>sc_description := x\<rparr>)" and "w_services w n = Some c" and "P c"
  shows "\<exists>c'. w_services (set_description args w) n = Some c' \<and> P c'"
proof (cases "args ''description''")
  case None
  then show ?thesis using assms(2,3) by (simp add: set_description_def)
next
  case (Some d)
  obtain ok w1 where r: "ChangeDescription_api d w = (ok, w1)" by fastforce
  have "\<And>c. P c \<Longrightarrow> P (c\<lparr>sc_description := set_string (Some d) (sc_description c)\<rparr>)"
    using assms(1) by blast
  from change_config_keeps [where P = P, OF r [unfolded ChangeDescription_api_def] this assms(2,3)]
  obtain c' where "w_services w1 n = Some c'" "P c'" by blast
  then show ?thesis using Some r by (auto simp: set_description_def err_def)
qed

lemma set_delayed_keeps:
  assumes "\<And>c. P c \<Longrightarrow> P (c\<lparr>sc_delayed := True\<rparr>)" and "w_services w n = Some c" and "P c"
  shows "\<exists>c'. w_services (set_delayed args w) n = Some c' \<and> P c'"
proof (cases "wants_delayed_auto args")
  case False
  then show ?thesis using assms(2,3) by (simp add: set_delayed_def)
next
  case True
  obtain ok w1 where r: "ChangeDelayed_api w = (ok, w1)" by fastforce
  from change_config_keeps [where P = P, OF r [unfolded ChangeDelayed_api_def] _ assms(2,3)] assms(1)
  obtain c' where "w_services w1 n = Some c'" "P c'" by blast
  then show ?thesis using True r by (auto simp: set_delayed_def err_def)
qed

lemma set_description_services_ok:
  assumes "\<And>c x. P c \<Longrightarrow> P (c\<lparr>sc_description := x\<rparr>)" and "services_ok P w"
  shows "services_ok P (set_description args w)"
proof (cases "args ''description''")
  case None
  then show ?thesis using assms(2) by (simp add: set_description_def)
next
  case (Some d)
  obtain ok w1 where r: "ChangeDescription_api d w = (ok, w1)" by fastforce
  from change_config_services_ok [OF r [unfolded ChangeDescription_api_def] _ assms(2)] assms(1)
  have "services_ok P w1" by blast
  then show ?thesis using Some r by (auto simp: set_description_def err_def services_ok_def)
qed

lemma set_delayed_services_ok:
  assumes "\<And>c. P c \<Longrightarrow> P (c\<lparr>sc_delayed := True\<rparr>)" and "services_ok P w"
  shows "services_ok P (set_delayed args w)"
proof (cases "wants_delayed_auto args")
  case False
  then show ?thesis using assms(2) by (simp add: set_delayed_def)
next
  case True
  obtain ok w1 where r: "ChangeDelayed_api w = (ok, w1)" by fastforce
  from change_config_services_ok [OF r [unfolded ChangeDelayed_api_def] _ assms(2)] assms(1)
  have "services_ok P w1" by blast
  then show ?thesis using True r by (auto simp: set_delayed_def err_def services_ok_def)
qed

lemma no_handles_output [simp]:
  "no_handles (err m w) = no_handles w" "no_handles (out m w) = no_handles w"
  "no_handles (outs ms w) = no_handles w"
  by (simp_all add: no_handles_def err_def out_def outs_def)

lemma QueryService_cmd_no_handles:
  "no_handles w \<Longrightarrow> QueryService_cmd n w = (b, w') \<Longrightarrow> no_handles w'"
  by (auto simp: QueryService_cmd_def api_defs close_both_def no_handles_def
      split: prod.splits if_splits option.splits)

lemma CreateService_cmd_no_handles:
  "no_handles w \<Longrightarrow> CreateService_cmd args w = (b, w') \<Longrightarrow> no_handles w'"
  by (auto simp: CreateService_cmd_def api_defs close_both_def no_handles_def Let_def
      split: prod.splits if_splits option.splits sum.splits)

lemma QueryServiceDescription_cmd_no_handles:
  "no_handles w \<Longrightarrow> QueryServiceDescription_cmd n w = (b, w') \<Longrightarrow> no_handles w'"
  by (auto simp: QueryServiceDescription_cmd_def api_defs close_both_def no_handles_def
      split: prod.splits if_splits option.splits)

lemma DeleteService_cmd_no_handles:
  "no_handles w \<Longrightarrow> DeleteService_cmd n w = (b, w') \<Longrightarrow> no_handles w'"
  by (auto simp: DeleteService_cmd_def api_defs close_both_def no_handles_def
      split: prod.splits if_splits option.splits)

lemma ConfigService_cmd_no_handles:
  "no_handles w \<Longrightarrow> ConfigService_cmd n args w = (Returned b, w') \<Longrightarrow> no_handles w'"
  by (auto simp: ConfigService_cmd_def api_defs close_both_def no_handles_def Let_def
      split: prod.splits if_splits option.splits)

lemma SetServiceFailureActions_cmd_no_handles:
  "no_handles w \<Longrightarrow> SetServiceFailureActions_cmd n args w = (Returned b, w') \<Longrightarrow> no_handles w'"
  by (auto simp: SetServiceFailureActions_cmd_def api_defs close_both_def no_handles_def Let_def
      split: prod.splits if_splits option.splits sum.splits)

lemma poll_loop_services:
  assumes "poll_loop target okm tom t0 w = Some res"
  shows "w_services (snd res) = w_services w"
proof (rule poll_loop.raw_induct [where P = "\<lambda>target okm tom t0 w res. w_services (snd res) = w_services w", OF _ assms])
  fix f :: "dword \<Rightarrow> string \<Rightarrow> string \<Rightarrow> ulonglong \<Rightarrow> world \<Rightarrow> (wait_outcome \<times> world) option"
    and target okm tom t0 w res
  assume IH: "\<And>tg om tm st v y. f tg om tm st v = Some y \<Longrightarrow> w_services (snd y) = w_services v"
    and eq: "(let (st, w1) = QueryServiceStatus_api w in
              case st of
                None \<Rightarrow> Some (PollFailed, err ''Failed to query service status: '' w1)
              | Some s \<Rightarrow>
                  (if s = target then Some (Reached, out okm w1)
                   else (let (now, w2) = GetTickCount64_api w1 in
                         if WAIT_TIME < now - t0 then Some (WaitTimedOut, err tom w2)
                         else f target okm tom t0 (Sleep_api 250 w2)))) = Some res"
  show "w_services (snd res) = w_services w"
    using eq by (auto simp: api_defs Sleep_api_def Let_def split: prod.splits option.splits if_splits dest!: IH)
qed

lemma poll_loop_some:
  "clock_advances (loop_clk b) t0 \<Longrightarrow> poll_loop target okm tom t0 b \<noteq> None"
  using poll_loop_bounded [of b t0 target okm tom] by auto

lemma StopService_cmd_returns:
  assumes "clock_advances (\<lambda>k. w_ticks w (Suc (w_nticks w) + k)) (w_ticks w (w_nticks w))"
  shows "StopService_cmd n w \<noteq> None"
proof -
  have key: "(poll_loop tg a c (w_ticks w (w_nticks w)) B = None) = False"
    if "w_ticks B = w_ticks w" "w_nticks B = Suc (w_nticks w)" for tg a c B
  proof -
    have "loop_clk B = (\<lambda>k. w_ticks w (Suc (w_nticks w) + k))"
      using that by (simp add: loop_clk_def fun_eq_iff)
    with assms show ?thesis by (simp add: poll_loop_some)
  qed
  show ?thesis
    by (auto simp: StopService_cmd_def api_defs Let_def key split: prod.splits if_splits option.splits)
qed

lemma registry_wf_output [simp]:
  "registry_wf (err m w) = registry_wf w" "registry_wf (out m w) = registry_wf w"
  "registry_wf (outs ms w) = registry_wf w" "registry_wf (close_both w) = registry_wf w"
  "registry_wf (close_scm w) = registry_wf w" "registry_wf (close_service w) = registry_wf w"
  by (simp_all add: registry_wf_def services_ok_def err_def out_def outs_def close_both_def
      close_scm_def close_service_def)

lemma registry_wf_same: "w_services w' = w_services w \<Longrightarrow> registry_wf w' = registry_wf w"
  by (simp add: registry_wf_def services_ok_def)

lemma open_api_services:
  "OpenSCManager_api a w = (b, w') \<Longrightarrow> w_services w' = w_services w"
  "OpenService_api n a w = (b, w') \<Longrightarrow> w_services w' = w_services w"
  by (auto simp: OpenSCManager_api_def OpenService_api_def reg_call_def split: if_splits)

lemma CreateService_api_wf:
  "CreateService_api n cfg w = (b, w') \<Longrightarrow> svc_type_wf (sc_type cfg) \<Longrightarrow> registry_wf w \<Longrightarrow> registry_wf w'"
  by (auto simp: CreateService_api_def reg_call_def registry_wf_def services_ok_def split: if_splits)

lemma services_ok_output [simp]:
  "services_ok P (err m w) = services_ok P w" "services_ok P (out m w) = services_ok P w"
  "services_ok P (outs ms w) = services_ok P w" "services_ok P (close_both w) = services_ok P w"
  "services_ok P (close_scm w) = services_ok P w" "services_ok P (close_service w) = services_ok P w"
  by (simp_all add: services_ok_def err_def out_def outs_def close_both_def close_scm_def close_service_def)

lemma create_type_wf: "create_service_type args = Inr t \<Longrightarrow> svc_type_wf t"
  by (auto simp: create_service_type_def svc_type_wf_def win_consts split: option.splits if_splits)

lemma apply_change_wf:
  "svc_type_wf (sc_type c) \<Longrightarrow> svc_type_wf (sc_type (apply_change (config_request args) c))"
  using config_service_type_wf [of args]
  by (auto simp: apply_change_def config_request_def keep_or_def)

lemma QueryService_cmd_services: "w_services (snd (QueryService_cmd n w)) = w_services w"
  by (auto simp: QueryService_cmd_def api_defs Let_def close_both_def split: prod.splits if_splits option.splits)

lemma QueryServiceDescription_cmd_services:
  "w_services (snd (QueryServiceDescription_cmd n w)) = w_services w"
  by (auto simp: QueryServiceDescription_cmd_def api_defs Let_def close_both_def
      split: prod.splits if_splits option.splits)

lemma StartService_cmd_services:
  "StartService_cmd n w = Some (r, w') \<Longrightarrow> w_services w' = w_services w"
  by (auto simp: StartService_cmd_def api_defs Let_def split: prod.splits if_splits option.splits
      dest!: poll_loop_services)

lemma StopService_cmd_services:
  "StopService_cmd n w = Some (r, w') \<Longrightarrow> w_services w' = w_services w"
  by (auto simp: StopService_cmd_def api_defs Let_def split: prod.splits if_splits option.splits
      dest!: poll_loop_services)

lemma DeleteService_cmd_wf: "registry_wf w \<Longrightarrow> registry_wf (snd (DeleteService_cmd n w))"
  by (auto simp: DeleteService_cmd_def api_defs Let_def close_both_def registry_wf_def services_ok_def
      split: prod.splits if_splits option.splits)

lemma secondary_wf:
  "registry_wf w \<Longrightarrow> registry_wf (set_delayed args (set_description a w))"
  unfolding registry_wf_def
  by (intro set_delayed_services_ok set_description_services_ok) simp_all

lemma CreateService_cmd_wf:
  assumes wf: "registry_wf w" and r: "CreateService_cmd args w = (b, w')"
  shows "registry_wf w'"
proof (cases "args ''servicename'' = None \<or> args ''binpath'' = None")
  case True
  then show ?thesis using r wf by (auto simp: CreateService_cmd_def)
next
  case False
  then obtain n p where a: "args ''servicename'' = Some n" "args ''binpath'' = Some p" by auto
  show ?thesis
  proof (cases "create_service_type args")
    case (Inl e)
    then show ?thesis using a r wf by (auto simp: CreateService_cmd_def)
  next
    case (Inr t)
    obtain ok1 w1 where o1: "OpenSCManager_api SC_MANAGER_ALL_ACCESS w = (ok1, w1)" by fastforce
    obtain ok2 w2 where o2: "CreateService_api n (create_config args n p t) w1 = (ok2, w2)" by fastforce
    have wf1: "registry_wf w1" using registry_wf_same [OF open_api_services(1) [OF o1]] wf by simp
    have wf2: "registry_wf w2"
      using CreateService_api_wf [OF o2 _ wf1] create_type_wf [OF Inr] by (simp add: create_config_def)
    show ?thesis
      using r a Inr o1 o2 wf1 wf2 secondary_wf [of "out (''Service created successfully: '' @ n) w2"]
      by (auto simp: CreateService_cmd_def Let_def split: if_splits)
  qed
qed

lemma change_config_wf:
  "change_config call f w = (b, w') \<Longrightarrow> (\<And>c. svc_type_wf (sc_type c) \<Longrightarrow> svc_type_wf (sc_type (f c)))
   \<Longrightarrow> registry_wf w \<Longrightarrow> registry_wf w'"
  unfolding registry_wf_def by (rule change_config_services_ok)

lemma QueryFailure_api_services: "QueryFailure_api w = (v, w') \<Longrightarrow> w_services w' = w_services w"
  by (auto simp: QueryFailure_api_def reg_call_def Let_def split: option.splits if_splits)

lemma ConfigService_cmd_wf:
  assumes wf: "registry_wf w" and r: "ConfigService_cmd n args w = (res, w')"
  shows "registry_wf w'"
proof -
  obtain ok1 w1 where o1: "OpenSCManager_api SC_MANAGER_CONNECT w = (ok1, w1)" by fastforce
  obtain ok2 w2 where o2: "OpenService_api n SERVICE_CHANGE_CONFIG w1 = (ok2, w2)" by fastforce
  have wf1: "registry_wf w1" using registry_wf_same [OF open_api_services(1) [OF o1]] wf by simp
  have wf2: "registry_wf w2" using registry_wf_same [OF open_api_services(2) [OF o2]] wf1 by simp
  let ?w3 = "outs (config_debug_lines (ch_type (config_request args))) w2"
  show ?thesis
  proof (cases "args ''type''")
    case None
    then show ?thesis using r o1 o2 wf wf1 wf2 by (auto simp: ConfigService_cmd_def Let_def split: if_splits)
  next
    case (Some t)
    let ?w4 = "out (''Debug - Type string from args: '' @ [CHR 0x27] @ t @ [CHR 0x27]) ?w3"
    obtain ok3 w5 where o3: "ChangeServiceConfig_api (config_request args) ?w4 = (ok3, w5)" by fastforce
    have wf5: "registry_wf w5"
      using change_config_wf [OF o3 [unfolded ChangeServiceConfig_api_def] apply_change_wf] wf2 by simp
    show ?thesis
      using r o1 o2 o3 Some wf wf1 wf2 wf5 secondary_wf [of w5]
      by (auto simp: ConfigService_cmd_def Let_def split: if_splits)
  qed
qed

lemma SetServiceFailureActions_cmd_wf:
  assumes wf: "registry_wf w" and r: "SetServiceFailureActions_cmd n args w = (res, w')"
  shows "registry_wf w'"
proof -
  obtain ok1 w1 where o1: "OpenSCManager_api SC_MANAGER_ALL_ACCESS w = (ok1, w1)" by fastforce
  let ?w1 = "out (''Attempting to configure service: '' @ [CHR 0x27] @ n @ [CHR 0x27]) w1"
  obtain ok2 w2 where o2: "OpenService_api n SERVICE_ALL_ACCESS ?w1 = (ok2, w2)" by fastforce
  have wf1: "registry_wf w1" using registry_wf_same [OF open_api_services(1) [OF o1]] wf by simp
  have wf2: "registry_wf w2" using registry_wf_same [OF open_api_services(2) [OF o2]] wf1 by simp
  show ?thesis
  proof (cases "build_failure_actions args")
    case (Inl u)
    then have "w' \<in> {err ''Failed to open service control manager: '' w1,
                close_scm (err ''Failed to open service: '' w2), w2}"
      using r o1 o2 by (simp add: SetServiceFailureActions_cmd_def split: if_splits)
    then show ?thesis using wf1 wf2 by auto
  next
    case (Inr p)
    obtain fa ws where p: "p = (fa, ws)" by fastforce
    let ?w3 = "w2\<lparr>w_err := w_err w2 @ map warning_line ws\<rparr>"
    obtain ok3 w4 where o3: "ChangeFailure_api fa ?w3 = (ok3, w4)" by fastforce
    obtain v w5 where o4: "QueryFailure_api w4 = (v, w5)" by fastforce
    have wf3: "registry_wf ?w3" using wf2 registry_wf_same [of ?w3 w2] by simp
    have wf4: "registry_wf w4"
      using change_config_wf [OF o3 [unfolded ChangeFailure_api_def] _ wf3] by simp
    have wf5: "registry_wf w5" using registry_wf_same [OF QueryFailure_api_services [OF o4]] wf4 by simp
    have "w' \<in> {err ''Failed to open service control manager: '' w1,
                close_scm (err ''Failed to open service: '' w2),
                close_both (err ''Failed to set service failure actions. Error code: '' w4),
                close_both (out ''Service failure actions configured successfully.''
                  (case v of None \<Rightarrow> err ''Warning: Failed to verify configuration: '' w5
                   | Some f \<Rightarrow> outs (verify_lines f) w5))}"
      using r o1 o2 o3 o4 Inr p
      by (simp add: SetServiceFailureActions_cmd_def split: if_splits)
    then show ?thesis using wf1 wf2 wf4 wf5 by (auto split: option.splits)
  qed
qed

lemma command_wf:
  "registry_wf w \<Longrightarrow> QueryService_cmd n w = (b, w') \<Longrightarrow> registry_wf w'"
  "registry_wf w \<Longrightarrow> QueryServiceDescription_cmd n w = (b, w') \<Longrightarrow> registry_wf w'"
  "registry_wf w \<Longrightarrow> DeleteService_cmd n w = (b, w') \<Longrightarrow> registry_wf w'"
  "registry_wf w \<Longrightarrow> StartService_cmd n w = Some (b, w') \<Longrightarrow> registry_wf w'"
  "registry_wf w \<Longrightarrow> StopService_cmd n w = Some (b, w') \<Longrightarrow> registry_wf w'"
  using registry_wf_same [OF QueryService_cmd_services [of n w]]
    registry_wf_same [OF QueryServiceDescription_cmd_services [of n w]]
    DeleteService_cmd_wf [of w n]
    registry_wf_same [OF StartService_cmd_services [of n w b w']]
    registry_wf_same [OF StopService_cmd_services [of n w b w']]
  by simp_all

lemma failure_cmd_stores:
  assumes "build_failure_actions args = Inr (fa, ws)" and "w_scm_up w" and "w_services w n = Some c"
    and "calls_succeed w 3"
  shows "\<exists>w4 v w5. QueryFailure_api w4 = (v, w5) \<and>
           w_services w4 n = Some (c\<lparr>sc_failure := Some (apply_failure fa (sc_failure c))\<rparr>) \<and>
           w_svc w4 = Some (n, SERVICE_ALL_ACCESS) \<and>
           SetServiceFailureActions_cmd n args w =
             (Returned True, close_both (out ''Service failure actions configured successfully.''
                (case v of None \<Rightarrow> err ''Warning: Failed to verify configuration: '' w5
                 | Some f \<Rightarrow> outs (verify_lines f) w5)))"
proof -
  obtain ok1 w1 where o1: "OpenSCManager_api SC_MANAGER_ALL_ACCESS w = (ok1, w1)" by fastforce
  define w1' where "w1' = out (''Attempting to configure service: '' @ [CHR 0x27] @ n @ [CHR 0x27]) w1"
  obtain ok2 w2 where o2: "OpenService_api n SERVICE_ALL_ACCESS w1' = (ok2, w2)" by fastforce
  have k: "ok1" "ok2" "w_svc w2 = Some (n, SERVICE_ALL_ACCESS)" "w_services w2 = w_services w"
    "w_fail w2 = w_fail w" "length (w_calls w2) = Suc (Suc (length (w_calls w)))"
    using o1 o2 assms calls_succeed_first [OF assms(4)]
    by (auto simp: OpenSCManager_api_def OpenService_api_def reg_call_def w1'_def out_def split: if_splits)
  define w3 where "w3 = w2\<lparr>w_err := w_err w2 @ map warning_line ws\<rparr>"
  obtain ok3 w4 where o3: "ChangeFailure_api fa w3 = (ok3, w4)" by fastforce
  have k3: "ok3" and s4: "w_services w4 n = Some (c\<lparr>sc_failure := Some (apply_failure fa (sc_failure c))\<rparr>)"
    and h4: "w_svc w4 = Some (n, SERVICE_ALL_ACCESS)"
    using o3 k assms calls_succeed_first [OF assms(4)]
    by (auto simp: ChangeFailure_api_def change_config_def reg_call_def svc_config_of_def
        svc_access_def svc_name_def w3_def win_consts)
  obtain v w5 where o4: "QueryFailure_api w4 = (v, w5)" by fastforce
  have "SetServiceFailureActions_cmd n args w =
             (Returned True, close_both (out ''Service failure actions configured successfully.''
                (case v of None \<Rightarrow> err ''Warning: Failed to verify configuration: '' w5
                 | Some f \<Rightarrow> outs (verify_lines f) w5)))"
    using o1 o2 o3 o4 k k3 assms(1) by (simp add: SetServiceFailureActions_cmd_def w1'_def w3_def)
  with o4 s4 h4 show ?thesis by blast
qed

lemma QueryFailure_api_frame:
  "QueryFailure_api w = (v, w') \<Longrightarrow> w_services w' = w_services w \<and> w_err w' = w_err w"
  by (auto simp: QueryFailure_api_def reg_call_def Let_def split: option.splits if_splits)

subsection \<open>Properties of the program\<close>

text \<open>
  C7: every invocation of the program returns (no command loops forever), provided the
  clock advances by at least the 250 ms slept and at most 2^32 ms per poll; start always
  returns, stop by the bound on its polling loop.
\<close>

theorem main_returns:
  assumes "clock_advances (\<lambda>k. w_ticks w (Suc (w_nticks w) + k)) (w_ticks w (w_nticks w))"
  shows "main_cmd argv w \<noteq> None"
  using StopService_cmd_returns [OF assms, of "argv ! 2"] StartService_cmd_fails [of "argv ! 2" w]
  by (auto simp: main_cmd_def Let_def)

text \<open>
  C8: every invocation that exits with an exit code leaves no service manager or service
  handle open: each command closes what it opened on every path.
\<close>

theorem main_releases_handles:
  assumes "no_handles w" and "main_cmd argv w = Some (ExitCode c, w')"
  shows "no_handles w'"
  using assms(2)
  by (auto simp: main_cmd_def Let_def missing_name_def apfst_def map_prod_def assms(1)
      exit_of_outcome_def exit_of_bool_def split: prod.splits if_splits cmd_outcome.splits
      dest: QueryService_cmd_no_handles [OF assms(1)] CreateService_cmd_no_handles [OF assms(1)]
        QueryServiceDescription_cmd_no_handles [OF assms(1)] DeleteService_cmd_no_handles [OF assms(1)]
        ConfigService_cmd_no_handles [OF assms(1)] SetServiceFailureActions_cmd_no_handles [OF assms(1)]
        StartService_cmd_no_handles [OF assms(1)] StopService_cmd_no_handles [OF assms(1)])

text \<open>
  C9: the registry stays well typed: when every stored service type is well formed
  before an invocation, it is after it, whatever the command (create submits only
  well-formed types, config changes a type only to a well-formed one, the others leave types alone).
\<close>

theorem main_registry_wf:
  assumes "registry_wf w" and "main_cmd argv w = Some (r, w')"
  shows "registry_wf w'"
  using assms(2)
  by (auto simp: main_cmd_def Let_def missing_name_def apfst_def map_prod_def assms(1)
      split: prod.splits if_splits
      dest: command_wf [OF assms(1)] CreateService_cmd_wf [OF assms(1)] ConfigService_cmd_wf [OF assms(1)]
        SetServiceFailureActions_cmd_wf [OF assms(1)])

theorem main_returns_witness:
  "main_cmd [''scclone'', ''stop'', ''svc''] (demo_world 2 SERVICE_STOPPED) \<noteq> None"
proof -
  have d: "(1000 + 250 * word_of_nat (Suc k) :: ulonglong) - (1000 + 250 * word_of_nat k) = 250" for k
    by (simp add: algebra_simps)
  have l: "w_ticks (demo_world 2 SERVICE_STOPPED) (Suc (w_nticks (demo_world 2 SERVICE_STOPPED)) + k)
             = 1000 + 250 * word_of_nat (Suc k)" for k
    by (simp add: demo_world_def)
  have t: "w_ticks (demo_world 2 SERVICE_STOPPED) (w_nticks (demo_world 2 SERVICE_STOPPED)) = 1000"
    by (simp add: demo_world_def)
  have u: "unat (250 :: ulonglong) = 250" by simp
  have "clock_advances (\<lambda>k. w_ticks (demo_world 2 SERVICE_STOPPED) (Suc (w_nticks (demo_world 2 SERVICE_STOPPED)) + k))
          (w_ticks (demo_world 2 SERVICE_STOPPED) (w_nticks (demo_world 2 SERVICE_STOPPED)))"
    unfolding l t clock_advances_def using d [of 0] by (simp only: d u) simp
  then show ?thesis by (rule main_returns)
qed

theorem main_releases_handles_witness:
  "\<exists>w'. no_handles (demo_world 0 SERVICE_STOPPED) \<and>
     main_cmd [''scclone'', ''delete'', ''svc''] (demo_world 0 SERVICE_STOPPED) = Some (ExitCode 0, w') \<and>
     no_handles w'"
proof -
  have n: "no_handles (demo_world 0 SERVICE_STOPPED)" by (simp add: no_handles_def demo_world_def)
  obtain w' where r: "main_cmd [''scclone'', ''delete'', ''svc''] (demo_world 0 SERVICE_STOPPED) = Some (ExitCode 0, w')"
    by (simp add: main_cmd_def DeleteService_cmd_def api_defs demo_world_def exit_of_bool_def win_consts)
  show ?thesis using main_releases_handles [OF n r] n r by blast
qed

theorem main_registry_wf_witness:
  "\<exists>w'. registry_wf (demo_world 0 SERVICE_STOPPED) \<and>
     main_cmd [''scclone'', ''create'', ''/servicename'', ''new'', ''/binpath'', ''new.exe'', ''/type'', ''share'']
       (demo_world 0 SERVICE_STOPPED) = Some (ExitCode 0, w') \<and> registry_wf w'"
proof -
  have wf: "registry_wf (demo_world 0 SERVICE_STOPPED)"
    by (simp add: registry_wf_def services_ok_def demo_world_def demo_svc_def svc_type_wf_def win_consts)
  obtain w' where r: "main_cmd [''scclone'', ''create'', ''/servicename'', ''new'', ''/binpath'', ''new.exe'', ''/type'', ''share'']
       (demo_world 0 SERVICE_STOPPED) = Some (ExitCode 0, w')"
    by (simp add: main_cmd_def CreateService_cmd_def ParseArgs_def parse_args_loop.simps is_marker_def
        create_service_type_def api_defs set_description_def set_delayed_def wants_delayed_auto_def
        demo_world_def exit_of_bool_def win_consts Let_def)
  show ?thesis using main_registry_wf [OF wf r] wf r by blast
qed

text \<open>
  C10: config without a /type option crashes: ConfigService evaluates args.at("type") for a
  debug line, which throws std::out_of_range; nothing catches it, so the process terminates
  after opening the handles and before ChangeServiceConfigA is called.
\<close>

theorem config_without_type_terminates:
  assumes "argv ! 1 = ''config''" and "3 \<le> length argv" and "''type'' \<notin> dom (ParseArgs argv 3)"
    and "w_scm_up w" and "argv ! 2 \<in> dom (w_services w)" and "calls_succeed w 2"
  shows "\<exists>w'. main_cmd argv w = Some (Terminated ''std::out_of_range'', w') \<and>
           w_calls w' = w_calls w @ [OpenSCManager SC_MANAGER_CONNECT, OpenServiceA (argv ! 2) SERVICE_CHANGE_CONFIG]"
  using assms calls_succeed_first [OF assms(6)]
  by (auto simp: main_cmd_def ConfigService_cmd_def api_defs Let_def exit_of_outcome_def)

theorem config_without_type_terminates_witness:
  "\<exists>w'. main_cmd [''scclone'', ''config'', ''svc'', ''/start'', ''auto''] (demo_world 0 SERVICE_RUNNING)
        = Some (Terminated ''std::out_of_range'', w') \<and>
      w_calls w' = [OpenSCManager SC_MANAGER_CONNECT, OpenServiceA ''svc'' SERVICE_CHANGE_CONFIG]"
  using config_without_type_terminates [of "[''scclone'', ''config'', ''svc'', ''/start'', ''auto'']"
      "demo_world 0 SERVICE_RUNNING"]
  by (simp add: ParseArgs_def parse_args_loop.simps is_marker_def demo_world_def calls_succeed_def)

text \<open>
  C11: qdescription with its four registry calls succeeding reports success, prints the
  service name and its description, or "(no description)" for a service without one, and
  closes its handles: the size probe reports the size needed whether or not the structure
  fits, and the second call is given a buffer of that size.
\<close>

theorem qdescription_prints_description:
  assumes "w_scm_up w" and "w_services w n = Some c" and "calls_succeed w 4"
    and "description_size c < 2 ^ 32"
  shows "\<exists>w'. QueryServiceDescription_cmd n w = (True, w') \<and>
           w_out w' = w_out w @ [''SERVICE_NAME: '' @ n,
             ''DESCRIPTION: '' @ (case sc_description c of None \<Rightarrow> ''(no description)'' | Some s \<Rightarrow> s)] \<and>
           no_handles w'"
proof -
  have u: "unat (of_nat (description_size c) :: dword) = description_size c"
    using assms(4) by (simp add: of_nat_inverse)
  show ?thesis
    using assms calls_succeed_first [OF assms(3)] u
    by (auto simp: QueryServiceDescription_cmd_def api_defs close_both_def no_handles_def win_consts
        simp del: SIZEOF_SERVICE_DESCRIPTIONA_def description_size_def)
qed

theorem qdescription_prints_description_witness:
  "\<exists>w'. QueryServiceDescription_cmd ''svc'' (demo_world 0 SERVICE_RUNNING) = (True, w') \<and>
     w_out w' = [''SERVICE_NAME: svc'', ''DESCRIPTION: (no description)''] \<and> no_handles w'"
  using qdescription_prints_description [of "demo_world 0 SERVICE_RUNNING" "''svc''" demo_svc]
  by (simp add: demo_world_def demo_svc_def calls_succeed_def description_size_def
      SIZEOF_SERVICE_DESCRIPTIONA_def)

text \<open>
  C12: when the manager opens and CreateServiceA succeeds, create reports success and the new
  service holds the encoded type, start type, error control, binary path, display name
  (defaulting to the service name) and dependencies, whatever the secondary description and
  delayed-start updates do: they are not transactional with the primary create.
\<close>

theorem CreateService_stores_primary:
  assumes "args ''servicename'' = Some n" and "args ''binpath'' = Some p"
    and "create_service_type args = Inr t" and "w_scm_up w" and "n \<notin> dom (w_services w)"
    and "calls_succeed w 2"
  shows "\<exists>w' c. CreateService_cmd args w = (True, w') \<and> w_services w' n = Some c \<and>
           sc_type c = t \<and> sc_start c = create_start_type args \<and> sc_error c = create_error_control args \<and>
           sc_binpath c = Some p \<and> sc_display c = Some (case args ''displayname'' of None \<Rightarrow> n | Some d \<Rightarrow> d) \<and>
           sc_deps c = (case args ''depend'' of None \<Rightarrow> [] | Some v \<Rightarrow> multi_sz_read (depend_buffer v))"
proof -
  let ?P = "\<lambda>c. sc_type c = t \<and> sc_start c = create_start_type args \<and> sc_error c = create_error_control args \<and>
           sc_binpath c = Some p \<and> sc_display c = Some (case args ''displayname'' of None \<Rightarrow> n | Some d \<Rightarrow> d) \<and>
           sc_deps c = (case args ''depend'' of None \<Rightarrow> [] | Some v \<Rightarrow> multi_sz_read (depend_buffer v))"
  let ?cfg = "create_config args n p t"
  obtain ok1 w1 where o1: "OpenSCManager_api SC_MANAGER_ALL_ACCESS w = (ok1, w1)" by fastforce
  obtain ok2 w2 where o2: "CreateService_api n ?cfg w1 = (ok2, w2)" by fastforce
  have k: "ok1" "ok2" and s2: "w_services w2 n = Some ?cfg"
    using o1 o2 assms calls_succeed_first [OF assms(6)]
    by (auto simp: OpenSCManager_api_def CreateService_api_def reg_call_def scm_access_def win_consts
        split: if_splits)
  define w4 where "w4 = set_delayed args (set_description args (out (''Service created successfully: '' @ n) w2))"
  have e: "CreateService_cmd args w = (True, close_both (if args ''tag'' = Some ''yes'' then out ''Tag ID: '' w4 else w4))"
    using o1 o2 k assms(1-3) by (simp add: CreateService_cmd_def w4_def)
  have p0: "?P ?cfg" by (simp add: create_config_def)
  have s3: "w_services (out (''Service created successfully: '' @ n) w2) n = Some ?cfg"
    using s2 by (simp add: out_def)
  obtain c1 where c1: "w_services (set_description args (out (''Service created successfully: '' @ n) w2)) n = Some c1" "?P c1"
    using set_description_keeps [where P = ?P, OF _ s3 p0] by auto
  obtain c2 where c2: "w_services (set_delayed args (set_description args (out (''Service created successfully: '' @ n) w2))) n = Some c2" "?P c2"
    using set_delayed_keeps [where P = ?P, OF _ c1] by auto
  show ?thesis using e c2 by (auto simp: w4_def close_both_def close_scm_def close_service_def out_def)
qed

theorem CreateService_stores_primary_witness:
  "\<exists>w' c. CreateService_cmd [''servicename'' \<mapsto> ''new'', ''binpath'' \<mapsto> ''new.exe'', ''depend'' \<mapsto> ''a/b'']
              (demo_world 0 SERVICE_RUNNING) = (True, w') \<and> w_services w' ''new'' = Some c \<and>
     sc_type c = SERVICE_WIN32_OWN_PROCESS \<and> sc_start c = SERVICE_DEMAND_START \<and>
     sc_error c = SERVICE_ERROR_NORMAL \<and> sc_binpath c = Some ''new.exe'' \<and> sc_display c = Some ''new'' \<and>
     sc_deps c = multi_sz_read (depend_buffer ''a/b'')"
  using CreateService_stores_primary [of "[''servicename'' \<mapsto> ''new'', ''binpath'' \<mapsto> ''new.exe'', ''depend'' \<mapsto> ''a/b'']"
      "''new''" "''new.exe''" SERVICE_WIN32_OWN_PROCESS "demo_world 0 SERVICE_RUNNING"]
  by (simp add: create_service_type_def create_start_type_def create_error_control_def demo_world_def
      calls_succeed_def)

text \<open>
  C13: a missing /servicename or /binpath, or a bare /type interact, makes create fail before
  any registry call, leaving the registry unchanged.
\<close>

theorem CreateService_rejects_early:
  assumes "args ''servicename'' = None \<or> args ''binpath'' = None \<or> create_service_type args = Inl e"
  shows "fst (CreateService_cmd args w) = False \<and> w_calls (snd (CreateService_cmd args w)) = w_calls w \<and>
         w_services (snd (CreateService_cmd args w)) = w_services w"
  using assms by (auto simp: CreateService_cmd_def err_def)

theorem CreateService_rejects_early_witness:
  "fst (CreateService_cmd [''binpath'' \<mapsto> ''x.exe''] (demo_world 0 SERVICE_RUNNING)) = False \<and>
   w_calls (snd (CreateService_cmd [''binpath'' \<mapsto> ''x.exe''] (demo_world 0 SERVICE_RUNNING))) = [] \<and>
   w_services (snd (CreateService_cmd [''binpath'' \<mapsto> ''x.exe''] (demo_world 0 SERVICE_RUNNING))) =
     [''svc'' \<mapsto> demo_svc]"
  using CreateService_rejects_early [of "[''binpath'' \<mapsto> ''x.exe'']" undefined "demo_world 0 SERVICE_RUNNING"]
  by (simp add: demo_world_def)

text \<open>
  C14: config with /type given and its three registry calls succeeding reports success and
  stores, apart from the secondary updates, the service configuration with the type, start
  type and error control encoded from /type, /start and /error (kept where the encoder gives
  SERVICE_NO_CHANGE), and the binary path, load order group, dependencies, account and
  display name from /binpath, /group, /depend, /obj and /displayname (kept where absent).
\<close>

theorem ConfigService_applies:
  assumes "args ''type'' = Some ty" and "w_scm_up w" and "w_services w n = Some c" and "calls_succeed w 3"
  shows "\<exists>w' c'. ConfigService_cmd n args w = (Returned True, w') \<and> w_services w' n = Some c' \<and>
           c'\<lparr>sc_description := sc_description c, sc_delayed := sc_delayed c\<rparr> =
             c\<lparr>sc_type := keep_or (config_service_type args) (sc_type c),
               sc_start := keep_or (config_start_type args) (sc_start c),
               sc_error := keep_or (config_error_control args) (sc_error c),
               sc_binpath := keep_or_opt (args ''binpath'') (sc_binpath c),
               sc_group := keep_or_opt (args ''group'') (sc_group c),
               sc_deps := (case args ''depend'' of None \<Rightarrow> sc_deps c | Some d \<Rightarrow> multi_sz_read (depend_buffer d)),
               sc_account := keep_or_opt (args ''obj'') (sc_account c),
               sc_display := keep_or_opt (args ''displayname'') (sc_display c)\<rparr>"
proof -
  let ?c0 = "apply_change (config_request args) c"
  let ?P = "\<lambda>c'. c'\<lparr>sc_description := sc_description c, sc_delayed := sc_delayed c\<rparr> = ?c0"
  obtain ok1 w1 where o1: "OpenSCManager_api SC_MANAGER_CONNECT w = (ok1, w1)" by fastforce
  obtain ok2 w2 where o2: "OpenService_api n SERVICE_CHANGE_CONFIG w1 = (ok2, w2)" by fastforce
  have k: "ok1" "ok2" "w_svc w2 = Some (n, SERVICE_CHANGE_CONFIG)" "w_services w2 = w_services w"
    "w_fail w2 = w_fail w" "length (w_calls w2) = Suc (Suc (length (w_calls w)))"
    using o1 o2 assms calls_succeed_first [OF assms(4)]
    by (auto simp: OpenSCManager_api_def OpenService_api_def reg_call_def split: if_splits)
  define w4 where "w4 = out (''Debug - Type string from args: '' @ [CHR 0x27] @ ty @ [CHR 0x27])
                           (outs (config_debug_lines (ch_type (config_request args))) w2)"
  obtain ok3 w5 where o3: "ChangeServiceConfig_api (config_request args) w4 = (ok3, w5)" by fastforce
  have k3: "ok3" and s5: "w_services w5 n = Some ?c0"
    using o3 k assms calls_succeed_first [OF assms(4)]
    by (auto simp: ChangeServiceConfig_api_def change_config_def reg_call_def svc_config_of_def
        svc_access_def svc_name_def w4_def out_def outs_def win_consts)
  have e: "ConfigService_cmd n args w = (Returned True, close_both (out ''Service configuration updated successfully.''
               (set_delayed args (set_description args w5))))"
    using o1 o2 o3 k k3 assms(1) by (simp add: ConfigService_cmd_def w4_def)
  have p0: "?P ?c0" by (simp add: apply_change_def)
  obtain c1 where c1: "w_services (set_description args w5) n = Some c1" "?P c1"
    using set_description_keeps [where P = ?P, OF _ s5 p0] by auto
  obtain c2 where c2: "w_services (set_delayed args (set_description args w5)) n = Some c2" "?P c2"
    using set_delayed_keeps [where P = ?P, OF _ c1] by auto
  have r: "?c0 = c\<lparr>sc_type := keep_or (config_service_type args) (sc_type c),
               sc_start := keep_or (config_start_type args) (sc_start c),
               sc_error := keep_or (config_error_control args) (sc_error c),
               sc_binpath := keep_or_opt (args ''binpath'') (sc_binpath c),
               sc_group := keep_or_opt (args ''group'') (sc_group c),
               sc_deps := (case args ''depend'' of None \<Rightarrow> sc_deps c | Some d \<Rightarrow> multi_sz_read (depend_buffer d)),
               sc_account := keep_or_opt (args ''obj'') (sc_account c),
               sc_display := keep_or_opt (args ''displayname'') (sc_display c)\<rparr>"
    by (simp add: apply_change_def config_request_def split: option.split)
  show ?thesis using e c2 r by (auto simp: close_both_def close_scm_def close_service_def out_def)
qed

theorem ConfigService_applies_witness:
  "\<exists>w' c'. ConfigService_cmd ''svc'' [''type'' \<mapsto> ''share'', ''start'' \<mapsto> ''auto''] (demo_world 0 SERVICE_RUNNING)
      = (Returned True, w') \<and> w_services w' ''svc'' = Some c' \<and>
     c'\<lparr>sc_description := None, sc_delayed := False\<rparr> =
       demo_svc\<lparr>sc_type := SERVICE_WIN32_SHARE_PROCESS, sc_start := SERVICE_AUTO_START\<rparr>"
proof -
  have "config_service_type [''type'' \<mapsto> ''share'', ''start'' \<mapsto> ''auto''] = SERVICE_WIN32_SHARE_PROCESS"
    "config_start_type [''type'' \<mapsto> ''share'', ''start'' \<mapsto> ''auto''] = SERVICE_AUTO_START"
    "config_error_control [''type'' \<mapsto> ''share'', ''start'' \<mapsto> ''auto''] = SERVICE_NO_CHANGE"
    by (simp_all add: config_service_type_def config_start_type_def config_error_control_def win_consts)
  then show ?thesis
    using ConfigService_applies [of "[''type'' \<mapsto> ''share'', ''start'' \<mapsto> ''auto'']" "''share''"
        "demo_world 0 SERVICE_RUNNING" "''svc''" demo_svc]
    by (simp add: demo_world_def demo_svc_def calls_succeed_def keep_or_def keep_or_opt_def win_consts)
qed

text \<open>
  C15: failure without /actions leaves the stored reset period unchanged, whatever /reset says:
  with no action array the service manager ignores dwResetPeriod.
\<close>

theorem failure_reset_needs_actions:
  assumes "args ''actions'' = None" and "w_scm_up w" and "w_services w n = Some c" and "calls_succeed w 3"
  shows "\<exists>w' c'. SetServiceFailureActions_cmd n args w = (Returned True, w') \<and> w_services w' n = Some c' \<and>
           map_option fa_reset (sc_failure c') =
             Some (fa_reset (case sc_failure c of None \<Rightarrow> empty_failure | Some f \<Rightarrow> f))"
proof -
  obtain fa ws where b: "build_failure_actions args = Inr (fa, ws)" and a: "fa_actions fa = []"
    using assms(1) by (cases "reset_period args") (auto simp: build_failure_actions_def)
  from failure_cmd_stores [OF b assms(2-4)] obtain w4 v w5 where o4: "QueryFailure_api w4 = (v, w5)"
    and s4: "w_services w4 n = Some (c\<lparr>sc_failure := Some (apply_failure fa (sc_failure c))\<rparr>)"
    and e: "SetServiceFailureActions_cmd n args w =
             (Returned True, close_both (out ''Service failure actions configured successfully.''
                (case v of None \<Rightarrow> err ''Warning: Failed to verify configuration: '' w5
                 | Some f \<Rightarrow> outs (verify_lines f) w5)))" by blast
  show ?thesis
    using e s4 QueryFailure_api_frame [OF o4] a
    by (auto simp: apply_failure_def Let_def close_both_def close_scm_def close_service_def out_def err_def
        outs_def split: option.splits)
qed

theorem failure_reset_needs_actions_witness:
  "\<exists>w' c'. SetServiceFailureActions_cmd ''svc'' [''reset'' \<mapsto> ''60''] (demo_world 0 SERVICE_RUNNING)
      = (Returned True, w') \<and> w_services w' ''svc'' = Some c' \<and> map_option fa_reset (sc_failure c') = Some 0"
  using failure_reset_needs_actions [of "[''reset'' \<mapsto> ''60'']" "demo_world 0 SERVICE_RUNNING" "''svc''" demo_svc]
  by (simp add: demo_world_def demo_svc_def calls_succeed_def empty_failure_def)

text \<open>
  C16: failure with at least one action stores the actions and the reset period, but its
  verification query, made with a buffer of sizeof(SERVICE_FAILURE_ACTIONSA), can never
  hold them and always prints the warning "Failed to verify configuration".
\<close>

theorem failure_verify_warns:
  assumes "build_failure_actions args = Inr (fa, ws)" and "fa_actions fa \<noteq> []"
    and "w_scm_up w" and "w_services w n = Some c" and "calls_succeed w 3"
  shows "\<exists>w' c'. SetServiceFailureActions_cmd n args w = (Returned True, w') \<and> w_services w' n = Some c' \<and>
           map_option fa_actions (sc_failure c') = Some (fa_actions fa) \<and>
           map_option fa_reset (sc_failure c') = Some (fa_reset fa) \<and>
           ''Warning: Failed to verify configuration: '' \<in> set (w_err w')"
proof -
  from failure_cmd_stores [OF assms(1,3-5)] obtain w4 v w5 where o4: "QueryFailure_api w4 = (v, w5)"
    and s4: "w_services w4 n = Some (c\<lparr>sc_failure := Some (apply_failure fa (sc_failure c))\<rparr>)"
    and h4: "w_svc w4 = Some (n, SERVICE_ALL_ACCESS)"
    and e: "SetServiceFailureActions_cmd n args w =
             (Returned True, close_both (out ''Service failure actions configured successfully.''
                (case v of None \<Rightarrow> err ''Warning: Failed to verify configuration: '' w5
                 | Some f \<Rightarrow> outs (verify_lines f) w5)))" by blast
  have v: "v = None"
    using o4 s4 h4 assms(2)
    by (auto simp: QueryFailure_api_def reg_call_def svc_config_of_def apply_failure_def Let_def)
  show ?thesis
    using e s4 QueryFailure_api_frame [OF o4] assms(2) v
    by (auto simp: apply_failure_def Let_def close_both_def close_scm_def close_service_def out_def err_def)
qed

theorem failure_verify_warns_witness:
  "\<exists>w' c'. SetServiceFailureActions_cmd ''svc'' [''actions'' \<mapsto> ''restart/60''] (demo_world 0 SERVICE_RUNNING)
      = (Returned True, w') \<and> w_services w' ''svc'' = Some c' \<and>
     map_option fa_actions (sc_failure c') = Some [\<lparr>act_type = SC_ACTION_RESTART, act_delay = 60000\<rparr>] \<and>
     map_option fa_reset (sc_failure c') = Some 86400 \<and>
     ''Warning: Failed to verify configuration: '' \<in> set (w_err w')"
proof -
  have tok: "actions_tokens ''restart/60'' = [''restart'', ''60'']"
    by (simp add: actions_tokens_def erase_char_def split_actions.simps str_find_cons_0 str_find_Nil
        trim_token_def find_last_not_of_def blank_chars_def)
  have b: "build_failure_actions [''actions'' \<mapsto> ''restart/60''] =
      Inr (\<lparr>fa_reset = 86400, fa_reboot_msg = None, fa_command = None,
            fa_actions = [\<lparr>act_type = SC_ACTION_RESTART, act_delay = 60000\<rparr>]\<rparr>, [])"
    by (simp add: build_failure_actions_def reset_period_def tok parse_action_pairs_ref
        action_type_of_def delay_of_def stoi_def c_isspace_def c_isdigit_def digits_value_def
        INT_MIN_def INT_MAX_def win_consts)
  show ?thesis
    using failure_verify_warns [OF b, of "demo_world 0 SERVICE_RUNNING" "''svc''" demo_svc]
    by (simp add: demo_world_def calls_succeed_def)
qed

text \<open>
  C17: query with all five registry calls succeeding prints the six report lines: the
  display name (or "(none)"), the type, start type and state strings of the stored
  configuration and of the queried state, the PID label, and the binary path (or "(none)");
  and it closes its handles.
\<close>

theorem QueryService_report:
  assumes "w_scm_up w" and "w_services w n = Some c" and "calls_succeed w 5"
  shows "\<exists>w'. QueryService_cmd n w = (True, w') \<and>
           w_out w' = w_out w @
             [''DISPLAY_NAME: '' @ (case sc_display c of None \<Rightarrow> ''(none)'' | Some d \<Rightarrow> d),
              ''TYPE        : '' @ GetServiceTypeString (sc_type c),
              ''START_TYPE  : '' @ GetServiceStartTypeString (sc_start c),
              ''STATE       : '' @ GetServiceStateString (w_status w (w_nstatus w)),
              ''PID         : '',
              ''BINARY_PATH : '' @ (case sc_binpath c of None \<Rightarrow> ''(none)'' | Some p \<Rightarrow> p)] \<and>
           no_handles w'"
  using assms calls_succeed_first [OF assms(3)]
  by (auto simp: QueryService_cmd_def query_report_def api_defs Let_def close_both_def no_handles_def
      win_consts)

theorem QueryService_report_witness:
  "\<exists>w'. QueryService_cmd ''svc'' (demo_world 0 SERVICE_RUNNING) = (True, w') \<and>
     w_out w' = [''DISPLAY_NAME: (none)'', ''TYPE        : WIN32_OWN_PROCESS'', ''START_TYPE  : DEMAND'',
                 ''STATE       : RUNNING'', ''PID         : '', ''BINARY_PATH : svc.exe''] \<and> no_handles w'"
proof -
  have "GetServiceTypeString (sc_type demo_svc) = ''WIN32_OWN_PROCESS''"
    "GetServiceStartTypeString (sc_start demo_svc) = ''DEMAND''"
    "GetServiceStateString SERVICE_RUNNING = ''RUNNING''"
    by (simp_all add: demo_svc_def GetServiceTypeString_def GetServiceStartTypeString_def
        GetServiceStateString_def win_consts)
  then show ?thesis
    using QueryService_report [of "demo_world 0 SERVICE_RUNNING" "''svc''" demo_svc]
    by (simp add: demo_world_def demo_svc_def calls_succeed_def)
qed

text \<open>
  C18: delete with its three registry calls succeeding removes the service and only it, and
  reports success.
\<close>

theorem DeleteService_removes:
  assumes "w_scm_up w" and "n \<in> dom (w_services w)" and "calls_succeed w 3"
  shows "\<exists>w'. DeleteService_cmd n w = (True, w') \<and> w_services w' = (w_services w)(n := None) \<and>
           w_out w' = w_out w @ [''Service deleted successfully: '' @ n]"
  using assms calls_succeed_first [OF assms(3)]
  by (auto simp: DeleteService_cmd_def api_defs close_both_def win_consts)

theorem DeleteService_removes_witness:
  "\<exists>w'. DeleteService_cmd ''svc'' (demo_world 0 SERVICE_RUNNING) = (True, w') \<and> w_services w' = Map.empty \<and>
     w_out w' = [''Service deleted successfully: svc'']"
  using DeleteService_removes [of "demo_world 0 SERVICE_RUNNING" "''svc''"]
  by (simp add: demo_world_def calls_succeed_def)

text \<open>
  C19: a command line without a command, with an unknown command, or with a command that needs
  a service name but has none makes the program exit with 1 without any registry call,
  printing the usage text unless the command was known.
\<close>

theorem main_bad_command_line:
  assumes "length argv < 2 \<or> (length argv = 2 \<and> argv ! 1 \<noteq> ''create'') \<or> argv ! 1 \<notin> set known_commands"
  shows "\<exists>w'. main_cmd argv w = Some (ExitCode 1, w') \<and> w_calls w' = w_calls w \<and>
           w_services w' = w_services w \<and> w_out w' = w_out w @ (if 2 \<le> length argv \<and> argv ! 1 \<in> set known_commands then [] else usage_lines)"
  using assms
  by (auto simp: main_cmd_def known_commands_def missing_name_def err_def outs_def Let_def)

theorem main_bad_command_line_witness:
  "\<exists>w'. main_cmd [''scclone'', ''frobnicate''] (demo_world 0 SERVICE_RUNNING) = Some (ExitCode 1, w') \<and>
     w_calls w' = [] \<and> w_services w' = [''svc'' \<mapsto> demo_svc] \<and> w_out w' = usage_lines"
  using main_bad_command_line [of "[''scclone'', ''frobnicate'']" "demo_world 0 SERVICE_RUNNING"]
  by (simp add: known_commands_def demo_world_def)

text \<open>
  C36: when the service control manager cannot be opened, each of query, qdescription,
  start, stop, delete and config (given a service name) exits with code 1 after exactly one
  registry call, \<open>OpenSCManager(SC_MANAGER_CONNECT)\<close>, having printed only
  "Failed to open service control manager: " on the error stream and changed nothing else.
\<close>

theorem main_manager_unavailable:
  assumes "argv ! 1 \<in> {''query'', ''qdescription'', ''start'', ''stop'', ''delete'', ''config''}"
    and "2 < length argv" and "\<not> w_scm_up w"
  shows "main_cmd argv w = Some (ExitCode 1,
           w\<lparr>w_calls := w_calls w @ [OpenSCManager SC_MANAGER_CONNECT],
             w_err := w_err w @ [''Failed to open service control manager: '']\<rparr>)"
  using assms
  by (auto simp: main_cmd_def QueryService_cmd_def QueryServiceDescription_cmd_def StartService_cmd_def
      StopService_cmd_def DeleteService_cmd_def ConfigService_cmd_def OpenSCManager_api_def reg_call_def
      err_def exit_of_bool_def exit_of_outcome_def)

theorem main_manager_unavailable_witness:
  "main_cmd [''scclone'', ''stop'', ''svc''] ((demo_world 0 SERVICE_RUNNING)\<lparr>w_scm_up := False\<rparr>) =
     Some (ExitCode 1, (demo_world 0 SERVICE_RUNNING)\<lparr>w_scm_up := False,
       w_calls := [OpenSCManager SC_MANAGER_CONNECT],
       w_err := [''Failed to open service control manager: '']\<rparr>)"
  using main_manager_unavailable [of "[''scclone'', ''stop'', ''svc'']" "(demo_world 0 SERVICE_RUNNING)\<lparr>w_scm_up := False\<rparr>"]
  by (simp add: demo_world_def)

end
