(* ===== verification/Spec2Isabelle.thy ===== *)
theory Spec2Isabelle
  imports Scc_Commands
begin

text \<open>
  \<^bold>\<open>A verification model of scclone.\<close>

  scclone (\<open>src/main-scclone.cpp\<close>, one C++ file) is a clone of the Windows \<open>sc\<close> tool:
  \<open>main\<close> dispatches on the command name to \<open>QueryService\<close>, \<open>CreateService\<close>,
  \<open>QueryServiceDescription\<close>, \<open>StartService\<close>, \<open>StopService\<close>, \<open>DeleteService\<close>,
  \<open>ConfigService\<close> and \<open>SetServiceFailureActions\<close>. The commands that take options
  first run \<open>ParseArgs\<close>, which turns \<open>/key value\<close> tokens into a
  \<open>std::map<std::string, std::string>\<close>; create and config translate the map into the
  DWORD fields and the double-NUL dependency buffer of the service manager's API;
  failure parses the \<open>/actions\<close> string into a \<open>SERVICE_FAILURE_ACTIONSA\<close>; start and
  stop issue a control request and poll the service state every 250 ms until it settles or
  30 s pass. Every command talks to the service manager through handles, which it must
  close on every exit path.

  \<^bold>\<open>Theories.\<close>
  \<^item> \<open>Scc_Prelude\<close>: the machine types (\<open>dword\<close> = 32-bit word for DWORD,
    \<open>ulonglong\<close> and \<open>size_t\<close> = 64-bit words), the \<open>winsvc.h\<close> constants (collection
    \<open>win_consts\<close>), and the \<open>std::string\<close> operations the source calls (\<open>find\<close>,
    \<open>find_first_not_of\<close>, \<open>find_last_not_of\<close>, erase/remove, \<open>isspace\<close>) with their
    lemmas, and word lemmas (unsigned subtraction chains, \<open>size() - 1\<close> wrap).
  \<^item> \<open>Scc_Args\<close>: \<open>ParseArgs\<close> (lines 120-141) as the index loop \<open>parse_args_loop\<close>
    with a termination measure; it refines a reference pair list \<open>arg_pairs\<close> read with
    the last pair of each key winning.
  \<^item> \<open>Scc_Encoders\<close>: the field encoders of \<open>CreateService\<close> (start type, service type,
    error control, delayed auto-start, lines 310-347, 438-444) and of \<open>ConfigService\<close>
    (lines 760-792), and the \<open>/depend\<close> encoding (the slash-to-NUL find/replace loop,
    lines 364-377) with the service manager's reading of a multi-string
    (\<open>multi_sz_read\<close>, modelled from the API documentation).
  \<^item> \<open>Scc_Failure\<close>: the pure part of \<open>SetServiceFailureActions\<close> (lines 920-1046):
    \<open>std::stoi\<close> (modelled from the C++ standard, with its two exceptions as values),
    the reset period, the split/trim/erase loop over \<open>/actions\<close>, and the \<open>size_t\<close>
    bounded pair loop, with out-of-range reads and \<open>int\<close> overflow as values of the
    datatype \<open>ub\<close>.
  \<^item> \<open>Scc_Registry\<close>: the environment, not repository code: the service manager,
    \<open>GetTickCount64\<close> and \<open>Sleep\<close> as a record \<open>world\<close> holding the services, the
    open handles with their access masks, scripts for the environment's choices (which
    registry call fails, what each status query reports, what each tick read returns),
    and the observable effects (calls made in order, lines printed, time slept). Each API
    function is one definition that checks the access right the documentation requires.
    The size probes follow the API's buffer protocol: a call reports the size it needs in
    its out parameter and fails with \<open>ERROR_INSUFFICIENT_BUFFER\<close> when the buffer is
    smaller.
  \<^item> \<open>Scc_Lifecycle\<close>: \<open>StartService\<close> (lines 521-584) and \<open>StopService\<close>
    (lines 593-674) as functions from a world to \<open>(bool \<times> world) option\<close>,
    every registry call and every early return a branch; their common polling loop is
    \<open>poll_loop\<close>, a \<open>partial_function (option)\<close> (with a clock that does not advance
    it does not return, and \<open>None\<close> is that outcome). The spec's controller (section 4.4:
    Idle, ControlRequested, Waiting, Settled, TimedOut, Failed) is the inductive relation
    \<open>lc_step\<close>.
  \<^item> \<open>Scc_Report\<close>: \<open>GetServiceStateString\<close>, \<open>GetServiceTypeString\<close>,
    \<open>GetServiceStartTypeString\<close> (lines 149-200), with reference decoders of the
    reports.
  \<^item> \<open>Scc_Commands\<close>: the other handlers, \<open>QueryService\<close> (213-290),
    \<open>CreateService\<close> (299-455), \<open>QueryServiceDescription\<close> (464-512),
    \<open>DeleteService\<close> (683-714), \<open>ConfigService\<close> (724-891),
    \<open>SetServiceFailureActions\<close> (902-1093, reusing the builder of \<open>Scc_Failure\<close>),
    and \<open>main\<close> (1104-1186) with \<open>PrintUsage\<close>. A handler that can leave defined C++
    behaviour returns a \<open>cmd_outcome\<close>: \<open>Returned\<close> the bool the source returns,
    \<open>Uncaught\<close> an exception that terminates the process, \<open>Undefined\<close> the
    undefined behaviour of the builder; \<open>main_cmd\<close> maps them to an \<open>exit_status\<close>.
    The secondary updates of create and config (description, delayed auto-start) are
    \<open>set_description\<close> and \<open>set_delayed\<close>, shared as the source repeats them.

  Components interact only through the world: \<open>main_cmd\<close> calls \<open>ParseArgs\<close> and
  one handler; a handler calls the encoders and builders, then the API functions of
  \<open>Scc_Registry\<close>, which check the handle's access mask, record the call and change
  the registry. Every API function's failure is the environment's choice
  (\<open>w_fail\<close>); the properties state which calls they need to succeed
  (\<open>calls_succeed w m\<close>: the next \<open>m\<close> calls).

  \<^bold>\<open>What is proved.\<close>
  \<^item> Lifecycle: every returning run of the polling loop is a run of \<open>lc_step\<close> from
    Waiting (refinement, by \<open>poll_loop.raw_induct\<close>); with a clock that advances at least
    the 250 ms slept and at most \<open>2^32\<close> ms per iteration the loop returns within 122
    status queries (the bound: 121 * 250 = 30250 > 30000; the per-step bound keeps the
    elapsed time of 122 steps below \<open>2^64\<close>, so the unsigned difference
    \<open>GetTickCount64() - startTime\<close> never wraps); a service that never settles times out
    after exactly 122 queries and 30250 ms for every start time; the spec's tests for stop
    (3 queries when the service stops after two polls; no control request when it is
    already stopped); and start's report of a failed \<open>StartServiceA\<close> (the calls it made,
    the error line, its handles closed).
  \<^item> The whole program (\<open>main_cmd\<close>): every invocation returns under the same clock
    assumption (liveness); every invocation that exits with a code has closed all
    handles; every stored service type stays well formed (an invariant of the registry,
    preserved by every command); when the manager cannot be opened, every command that
    opens it first exits with 1 after that one call.
  \<^item> Commands: config without \<open>/type\<close> terminates with \<open>std::out_of_range\<close>;
    qdescription prints the stored description or "(no description)"; create stores the
    encoded configuration whatever the secondary updates do, and rejects missing
    parameters and a bare interact type before any call; config stores the fields encoded
    from \<open>/type\<close>, \<open>/start\<close>, \<open>/error\<close> and the strings of its other options; failure ignores \<open>/reset\<close> without \<open>/actions\<close>, and its
    verification always warns once actions are stored; query prints its six report lines;
    delete removes exactly the named service.
  \<^item> Report: the type and state strings read back to the printed flags and the state
    (round trips); create's start type and error control are always enumeration values.
  \<^item> Argument map: refinement to the pair list read with the last pair of each key
    winning, the key set, and that no value starts with the marker.
  \<^item> Encoders: every submitted service type is well formed; the dependency round trip
    for names without slash, and what the service manager reads for any input (it stops
    at an empty name); the loop equals a character map; the divergences between create and
    config.
  \<^item> Failure actions: the index loop equals a reference reader on non-empty input, the
    action count and order, the splitting loop equals a reference split, the DWORD values
    of delays and reset period with their wrap-around, and the two undefined behaviours.

  \<^bold>\<open>Findings.\<close> \<open>StartService\<close> opens the service with \<open>SERVICE_START\<close> only and then
  queries its status, which the API documentation says needs \<open>SERVICE_QUERY_STATUS\<close>;
  under that rule start reports failure on every path (the helper lemma
  \<open>StartService_cmd_fails\<close>), which disagrees with the source's own note that start was
  validated, so the access rule or the note is wrong. \<open>ConfigService\<close> reads
  \<open>args.at("type")\<close> unconditionally and crashes without \<open>/type\<close>. The
  failure-actions verification query always fails once actions are stored (its buffer is
  fixed-size). \<open>/reset\<close> without \<open>/actions\<close> is ignored by the service manager.
  An empty \<open>/actions\<close> value makes \<open>pairs.size() - 1\<close> wrap and the loop read out of
  range; a delay above 2147483 s overflows \<open>int\<close>; an empty segment in \<open>/depend\<close>
  silently drops the names after it; config treats \<open>delayed-auto\<close>, \<open>interact\<close> and
  unknown start types as no change where create does not; the type report omits the
  recognizer-driver flag.

  \<^bold>\<open>Not modelled.\<close> The text of \<open>GetLastErrorAsString\<close> (printed lines keep their
  fixed prefix only), numbers the operating system chooses (the PID of the query report, the
  tag of create), the exception text \<open>e.what()\<close> in the warnings of the failure builder,
  the unterminated prefix of the debug line \<open>ConfigService\<close> writes before
  \<open>args.at("type")\<close> throws, the UTF-8/UTF-16 conversions \<open>StringToWString\<close> and
  \<open>WStringToString\<close> (strings are taken as converted), the progress lines the failure
  builder prints on \<open>std::cout\<close> before its API call, and the service manager itself
  beyond its documented contract in \<open>Scc_Registry\<close> (for example the privilege a reboot
  action needs). Program output is modelled as the two lists of lines on \<open>std::cout\<close>
  and \<open>std::cerr\<close>, not their interleaving.
\<close>

end
